theory Spec2Isabelle
  imports Complex_Main
begin

section \<open>Matrix math utilities (languageModel.ts)\<close>

text \<open>
  A JavaScript number is modelled as an exact real; the three messages that \<open>dot\<close>,
  \<open>subtract\<close> and \<open>multiply\<close> throw are the three values of \<open>error\<close>.
  A \<open>Matrix\<close> is the interface of types.ts: the two dimension fields and the row-major
  data.  The loops of the source run over the dimension fields and read \<open>data[i][j]\<close>;
  \<open>entry\<close> is that read.  The interface's invariant (as many rows as \<open>rows\<close>, every row as long
  as \<open>cols\<close>) is \<open>wf_matrix\<close>; outside it a read of the source yields \<open>undefined\<close>, which
  the model does not represent, so every statement about data below assumes it.
\<close>

record Matrix =
  rows :: nat
  cols :: nat
  data :: "real list list"

datatype error = DotMismatch | SubtractMismatch | MultiplyMismatch

definition wf_matrix :: "Matrix \<Rightarrow> bool" where
  "wf_matrix m \<longleftrightarrow> length (data m) = rows m \<and> list_all (\<lambda>r. length r = cols m) (data m)"

definition shaped :: "nat \<Rightarrow> nat \<Rightarrow> Matrix \<Rightarrow> bool" where
  "shaped r c m \<longleftrightarrow> wf_matrix m \<and> rows m = r \<and> cols m = c"

definition entry :: "Matrix \<Rightarrow> nat \<Rightarrow> nat \<Rightarrow> real" where
  "entry m i j = data m ! i ! j"

text \<open>The result of \<open>createMatrix(r, c)\<close> after a double loop has stored \<open>f i j\<close> at every position.\<close>

definition tabulate :: "nat \<Rightarrow> nat \<Rightarrow> (nat \<Rightarrow> nat \<Rightarrow> real) \<Rightarrow> Matrix" where
  "tabulate r c f = \<lparr>rows = r, cols = c, data = map (\<lambda>i. map (\<lambda>j. f i j) [0..<c]) [0..<r]\<rparr>"

definition createMatrix :: "nat \<Rightarrow> nat \<Rightarrow> real \<Rightarrow> Matrix" where
  "createMatrix r c fill = \<lparr>rows = r, cols = c, data = replicate r (replicate c fill)\<rparr>"

text \<open>
  \<open>createMatrix\<close> with a fill function that draws from \<open>Math.random\<close>: the ambient generator is
  the sequence \<open>rnd\<close> read from position \<open>pos\<close>, one draw per element in row-major order; the
  new position is returned.
\<close>

definition createMatrixRandom ::
  "nat \<Rightarrow> nat \<Rightarrow> (real \<Rightarrow> real) \<Rightarrow> (nat \<Rightarrow> real) \<Rightarrow> nat \<Rightarrow> Matrix \<times> nat" where
  "createMatrixRandom r c fill rnd pos =
     (tabulate r c (\<lambda>i j. fill (rnd (pos + i * c + j))), pos + r * c)"

text \<open>
  \<open>dot\<close>, \<open>subtract\<close> and \<open>multiply\<close> first compare the dimension fields and throw on a
  mismatch; \<open>dot_loops\<close>, \<open>subtract_loops\<close> and \<open>multiply_loops\<close> are their loops.  In
  exact arithmetic the accumulation \<open>sum += a[i][k] * b[k][j]\<close> from 0 is the sum of the list
  of products.
\<close>

definition dot_loops :: "Matrix \<Rightarrow> Matrix \<Rightarrow> Matrix" where
  "dot_loops a b =
     tabulate (rows a) (cols b) (\<lambda>i j. sum_list (map (\<lambda>k. entry a i k * entry b k j) [0..<cols a]))"

definition dot :: "Matrix \<Rightarrow> Matrix \<Rightarrow> error + Matrix" where
  "dot a b = (if cols a \<noteq> rows b then Inl DotMismatch else Inr (dot_loops a b))"

text \<open>
  \<open>add\<close> never throws.  Its broadcast branch reads \<open>b.data[0][j]\<close> for every \<open>j < a.cols\<close>;
  for a \<open>b\<close> narrower than \<open>a\<close> the source reads \<open>undefined\<close> there and stores \<open>NaN\<close>, which
  a real entry does not represent, so every statement about that branch takes
  \<open>cols a \<le> cols b\<close>.
\<close>

definition add :: "Matrix \<Rightarrow> Matrix \<Rightarrow> Matrix" where
  "add a b =
     (if rows a \<noteq> rows b \<or> cols a \<noteq> cols b then
        (if 1 < rows a \<and> rows b = 1
         then tabulate (rows a) (cols a) (\<lambda>i j. entry a i j + entry b 0 j)
         else a)
      else tabulate (rows a) (cols a) (\<lambda>i j. entry a i j + entry b i j))"

definition subtract_loops :: "Matrix \<Rightarrow> Matrix \<Rightarrow> Matrix" where
  "subtract_loops a b = tabulate (rows a) (cols a) (\<lambda>i j. entry a i j - entry b i j)"

definition subtract :: "Matrix \<Rightarrow> Matrix \<Rightarrow> error + Matrix" where
  "subtract a b =
     (if rows a \<noteq> rows b \<or> cols a \<noteq> cols b then Inl SubtractMismatch
      else Inr (subtract_loops a b))"

definition multiply_loops :: "Matrix \<Rightarrow> Matrix \<Rightarrow> Matrix" where
  "multiply_loops a b = tabulate (rows a) (cols a) (\<lambda>i j. entry a i j * entry b i j)"

definition multiply :: "Matrix \<Rightarrow> Matrix \<Rightarrow> error + Matrix" where
  "multiply a b =
     (if rows a \<noteq> rows b \<or> cols a \<noteq> cols b then Inl MultiplyMismatch
      else Inr (multiply_loops a b))"

definition scale :: "Matrix \<Rightarrow> real \<Rightarrow> Matrix" where
  "scale m s = tabulate (rows m) (cols m) (\<lambda>i j. entry m i j * s)"

definition transpose :: "Matrix \<Rightarrow> Matrix" where
  "transpose m = tabulate (cols m) (rows m) (\<lambda>j i. entry m i j)"

definition map_matrix :: "Matrix \<Rightarrow> (real \<Rightarrow> real) \<Rightarrow> Matrix" where
  "map_matrix m fn = tabulate (rows m) (cols m) (\<lambda>i j. fn (entry m i j))"

definition ones :: "nat \<Rightarrow> nat \<Rightarrow> Matrix" where
  "ones r c = createMatrix r c 1"

definition clip :: "Matrix \<Rightarrow> Matrix" where
  "clip m = map_matrix m (\<lambda>v. max (- 5) (min 5 v))"

text \<open>Sequencing of calls that may throw: the first error ends the computation.\<close>

definition andThen :: "error + 'a \<Rightarrow> ('a \<Rightarrow> error + 'b) \<Rightarrow> error + 'b" where
  "andThen x f = (case x of Inl e \<Rightarrow> Inl e | Inr v \<Rightarrow> f v)"

text \<open>A \<open>for\<close> loop over the index list \<open>ts\<close> whose body may throw.\<close>

primrec forEach :: "('i \<Rightarrow> 's \<Rightarrow> error + 's) \<Rightarrow> 'i list \<Rightarrow> 's \<Rightarrow> error + 's" where
  "forEach body [] s = Inr s"
| "forEach body (i # ts) s = andThen (body i s) (forEach body ts)"

section \<open>Activation functions\<close>

definition dtanh :: "real \<Rightarrow> real" where
  "dtanh y = 1 - y * y"

definition sigmoid :: "real \<Rightarrow> real" where
  "sigmoid x = 1 / (1 + exp (- x))"

definition dsigmoid :: "real \<Rightarrow> real" where
  "dsigmoid y = y * (1 - y)"

text \<open>
  \<open>softmax\<close> works on the whole first data row.  \<open>softmax_exps\<close> are the exponentials after
  the row maximum is subtracted, \<open>softmax_sumExps\<close> their sum, and \<open>sumExps || 1\<close> is the
  fallback to 1 when the sum is zero.
\<close>

definition softmax_exps :: "real list \<Rightarrow> real list" where
  "softmax_exps row = (let maxVal = Max (set row) in map (\<lambda>x. exp (x - maxVal)) row)"

definition softmax_sumExps :: "real list \<Rightarrow> real" where
  "softmax_sumExps row = foldl (\<lambda>a b. a + b) 0 (softmax_exps row)"

definition softmax :: "Matrix \<Rightarrow> Matrix" where
  "softmax m =
     (if data m = [] \<or> hd (data m) = [] then createMatrix 1 (cols m) 0
      else
        let exps = softmax_exps (hd (data m));
            sumExps = softmax_sumExps (hd (data m))
        in \<lparr>rows = 1, cols = cols m,
            data = [map (\<lambda>e. e / (if sumExps = 0 then 1 else sumExps)) exps]\<rparr>)"

section \<open>Model state (types.ts)\<close>

text \<open>
  The four model interfaces share \<open>vocab\<close> and \<open>tokenToIndex\<close>, and the three recurrent ones
  share \<open>Why\<close> and \<open>h\<close>; the shared fields are parent records.  The \<open>type\<close> tag of the source
  is the record type itself.
\<close>

record Layer =
  weights :: Matrix
  biases :: Matrix

record ModelBase =
  vocab :: "string list"
  tokenToIndex :: "string \<rightharpoonup> int"

record FFNNModel = ModelBase +
  hiddenLayer :: Layer
  outputLayer :: Layer

record RecurrentBase = ModelBase +
  Why :: Layer
  h :: Matrix

record RNNModel = RecurrentBase +
  Wxh :: Layer
  Whh :: Layer

record GRULanguageModel = RecurrentBase +
  Wz :: Layer
  Uz :: Layer
  Wr :: Layer
  Ur :: Layer
  Wh :: Layer
  Uh :: Layer

record LSTMLanguageModel = RecurrentBase +
  Wf :: Layer
  Uf :: Layer
  Wi :: Layer
  Ui :: Layer
  Wo :: Layer
  Uo :: Layer
  Wc :: Layer
  Uc :: Layer
  c :: Matrix

text \<open>
  A token that may be \<open>undefined\<close> is a \<open>string option\<close>, an index that may be \<open>undefined\<close>
  an \<open>int option\<close>, and a loss that may be \<open>NaN\<close> (the probability read at an index outside
  the row) a \<open>real option\<close>.
\<close>

record TokenTriple =
  inputToken :: "string option"
  targetToken :: "string option"
  predictedToken :: "string option"

record Activations =
  act_hidden :: Matrix
  act_output :: "Matrix option"
  act_outputRaw :: "Matrix option"

record GateActivations =
  gate_z :: "Matrix option"
  gate_r :: "Matrix option"
  gate_f :: "Matrix option"
  gate_i :: "Matrix option"
  gate_o :: "Matrix option"

record 'm TrainStepResult = TokenTriple +
  updatedModel :: 'm
  loss :: "real option"
  predictionResults :: "TokenTriple list"
  activations :: "Activations option"
  gradients :: "(Layer \<times> Layer) option"
  gateActivations :: "GateActivations option"

section \<open>Array reads and writes of the training steps\<close>

text \<open>
  \<open>xs[i]\<close> for a number or \<open>undefined\<close> \<open>i\<close>: outside the array the read is \<open>undefined\<close>.
  \<open>row[i] = f(row[i])\<close> changes the entry when \<open>i\<close> is inside the row; outside, the source
  grows the array or sets a property, which no loop over \<open>cols\<close> ever reads, and the row
  stays as it is.
\<close>

definition nth_opt :: "'a list \<Rightarrow> int option \<Rightarrow> 'a option" where
  "nth_opt xs i =
     (case i of None \<Rightarrow> None
      | Some k \<Rightarrow> if 0 \<le> k \<and> nat k < length xs then Some (xs ! nat k) else None)"

definition updateAt :: "real list \<Rightarrow> int option \<Rightarrow> (real \<Rightarrow> real) \<Rightarrow> real list" where
  "updateAt xs i f =
     (case i of None \<Rightarrow> xs
      | Some k \<Rightarrow> if 0 \<le> k \<and> nat k < length xs then xs[nat k := f (xs ! nat k)] else xs)"

definition updateRow0 :: "Matrix \<Rightarrow> int option \<Rightarrow> (real \<Rightarrow> real) \<Rightarrow> Matrix" where
  "updateRow0 m i f =
     m\<lparr>data := (case data m of [] \<Rightarrow> [] | r # rs \<Rightarrow> updateAt r i f # rs)\<rparr>"

definition row0 :: "Matrix \<Rightarrow> real list" where
  "row0 m = hd (data m)"

text \<open>\<open>createMatrix(1, vocabSize)\<close> followed by \<open>inputVector.data[0][index] = 1\<close>.\<close>

definition oneHot :: "nat \<Rightarrow> int option \<Rightarrow> Matrix" where
  "oneHot vocabSize index = updateRow0 (createMatrix 1 vocabSize 0) index (\<lambda>v. 1)"

text \<open>\<open>xs.indexOf(v)\<close>: the first position of \<open>v\<close>, or \<open>-1\<close>.\<close>

fun indexOf :: "real list \<Rightarrow> real \<Rightarrow> int" where
  "indexOf [] v = - 1"
| "indexOf (x # xs) v = (if x = v then 0 else (let r = indexOf xs v in if r < 0 then - 1 else r + 1))"

text \<open>\<open>row.indexOf(Math.max(...row))\<close>; on the empty row the maximum is not found.\<close>

definition argmaxIndex :: "real list \<Rightarrow> int" where
  "argmaxIndex row = (if row = [] then - 1 else indexOf row (Max (set row)))"

text \<open>\<open>-Math.log(prob.data[0][targetIndex] + 1e-9)\<close>.\<close>

definition lossTerm :: "Matrix \<Rightarrow> int option \<Rightarrow> real option" where
  "lossTerm prob targetIndex =
     (case nth_opt (row0 prob) targetIndex of None \<Rightarrow> None
      | Some p \<Rightarrow> Some (- ln (p + 1 / 1000000000)))"

definition addLoss :: "real option \<Rightarrow> real option \<Rightarrow> real option" where
  "addLoss a b = (case a of None \<Rightarrow> None | Some x \<Rightarrow> (case b of None \<Rightarrow> None | Some y \<Rightarrow> Some (x + y)))"

definition predictionOf :: "string list \<Rightarrow> int option \<Rightarrow> int option \<Rightarrow> int \<Rightarrow> TokenTriple" where
  "predictionOf v inputIndex targetIndex predictedIndex =
     \<lparr>inputToken = nth_opt v inputIndex, targetToken = nth_opt v targetIndex,
      predictedToken = nth_opt v (Some predictedIndex)\<rparr>"

section \<open>FFNN training step\<close>

text \<open>
  The state of the batch loop of \<open>trainStepFFNN\<close>: the loss sum and the prediction log
  (which every training loop has), the two accumulated gradient layers, and the
  visualisation data of the last example.
\<close>

record LoopBase =
  totalLoss :: "real option"
  predictions :: "TokenTriple list"

record FFNNBatch = LoopBase +
  hiddenGrad :: Layer
  outputGrad :: Layer
  lastResultForVis :: "(TokenTriple \<times> Activations) option"

text \<open>The forward pass of one example: hidden activation, logits, probabilities.\<close>

definition ffnn_forward :: "FFNNModel \<Rightarrow> Matrix \<Rightarrow> error + (Matrix \<times> Matrix \<times> Matrix)" where
  "ffnn_forward model inputVector =
     andThen (dot inputVector (weights (hiddenLayer model))) (\<lambda>xw.
       let hiddenRaw = add xw (biases (hiddenLayer model));
           hiddenActivated = map_matrix hiddenRaw tanh
       in andThen (dot hiddenActivated (weights (outputLayer model))) (\<lambda>hw.
            let outputRaw = add hw (biases (outputLayer model));
                outputProbs = softmax outputRaw
            in Inr (hiddenActivated, outputRaw, outputProbs)))"

text \<open>
  The backward pass of one example: the gradients
  \<open>(dHiddenWeights, dHiddenBiases, dOutputWeights, dOutputBiases)\<close>.
\<close>

definition ffnn_backward ::
  "FFNNModel \<Rightarrow> Matrix \<Rightarrow> Matrix \<Rightarrow> Matrix \<Rightarrow> int option
     \<Rightarrow> error + (Matrix \<times> Matrix \<times> Matrix \<times> Matrix)" where
  "ffnn_backward model inputVector hiddenActivated outputProbs targetIndex =
     (let dOutput = updateRow0 outputProbs targetIndex (\<lambda>v. v - 1) in
      andThen (dot (transpose hiddenActivated) dOutput) (\<lambda>dOutputWeights.
      andThen (dot dOutput (transpose (weights (outputLayer model)))) (\<lambda>dHiddenActivated.
      andThen (multiply dHiddenActivated (map_matrix hiddenActivated dtanh)) (\<lambda>dHiddenRaw.
      andThen (dot (transpose inputVector) dHiddenRaw) (\<lambda>dHiddenWeights.
        Inr (dHiddenWeights, dHiddenRaw, dOutputWeights, dOutput))))))"

text \<open>The per-example gradients of the pair at position \<open>i\<close> of the corpus.\<close>

definition ffnn_example_gradients ::
  "FFNNModel \<Rightarrow> int list \<Rightarrow> int \<Rightarrow> error + (Matrix \<times> Matrix \<times> Matrix \<times> Matrix)" where
  "ffnn_example_gradients model encodedText i =
     (let inputVector = oneHot (length (vocab model)) (nth_opt encodedText (Some i)) in
      andThen (ffnn_forward model inputVector) (\<lambda>(hiddenActivated, outputRaw, outputProbs).
        ffnn_backward model inputVector hiddenActivated outputProbs (nth_opt encodedText (Some (i + 1)))))"

text \<open>The body of the batch loop.\<close>

definition ffnn_example :: "FFNNModel \<Rightarrow> int list \<Rightarrow> int \<Rightarrow> int \<Rightarrow> FFNNBatch \<Rightarrow> error + FFNNBatch" where
  "ffnn_example model encodedText batchEnd i st =
     (let vocabSize = length (vocab model);
          inputIndex = nth_opt encodedText (Some i);
          targetIndex = nth_opt encodedText (Some (i + 1));
          inputVector = oneHot vocabSize inputIndex
      in andThen (ffnn_forward model inputVector) (\<lambda>(hiddenActivated, outputRaw, outputProbs).
           let predictedIndex = argmaxIndex (row0 outputProbs);
               prediction = predictionOf (vocab model) inputIndex targetIndex predictedIndex
           in andThen (ffnn_backward model inputVector hiddenActivated outputProbs targetIndex)
                (\<lambda>(dHiddenWeights, dHiddenBiases, dOutputWeights, dOutputBiases).
                   Inr \<lparr>totalLoss = addLoss (totalLoss st) (lossTerm outputProbs targetIndex),
                        predictions = predictions st @ [prediction],
                        hiddenGrad = \<lparr>weights = add (weights (hiddenGrad st)) dHiddenWeights,
                                      biases = add (biases (hiddenGrad st)) dHiddenBiases\<rparr>,
                        outputGrad = \<lparr>weights = add (weights (outputGrad st)) dOutputWeights,
                                      biases = add (biases (outputGrad st)) dOutputBiases\<rparr>,
                        lastResultForVis =
                          (if i = batchEnd - 1
                           then Some (prediction,
                                      \<lparr>act_hidden = hiddenActivated, act_output = Some outputProbs,
                                       act_outputRaw = Some outputRaw\<rparr>)
                           else lastResultForVis st)\<rparr>)))"

text \<open>The weight update \<open>add(param, scale(clip(grad), lr))\<close>.\<close>

definition applyUpdate :: "Matrix \<Rightarrow> Matrix \<Rightarrow> real \<Rightarrow> Matrix" where
  "applyUpdate param grad lr = add param (scale (clip grad) lr)"

definition trainStepFFNN ::
  "FFNNModel \<Rightarrow> int list \<Rightarrow> int \<Rightarrow> int \<Rightarrow> real \<Rightarrow> error + FFNNModel TrainStepResult" where
  "trainStepFFNN model encodedText step batchSize learningRate =
     (let vocabSize = length (vocab model);
          hiddenSize = cols (weights (hiddenLayer model));
          start = \<lparr>totalLoss = Some 0, predictions = [],
                   hiddenGrad = \<lparr>weights = createMatrix vocabSize hiddenSize 0,
                                  biases = createMatrix 1 hiddenSize 0\<rparr>,
                   outputGrad = \<lparr>weights = createMatrix hiddenSize vocabSize 0,
                                  biases = createMatrix 1 vocabSize 0\<rparr>,
                   lastResultForVis = None\<rparr>;
          batchEnd = min (step + batchSize) (int (length encodedText) - 1)
      in andThen (forEach (ffnn_example model encodedText batchEnd) [step..batchEnd - 1] start) (\<lambda>st.
           let batchActualSize = batchEnd - step;
               vis = lastResultForVis st
           in if batchActualSize = 0 then
                Inr \<lparr>inputToken = (case vis of None \<Rightarrow> None | Some (p, a) \<Rightarrow> inputToken p),
                     targetToken = (case vis of None \<Rightarrow> None | Some (p, a) \<Rightarrow> targetToken p),
                     predictedToken = (case vis of None \<Rightarrow> None | Some (p, a) \<Rightarrow> predictedToken p),
                     updatedModel = model, loss = Some 0, predictionResults = [],
                     activations = map_option snd vis,
                     gradients = Some (hiddenGrad st, outputGrad st), gateActivations = None\<rparr>
              else
                let lr = - learningRate / real_of_int batchActualSize;
                    updated = model
                      \<lparr>hiddenLayer :=
                         \<lparr>weights = applyUpdate (weights (hiddenLayer model)) (weights (hiddenGrad st)) lr,
                          biases = applyUpdate (biases (hiddenLayer model)) (biases (hiddenGrad st)) lr\<rparr>,
                       outputLayer :=
                         \<lparr>weights = applyUpdate (weights (outputLayer model)) (weights (outputGrad st)) lr,
                          biases = applyUpdate (biases (outputLayer model)) (biases (outputGrad st)) lr\<rparr>\<rparr>
                in Inr \<lparr>inputToken = (case vis of None \<Rightarrow> None | Some (p, a) \<Rightarrow> inputToken p),
                        targetToken = (case vis of None \<Rightarrow> None | Some (p, a) \<Rightarrow> targetToken p),
                        predictedToken = (case vis of None \<Rightarrow> None | Some (p, a) \<Rightarrow> predictedToken p),
                        updatedModel = updated,
                        loss = map_option (\<lambda>l. l / real_of_int batchActualSize) (totalLoss st),
                        predictionResults = predictions st,
                        activations = map_option snd vis,
                        gradients = Some (hiddenGrad st, outputGrad st), gateActivations = None\<rparr>))"

section \<open>RNN training step\<close>

text \<open>
  Inverted dropout of a new hidden state, as each recurrent forward pass applies it: with a
  positive rate a mask of \<open>hiddenSize\<close> random draws is created and multiplied in; otherwise
  there is no mask, the state is kept and nothing is drawn.
\<close>

definition dropout ::
  "Matrix \<Rightarrow> nat \<Rightarrow> real \<Rightarrow> (nat \<Rightarrow> real) \<Rightarrow> nat \<Rightarrow> error + (Matrix option \<times> Matrix \<times> nat)" where
  "dropout h_new hiddenSize dropoutRate rnd pos =
     (if 0 < dropoutRate then
        let scaleFactor = 1 / (1 - dropoutRate);
            drawn = createMatrixRandom 1 hiddenSize
                      (\<lambda>u. if u < dropoutRate then 0 else scaleFactor) rnd pos
        in andThen (multiply h_new (fst drawn)) (\<lambda>dropped. Inr (Some (fst drawn), dropped, snd drawn))
      else Inr (None, h_new, pos))"

text \<open>
  The argument of every recurrent gate:
  \<open>add(add(dot(x, W.weights), W.biases), dot(h_prev, U.weights))\<close>.  Only the bias of the
  input layer \<open>W\<close> is added; the bias of the recurrent layer \<open>U\<close> is not read.
\<close>

definition gatePre :: "Matrix \<Rightarrow> Layer \<Rightarrow> Matrix \<Rightarrow> Layer \<Rightarrow> error + Matrix" where
  "gatePre x W hp U =
     andThen (dot x (weights W)) (\<lambda>xw.
     andThen (dot hp (weights U)) (\<lambda>hu. Inr (add (add xw (biases W)) hu)))"

text \<open>The per-step cache entries; the fields all three recurrent caches have are the parent.\<close>

record CacheBase =
  inputVector :: Matrix
  h_prev :: Matrix
  mask :: "Matrix option"
  prob :: Matrix

record RNNCache = CacheBase +
  h_next :: Matrix
  h_next_dropped :: Matrix

text \<open>The state of a forward loop: loss sum, prediction log, cache, hidden states, generator position.\<close>

record 'e ForwardState = LoopBase +
  cache :: "'e list"
  hiddenStates :: "Matrix list"
  rngPos :: nat

definition rnn_forward_step ::
  "RNNModel \<Rightarrow> int list \<Rightarrow> real \<Rightarrow> (nat \<Rightarrow> real) \<Rightarrow> int
     \<Rightarrow> RNNCache ForwardState \<Rightarrow> error + RNNCache ForwardState" where
  "rnn_forward_step model encodedText dropoutRate rnd t st =
     (let vocabSize = length (vocab model);
          hiddenSize = cols (weights (Wxh model));
          inputVector = oneHot vocabSize (nth_opt encodedText (Some t));
          h_prev = last (hiddenStates st)
      in andThen (gatePre inputVector (Wxh model) h_prev (Whh model)) (\<lambda>h_next_raw.
           let h_next = map_matrix h_next_raw tanh
           in andThen (dropout h_next hiddenSize dropoutRate rnd (rngPos st))
                (\<lambda>(mask, h_next_dropped, pos').
                 andThen (dot h_next_dropped (weights (Why model))) (\<lambda>hy.
                   let outputRaw = add hy (biases (Why model));
                       prob = softmax outputRaw;
                       targetIndex = nth_opt encodedText (Some (t + 1));
                       predictedIndex = argmaxIndex (row0 prob)
                   in Inr \<lparr>totalLoss = addLoss (totalLoss st) (lossTerm prob targetIndex),
                           predictions = predictions st @
                             [predictionOf (vocab model) (nth_opt encodedText (Some t))
                                targetIndex predictedIndex],
                           cache = cache st @
                             [\<lparr>inputVector = inputVector, h_prev = h_prev, mask = mask, prob = prob,
                               h_next = h_next, h_next_dropped = h_next_dropped\<rparr>],
                           hiddenStates = hiddenStates st @ [h_next_dropped],
                           rngPos = pos'\<rparr>))))"

definition rnn_forward ::
  "RNNModel \<Rightarrow> int list \<Rightarrow> int \<Rightarrow> int \<Rightarrow> real \<Rightarrow> (nat \<Rightarrow> real) \<Rightarrow> nat
     \<Rightarrow> error + RNNCache ForwardState" where
  "rnn_forward model encodedText step seqEnd dropoutRate rnd pos =
     forEach (rnn_forward_step model encodedText dropoutRate rnd) [step..seqEnd - 1]
       \<lparr>totalLoss = Some 0, predictions = [], cache = [], hiddenStates = [h model], rngPos = pos\<rparr>"

text \<open>The gradients of the backward loop, with the gradient passed to the earlier step.\<close>

record BackBase =
  dh_next_grad :: Matrix

record RNNGrads = BackBase +
  dWxh :: Matrix
  dWhh :: Matrix
  dWhy :: Matrix
  dbxh :: Matrix
  dbhy :: Matrix

definition rnn_backward_step ::
  "RNNModel \<Rightarrow> int list \<Rightarrow> int \<Rightarrow> RNNCache list \<Rightarrow> nat \<Rightarrow> RNNGrads \<Rightarrow> error + RNNGrads" where
  "rnn_backward_step model encodedText step cached t g =
     (let e = cached ! t;
          dy = updateRow0 (prob e) (nth_opt encodedText (Some (step + int t + 1))) (\<lambda>v. v - 1)
      in andThen (dot (transpose (h_next_dropped e)) dy) (\<lambda>dWhy_t.
         andThen (dot dy (transpose (weights (Why model)))) (\<lambda>dh_out.
         andThen (case mask e of None \<Rightarrow> Inr (add dh_out (dh_next_grad g))
                  | Some m \<Rightarrow> multiply (add dh_out (dh_next_grad g)) m) (\<lambda>dh.
         andThen (multiply dh (map_matrix (h_next e) dtanh)) (\<lambda>dh_raw.
         andThen (dot (transpose (inputVector e)) dh_raw) (\<lambda>dWxh_t.
         andThen (dot (transpose (h_prev e)) dh_raw) (\<lambda>dWhh_t.
         andThen (dot dh_raw (transpose (weights (Whh model)))) (\<lambda>dh_next.
           Inr \<lparr>dh_next_grad = dh_next,
                dWxh = add (dWxh g) dWxh_t, dWhh = add (dWhh g) dWhh_t,
                dWhy = add (dWhy g) dWhy_t, dbxh = add (dbxh g) dh_raw,
                dbhy = add (dbhy g) dy\<rparr>))))))))"

definition rnn_backward :: "RNNModel \<Rightarrow> int list \<Rightarrow> int \<Rightarrow> RNNCache list \<Rightarrow> error + RNNGrads" where
  "rnn_backward model encodedText step cached =
     (let vocabSize = length (vocab model);
          hiddenSize = cols (weights (Wxh model))
      in forEach (rnn_backward_step model encodedText step cached) (rev [0..<length cached])
           \<lparr>dh_next_grad = createMatrix 1 hiddenSize 0,
            dWxh = createMatrix vocabSize hiddenSize 0, dWhh = createMatrix hiddenSize hiddenSize 0,
            dWhy = createMatrix hiddenSize vocabSize 0, dbxh = createMatrix 1 hiddenSize 0,
            dbhy = createMatrix 1 vocabSize 0\<rparr>)"

text \<open>
  The training step takes the random sequence and the position in it and returns, with the
  result, the position after its draws.  The update assigns three weight matrices, two bias
  vectors and \<open>h\<close> of the copy of the model.
\<close>

definition trainStepRNN ::
  "RNNModel \<Rightarrow> int list \<Rightarrow> int \<Rightarrow> int \<Rightarrow> real \<Rightarrow> real \<Rightarrow> (nat \<Rightarrow> real) \<Rightarrow> nat
     \<Rightarrow> error + (RNNModel TrainStepResult \<times> nat)" where
  "trainStepRNN model encodedText step sequenceLength learningRate dropoutRate rnd pos =
     (let seqEnd = min (step + sequenceLength) (int (length encodedText) - 1) in
      andThen (rnn_forward model encodedText step seqEnd dropoutRate rnd pos) (\<lambda>fw.
      andThen (rnn_backward model encodedText step (cache fw)) (\<lambda>g.
        let lr = - learningRate;
            updated = model
              \<lparr>Wxh := \<lparr>weights = applyUpdate (weights (Wxh model)) (dWxh g) lr,
                       biases = applyUpdate (biases (Wxh model)) (dbxh g) lr\<rparr>,
               Whh := (Whh model)\<lparr>weights := applyUpdate (weights (Whh model)) (dWhh g) lr\<rparr>,
               Why := \<lparr>weights = applyUpdate (weights (Why model)) (dWhy g) lr,
                       biases = applyUpdate (biases (Why model)) (dbhy g) lr\<rparr>,
               h := last (hiddenStates fw)\<rparr>;
            lastProb = (if cache fw = [] then None else Some (prob (last (cache fw))));
            predictedIndex = (case lastProb of None \<Rightarrow> 0 | Some p \<Rightarrow> argmaxIndex (row0 p))
        in Inr (\<lparr>inputToken = nth_opt (vocab model) (nth_opt encodedText (Some (seqEnd - 1))),
                 targetToken = nth_opt (vocab model) (nth_opt encodedText (Some seqEnd)),
                 predictedToken = nth_opt (vocab model) (Some predictedIndex),
                 updatedModel = updated,
                 loss = map_option
                          (\<lambda>l. l / (if seqEnd - step = 0 then 1 else real_of_int (seqEnd - step)))
                          (totalLoss fw),
                 predictionResults = predictions fw,
                 activations = Some \<lparr>act_hidden = last (hiddenStates fw), act_output = lastProb,
                                      act_outputRaw = None\<rparr>,
                 gradients = None, gateActivations = None\<rparr>,
                rngPos fw))))"

section \<open>GRU training step\<close>

record GatedCacheBase = CacheBase +
  h_t :: Matrix

record GRUCache = GatedCacheBase +
  z_t :: Matrix
  r_t :: Matrix
  h_hat_t :: Matrix
  h_t_dropped :: Matrix

definition gru_forward_step ::
  "GRULanguageModel \<Rightarrow> int list \<Rightarrow> real \<Rightarrow> (nat \<Rightarrow> real) \<Rightarrow> int
     \<Rightarrow> GRUCache ForwardState \<Rightarrow> error + GRUCache ForwardState" where
  "gru_forward_step model encodedText dropoutRate rnd t st =
     (let vocabSize = length (vocab model);
          hiddenSize = rows (weights (Why model));
          inputVector = oneHot vocabSize (nth_opt encodedText (Some t));
          h_prev = last (hiddenStates st)
      in andThen (gatePre inputVector (Wz model) h_prev (Uz model)) (\<lambda>z_raw.
         andThen (gatePre inputVector (Wr model) h_prev (Ur model)) (\<lambda>r_raw.
           let z_t = map_matrix z_raw sigmoid;
               r_t = map_matrix r_raw sigmoid
           in andThen (dot inputVector (weights (Wh model))) (\<lambda>xw.
              andThen (multiply r_t h_prev) (\<lambda>rh.
              andThen (dot rh (weights (Uh model))) (\<lambda>rhu.
                let h_hat_t = map_matrix (add (add xw (biases (Wh model))) rhu) tanh in
                andThen (subtract (ones 1 hiddenSize) z_t) (\<lambda>one_minus_z.
                andThen (multiply one_minus_z h_prev) (\<lambda>keep.
                andThen (multiply z_t h_hat_t) (\<lambda>fresh.
                  let h_t = add keep fresh in
                  andThen (dropout h_t hiddenSize dropoutRate rnd (rngPos st))
                    (\<lambda>(mask, h_t_dropped, pos').
                     andThen (dot h_t_dropped (weights (Why model))) (\<lambda>hy.
                       let outputRaw = add hy (biases (Why model));
                           prob = softmax outputRaw;
                           targetIndex = nth_opt encodedText (Some (t + 1));
                           predictedIndex = argmaxIndex (row0 prob)
                       in Inr \<lparr>totalLoss = addLoss (totalLoss st) (lossTerm prob targetIndex),
                               predictions = predictions st @
                                 [predictionOf (vocab model) (nth_opt encodedText (Some t))
                                    targetIndex predictedIndex],
                               cache = cache st @
                                 [\<lparr>inputVector = inputVector, h_prev = h_prev, mask = mask,
                                   prob = prob, h_t = h_t, z_t = z_t, r_t = r_t,
                                   h_hat_t = h_hat_t, h_t_dropped = h_t_dropped\<rparr>],
                               hiddenStates = hiddenStates st @ [h_t_dropped],
                               rngPos = pos'\<rparr>)))))))))))"

definition gru_forward ::
  "GRULanguageModel \<Rightarrow> int list \<Rightarrow> int \<Rightarrow> int \<Rightarrow> real \<Rightarrow> (nat \<Rightarrow> real) \<Rightarrow> nat
     \<Rightarrow> error + GRUCache ForwardState" where
  "gru_forward model encodedText step seqEnd dropoutRate rnd pos =
     forEach (gru_forward_step model encodedText dropoutRate rnd) [step..seqEnd - 1]
       \<lparr>totalLoss = Some 0, predictions = [], cache = [], hiddenStates = [h model], rngPos = pos\<rparr>"

record GatedGradsBase = BackBase +
  gWhy :: Matrix
  gby :: Matrix

record GRUGrads = GatedGradsBase +
  gWz :: Matrix
  gUz :: Matrix
  gbz :: Matrix
  gWr :: Matrix
  gUr :: Matrix
  gbr :: Matrix
  gWh :: Matrix
  gUh :: Matrix
  gbh :: Matrix

text \<open>
  The local values of one backward iteration that the gradient passed to the earlier step
  is built from: \<open>dh\<close> (after the dropout mask), \<open>dh_hat_raw\<close>, \<open>dr_raw\<close> and \<open>dz_raw\<close>.
\<close>

record GRULocals =
  gru_dh :: Matrix
  gru_dh_hat_raw :: Matrix
  gru_dr_raw :: Matrix
  gru_dz_raw :: Matrix

text \<open>One iteration of the backward loop, in the order of the source; it returns its locals too.\<close>

definition gru_backward_iteration ::
  "GRULanguageModel \<Rightarrow> int list \<Rightarrow> int \<Rightarrow> Matrix list \<Rightarrow> GRUCache list \<Rightarrow> nat \<Rightarrow> GRUGrads
     \<Rightarrow> error + (GRULocals \<times> GRUGrads)" where
  "gru_backward_iteration model encodedText step states cached t g =
     (let hiddenSize = rows (weights (Why model));
          e = cached ! t;
          dy = updateRow0 (prob e) (nth_opt encodedText (Some (step + int t + 1))) (\<lambda>v. v - 1)
      in andThen (dot (transpose (states ! (t + 1))) dy) (\<lambda>dWhy_t.
         andThen (dot dy (transpose (weights (Why model)))) (\<lambda>dh_out.
         andThen (case mask e of None \<Rightarrow> Inr (add dh_out (dh_next_grad g))
                  | Some m \<Rightarrow> multiply (add dh_out (dh_next_grad g)) m) (\<lambda>dh.
         andThen (subtract (ones 1 hiddenSize) (z_t e)) (\<lambda>one_minus_z.
         andThen (multiply dh one_minus_z) (\<lambda>dh_prev_from_h.
         andThen (subtract (h_hat_t e) (h_prev e)) (\<lambda>hat_minus_prev.
         andThen (multiply dh hat_minus_prev) (\<lambda>dz.
         andThen (multiply dh (z_t e)) (\<lambda>dh_hat.
         andThen (multiply dh_hat (map_matrix (h_hat_t e) dtanh)) (\<lambda>dh_hat_raw.
         andThen (dot (transpose (inputVector e)) dh_hat_raw) (\<lambda>dWh_t.
         andThen (multiply (r_t e) (h_prev e)) (\<lambda>rh.
         andThen (dot (transpose rh) dh_hat_raw) (\<lambda>dUh_t.
         andThen (dot dh_hat_raw (transpose (weights (Uh model)))) (\<lambda>dr_h_prev.
         andThen (multiply dr_h_prev (h_prev e)) (\<lambda>dr.
         andThen (multiply dr (map_matrix (r_t e) dsigmoid)) (\<lambda>dr_raw.
         andThen (dot (transpose (inputVector e)) dr_raw) (\<lambda>dWr_t.
         andThen (dot (transpose (h_prev e)) dr_raw) (\<lambda>dUr_t.
         andThen (multiply dz (map_matrix (z_t e) dsigmoid)) (\<lambda>dz_raw.
         andThen (dot (transpose (inputVector e)) dz_raw) (\<lambda>dWz_t.
         andThen (dot (transpose (h_prev e)) dz_raw) (\<lambda>dUz_t.
         andThen (multiply dr_h_prev (r_t e)) (\<lambda>dh_prev_from_r.
         andThen (dot dz_raw (transpose (weights (Uz model)))) (\<lambda>dh_prev_from_z.
         andThen (dot dr_raw (transpose (weights (Ur model)))) (\<lambda>dh_prev_from_r_gate.
           Inr (\<lparr>gru_dh = dh, gru_dh_hat_raw = dh_hat_raw, gru_dr_raw = dr_raw,
                  gru_dz_raw = dz_raw\<rparr>,
                \<lparr>dh_next_grad =
                   add (add (add dh_prev_from_h dh_prev_from_r) dh_prev_from_z) dh_prev_from_r_gate,
                 gWhy = add (gWhy g) dWhy_t, gby = add (gby g) dy,
                 gWz = add (gWz g) dWz_t, gUz = add (gUz g) dUz_t, gbz = add (gbz g) dz_raw,
                 gWr = add (gWr g) dWr_t, gUr = add (gUr g) dUr_t, gbr = add (gbr g) dr_raw,
                 gWh = add (gWh g) dWh_t, gUh = add (gUh g) dUh_t,
                 gbh = add (gbh g) dh_hat_raw\<rparr>)))))))))))))))))))))))))"

definition gru_backward_step ::
  "GRULanguageModel \<Rightarrow> int list \<Rightarrow> int \<Rightarrow> Matrix list \<Rightarrow> GRUCache list \<Rightarrow> nat \<Rightarrow> GRUGrads
     \<Rightarrow> error + GRUGrads" where
  "gru_backward_step model encodedText step states cached t g =
     andThen (gru_backward_iteration model encodedText step states cached t g) (\<lambda>r. Inr (snd r))"

definition gru_backward ::
  "GRULanguageModel \<Rightarrow> int list \<Rightarrow> int \<Rightarrow> Matrix list \<Rightarrow> GRUCache list \<Rightarrow> error + GRUGrads" where
  "gru_backward model encodedText step states cached =
     (let vocabSize = length (vocab model);
          hiddenSize = rows (weights (Why model))
      in forEach (gru_backward_step model encodedText step states cached) (rev [0..<length cached])
           \<lparr>dh_next_grad = createMatrix 1 hiddenSize 0,
            gWhy = createMatrix hiddenSize vocabSize 0, gby = createMatrix 1 vocabSize 0,
            gWz = createMatrix vocabSize hiddenSize 0, gUz = createMatrix hiddenSize hiddenSize 0,
            gbz = createMatrix 1 hiddenSize 0,
            gWr = createMatrix vocabSize hiddenSize 0, gUr = createMatrix hiddenSize hiddenSize 0,
            gbr = createMatrix 1 hiddenSize 0,
            gWh = createMatrix vocabSize hiddenSize 0, gUh = createMatrix hiddenSize hiddenSize 0,
            gbh = createMatrix 1 hiddenSize 0\<rparr>)"

definition trainStepGRU ::
  "GRULanguageModel \<Rightarrow> int list \<Rightarrow> int \<Rightarrow> int \<Rightarrow> real \<Rightarrow> real \<Rightarrow> (nat \<Rightarrow> real) \<Rightarrow> nat
     \<Rightarrow> error + (GRULanguageModel TrainStepResult \<times> nat)" where
  "trainStepGRU model encodedText step sequenceLength learningRate dropoutRate rnd pos =
     (let hiddenSize = rows (weights (Why model));
          seqEnd = min (step + sequenceLength) (int (length encodedText) - 1)
      in
      andThen (gru_forward model encodedText step seqEnd dropoutRate rnd pos) (\<lambda>fw.
      andThen (gru_backward model encodedText step (hiddenStates fw) (cache fw)) (\<lambda>g.
        let lr = - learningRate;
            updated = model
              \<lparr>Wz := \<lparr>weights = applyUpdate (weights (Wz model)) (gWz g) lr,
                      biases = applyUpdate (biases (Wz model)) (gbz g) lr\<rparr>,
               Uz := (Uz model)\<lparr>weights := applyUpdate (weights (Uz model)) (gUz g) lr\<rparr>,
               Wr := \<lparr>weights = applyUpdate (weights (Wr model)) (gWr g) lr,
                      biases = applyUpdate (biases (Wr model)) (gbr g) lr\<rparr>,
               Ur := (Ur model)\<lparr>weights := applyUpdate (weights (Ur model)) (gUr g) lr\<rparr>,
               Wh := \<lparr>weights = applyUpdate (weights (Wh model)) (gWh g) lr,
                      biases = applyUpdate (biases (Wh model)) (gbh g) lr\<rparr>,
               Uh := (Uh model)\<lparr>weights := applyUpdate (weights (Uh model)) (gUh g) lr\<rparr>,
               Why := \<lparr>weights = applyUpdate (weights (Why model)) (gWhy g) lr,
                       biases = applyUpdate (biases (Why model)) (gby g) lr\<rparr>,
               h := last (hiddenStates fw)\<rparr>;
            lastProb = (if cache fw = [] then None else Some (prob (last (cache fw))));
            predictedIndex = (case lastProb of None \<Rightarrow> 0 | Some p \<Rightarrow> argmaxIndex (row0 p))
        in Inr (\<lparr>inputToken = nth_opt (vocab model) (nth_opt encodedText (Some (seqEnd - 1))),
                 targetToken = nth_opt (vocab model) (nth_opt encodedText (Some seqEnd)),
                 predictedToken = nth_opt (vocab model) (Some predictedIndex),
                 updatedModel = updated,
                 loss = map_option
                          (\<lambda>l. l / (if seqEnd - step = 0 then 1 else real_of_int (seqEnd - step)))
                          (totalLoss fw),
                 predictionResults = predictions fw,
                 activations = Some \<lparr>act_hidden = last (hiddenStates fw), act_output = lastProb,
                                      act_outputRaw = None\<rparr>,
                 gradients = None,
                 gateActivations = Some
                   \<lparr>gate_z = Some (if cache fw = [] then createMatrix 1 hiddenSize 0
                                    else z_t (last (cache fw))),
                    gate_r = Some (if cache fw = [] then createMatrix 1 hiddenSize 0
                                    else r_t (last (cache fw))),
                    gate_f = None, gate_i = None, gate_o = None\<rparr>\<rparr>,
                rngPos fw))))"

section \<open>LSTM training step\<close>

record LSTMCache = GatedCacheBase +
  c_prev :: Matrix
  f_t :: Matrix
  i_t :: Matrix
  o_t :: Matrix
  c_hat_t :: Matrix
  c_t :: Matrix

record LSTMForwardState = "LSTMCache ForwardState" +
  cellStates :: "Matrix list"

definition lstm_forward_step ::
  "LSTMLanguageModel \<Rightarrow> int list \<Rightarrow> real \<Rightarrow> (nat \<Rightarrow> real) \<Rightarrow> int
     \<Rightarrow> LSTMForwardState \<Rightarrow> error + LSTMForwardState" where
  "lstm_forward_step model encodedText dropoutRate rnd t st =
     (let vocabSize = length (vocab model);
          hiddenSize = rows (weights (Why model));
          inputVector = oneHot vocabSize (nth_opt encodedText (Some t));
          h_prev = last (hiddenStates st);
          c_prev = last (cellStates st)
      in andThen (gatePre inputVector (Wf model) h_prev (Uf model)) (\<lambda>f_raw.
         andThen (gatePre inputVector (Wi model) h_prev (Ui model)) (\<lambda>i_raw.
         andThen (gatePre inputVector (Wo model) h_prev (Uo model)) (\<lambda>o_raw.
         andThen (gatePre inputVector (Wc model) h_prev (Uc model)) (\<lambda>c_raw.
           let f_t = map_matrix f_raw sigmoid;
               i_t = map_matrix i_raw sigmoid;
               o_t = map_matrix o_raw sigmoid;
               c_hat_t = map_matrix c_raw tanh
           in andThen (multiply f_t c_prev) (\<lambda>kept.
              andThen (multiply i_t c_hat_t) (\<lambda>fresh.
                let c_t = add kept fresh in
                andThen (multiply o_t (map_matrix c_t tanh)) (\<lambda>h_t.
                andThen (dropout h_t hiddenSize dropoutRate rnd (rngPos st))
                  (\<lambda>(mask, h_t_dropped, pos').
                   andThen (dot h_t_dropped (weights (Why model))) (\<lambda>hy.
                     let outputRaw = add hy (biases (Why model));
                         prob = softmax outputRaw;
                         targetIndex = nth_opt encodedText (Some (t + 1));
                         predictedIndex = argmaxIndex (row0 prob)
                     in Inr \<lparr>totalLoss = addLoss (totalLoss st) (lossTerm prob targetIndex),
                             predictions = predictions st @
                               [predictionOf (vocab model) (nth_opt encodedText (Some t))
                                  targetIndex predictedIndex],
                             cache = cache st @
                               [\<lparr>inputVector = inputVector, h_prev = h_prev, mask = mask,
                                 prob = prob, h_t = h_t, c_prev = c_prev, f_t = f_t, i_t = i_t,
                                 o_t = o_t, c_hat_t = c_hat_t, c_t = c_t\<rparr>],
                             hiddenStates = hiddenStates st @ [h_t_dropped],
                             rngPos = pos',
                             cellStates = cellStates st @ [c_t]\<rparr>))))))))))"

definition lstm_forward ::
  "LSTMLanguageModel \<Rightarrow> int list \<Rightarrow> int \<Rightarrow> int \<Rightarrow> real \<Rightarrow> (nat \<Rightarrow> real) \<Rightarrow> nat
     \<Rightarrow> error + LSTMForwardState" where
  "lstm_forward model encodedText step seqEnd dropoutRate rnd pos =
     forEach (lstm_forward_step model encodedText dropoutRate rnd) [step..seqEnd - 1]
       \<lparr>totalLoss = Some 0, predictions = [], cache = [], hiddenStates = [h model], rngPos = pos,
        cellStates = [c model]\<rparr>"

record LSTMGrads = GatedGradsBase +
  dc_next_grad :: Matrix
  gWf :: Matrix
  gUf :: Matrix
  gbf :: Matrix
  gWi :: Matrix
  gUi :: Matrix
  gbi :: Matrix
  gWo :: Matrix
  gUo :: Matrix
  gbo :: Matrix
  gWc :: Matrix
  gUc :: Matrix
  gbc :: Matrix

text \<open>
  The local values of one backward iteration that the two gradients passed to the earlier
  step are built from, under the names the source gives them.  For the forget, input and
  candidate gates the \<open>_raw\<close> value is the one after the multiplication by the derivative
  of the gate's activation; for the output gate the source calls that value \<open>do_t\<close>, and
  \<open>do_raw\<close> is the value before it.
\<close>

record LSTMLocals =
  lstm_dh :: Matrix
  lstm_dc_t :: Matrix
  lstm_df_raw :: Matrix
  lstm_di_raw :: Matrix
  lstm_do_raw :: Matrix
  lstm_do_t :: Matrix
  lstm_dc_hat_raw :: Matrix

definition lstm_backward_iteration ::
  "LSTMLanguageModel \<Rightarrow> int list \<Rightarrow> int \<Rightarrow> Matrix list \<Rightarrow> LSTMCache list \<Rightarrow> nat \<Rightarrow> LSTMGrads
     \<Rightarrow> error + (LSTMLocals \<times> LSTMGrads)" where
  "lstm_backward_iteration model encodedText step states cached t g =
     (let e = cached ! t;
          dy = updateRow0 (prob e) (nth_opt encodedText (Some (step + int t + 1))) (\<lambda>v. v - 1)
      in andThen (dot (transpose (states ! (t + 1))) dy) (\<lambda>dWhy_t.
         andThen (dot dy (transpose (weights (Why model)))) (\<lambda>dh_out.
         andThen (case mask e of None \<Rightarrow> Inr (add dh_out (dh_next_grad g))
                  | Some m \<Rightarrow> multiply (add dh_out (dh_next_grad g)) m) (\<lambda>dh.
         andThen (multiply dh (map_matrix (c_t e) tanh)) (\<lambda>do_raw.
         andThen (multiply do_raw (map_matrix (o_t e) dsigmoid)) (\<lambda>do_t.
         andThen (dot (transpose (inputVector e)) do_t) (\<lambda>dWo_t.
         andThen (dot (transpose (h_prev e)) do_t) (\<lambda>dUo_t.
         andThen (multiply (o_t e) (map_matrix (map_matrix (c_t e) tanh) dtanh)) (\<lambda>o_dtanh.
         andThen (multiply dh o_dtanh) (\<lambda>dc_from_h.
           let dc_t = add (dc_next_grad g) dc_from_h in
         andThen (multiply dc_t (i_t e)) (\<lambda>dc_hat_t.
         andThen (multiply dc_hat_t (map_matrix (c_hat_t e) dtanh)) (\<lambda>dc_hat_raw.
         andThen (dot (transpose (inputVector e)) dc_hat_raw) (\<lambda>dWc_t.
         andThen (dot (transpose (h_prev e)) dc_hat_raw) (\<lambda>dUc_t.
         andThen (multiply dc_t (c_hat_t e)) (\<lambda>di_t.
         andThen (multiply di_t (map_matrix (i_t e) dsigmoid)) (\<lambda>di_raw.
         andThen (dot (transpose (inputVector e)) di_raw) (\<lambda>dWi_t.
         andThen (dot (transpose (h_prev e)) di_raw) (\<lambda>dUi_t.
         andThen (multiply dc_t (c_prev e)) (\<lambda>df_t.
         andThen (multiply df_t (map_matrix (f_t e) dsigmoid)) (\<lambda>df_raw.
         andThen (dot (transpose (inputVector e)) df_raw) (\<lambda>dWf_t.
         andThen (dot (transpose (h_prev e)) df_raw) (\<lambda>dUf_t.
         andThen (multiply dc_t (f_t e)) (\<lambda>dc_next.
         andThen (dot df_raw (transpose (weights (Uf model)))) (\<lambda>from_f.
         andThen (dot di_raw (transpose (weights (Ui model)))) (\<lambda>from_i.
         andThen (dot do_raw (transpose (weights (Uo model)))) (\<lambda>from_o.
         andThen (dot dc_hat_raw (transpose (weights (Uc model)))) (\<lambda>from_c.
           Inr (\<lparr>lstm_dh = dh, lstm_dc_t = dc_t, lstm_df_raw = df_raw, lstm_di_raw = di_raw,
                  lstm_do_raw = do_raw, lstm_do_t = do_t, lstm_dc_hat_raw = dc_hat_raw\<rparr>,
                \<lparr>dh_next_grad = add (add (add from_f from_i) from_o) from_c,
                 gWhy = add (gWhy g) dWhy_t, gby = add (gby g) dy,
                 dc_next_grad = dc_next,
                 gWf = add (gWf g) dWf_t, gUf = add (gUf g) dUf_t, gbf = add (gbf g) df_raw,
                 gWi = add (gWi g) dWi_t, gUi = add (gUi g) dUi_t, gbi = add (gbi g) di_raw,
                 gWo = add (gWo g) dWo_t, gUo = add (gUo g) dUo_t, gbo = add (gbo g) do_t,
                 gWc = add (gWc g) dWc_t, gUc = add (gUc g) dUc_t,
                 gbc = add (gbc g) dc_hat_raw\<rparr>))))))))))))))))))))))))))))"

definition lstm_backward_step ::
  "LSTMLanguageModel \<Rightarrow> int list \<Rightarrow> int \<Rightarrow> Matrix list \<Rightarrow> LSTMCache list \<Rightarrow> nat \<Rightarrow> LSTMGrads
     \<Rightarrow> error + LSTMGrads" where
  "lstm_backward_step model encodedText step states cached t g =
     andThen (lstm_backward_iteration model encodedText step states cached t g) (\<lambda>r. Inr (snd r))"

definition lstm_backward ::
  "LSTMLanguageModel \<Rightarrow> int list \<Rightarrow> int \<Rightarrow> Matrix list \<Rightarrow> LSTMCache list \<Rightarrow> error + LSTMGrads" where
  "lstm_backward model encodedText step states cached =
     (let vocabSize = length (vocab model);
          hiddenSize = rows (weights (Why model))
      in forEach (lstm_backward_step model encodedText step states cached) (rev [0..<length cached])
           \<lparr>dh_next_grad = createMatrix 1 hiddenSize 0,
            gWhy = createMatrix hiddenSize vocabSize 0, gby = createMatrix 1 vocabSize 0,
            dc_next_grad = createMatrix 1 hiddenSize 0,
            gWf = createMatrix vocabSize hiddenSize 0, gUf = createMatrix hiddenSize hiddenSize 0,
            gbf = createMatrix 1 hiddenSize 0,
            gWi = createMatrix vocabSize hiddenSize 0, gUi = createMatrix hiddenSize hiddenSize 0,
            gbi = createMatrix 1 hiddenSize 0,
            gWo = createMatrix vocabSize hiddenSize 0, gUo = createMatrix hiddenSize hiddenSize 0,
            gbo = createMatrix 1 hiddenSize 0,
            gWc = createMatrix vocabSize hiddenSize 0, gUc = createMatrix hiddenSize hiddenSize 0,
            gbc = createMatrix 1 hiddenSize 0\<rparr>)"

text \<open>\<open>applyGrads(gateChar)\<close> of the source, on the pair of layers of one gate.\<close>

definition applyGrads :: "Layer \<Rightarrow> Layer \<Rightarrow> Matrix \<Rightarrow> Matrix \<Rightarrow> Matrix \<Rightarrow> real \<Rightarrow> Layer \<times> Layer" where
  "applyGrads W U gW gU gb lr =
     (\<lparr>weights = applyUpdate (weights W) gW lr, biases = applyUpdate (biases W) gb lr\<rparr>,
      U\<lparr>weights := applyUpdate (weights U) gU lr\<rparr>)"

definition trainStepLSTM ::
  "LSTMLanguageModel \<Rightarrow> int list \<Rightarrow> int \<Rightarrow> int \<Rightarrow> real \<Rightarrow> real \<Rightarrow> (nat \<Rightarrow> real) \<Rightarrow> nat
     \<Rightarrow> error + (LSTMLanguageModel TrainStepResult \<times> nat)" where
  "trainStepLSTM model encodedText step sequenceLength learningRate dropoutRate rnd pos =
     (let hiddenSize = rows (weights (Why model));
          seqEnd = min (step + sequenceLength) (int (length encodedText) - 1)
      in
      andThen (lstm_forward model encodedText step seqEnd dropoutRate rnd pos) (\<lambda>fw.
      andThen (lstm_backward model encodedText step (hiddenStates fw) (cache fw)) (\<lambda>g.
        let lr = - learningRate;
            gf = applyGrads (Wf model) (Uf model) (gWf g) (gUf g) (gbf g) lr;
            gi = applyGrads (Wi model) (Ui model) (gWi g) (gUi g) (gbi g) lr;
            go = applyGrads (Wo model) (Uo model) (gWo g) (gUo g) (gbo g) lr;
            gc = applyGrads (Wc model) (Uc model) (gWc g) (gUc g) (gbc g) lr;
            updated = model
              \<lparr>Wf := fst gf, Uf := snd gf, Wi := fst gi, Ui := snd gi,
               Wo := fst go, Uo := snd go, Wc := fst gc, Uc := snd gc,
               Why := \<lparr>weights = applyUpdate (weights (Why model)) (gWhy g) lr,
                       biases = applyUpdate (biases (Why model)) (gby g) lr\<rparr>,
               h := last (hiddenStates fw),
               c := last (cellStates fw)\<rparr>;
            lastProb = (if cache fw = [] then None else Some (prob (last (cache fw))));
            predictedIndex = (case lastProb of None \<Rightarrow> 0 | Some p \<Rightarrow> argmaxIndex (row0 p))
        in Inr (\<lparr>inputToken = nth_opt (vocab model) (nth_opt encodedText (Some (seqEnd - 1))),
                 targetToken = nth_opt (vocab model) (nth_opt encodedText (Some seqEnd)),
                 predictedToken = nth_opt (vocab model) (Some predictedIndex),
                 updatedModel = updated,
                 loss = map_option
                          (\<lambda>l. l / (if seqEnd - step = 0 then 1 else real_of_int (seqEnd - step)))
                          (totalLoss fw),
                 predictionResults = predictions fw,
                 activations = Some \<lparr>act_hidden = last (hiddenStates fw), act_output = lastProb,
                                      act_outputRaw = None\<rparr>,
                 gradients = None,
                 gateActivations = Some
                   \<lparr>gate_z = None, gate_r = None,
                    gate_f = Some (if cache fw = [] then createMatrix 1 hiddenSize 0
                                    else f_t (last (cache fw))),
                    gate_i = Some (if cache fw = [] then createMatrix 1 hiddenSize 0
                                    else i_t (last (cache fw))),
                    gate_o = Some (if cache fw = [] then createMatrix 1 hiddenSize 0
                                    else o_t (last (cache fw)))\<rparr>\<rparr>,
                rngPos fw))))"

section \<open>Generators\<close>

definition MIN_WORD_LENGTH :: int where
  "MIN_WORD_LENGTH = 2"

text \<open>
  A token that is \<open>undefined\<close> becomes the text \<open>undefined\<close> when it is appended to a string
  or used as a property key.
\<close>

definition jsString :: "string option \<Rightarrow> string" where
  "jsString x = (case x of None \<Rightarrow> ''undefined'' | Some s \<Rightarrow> s)"

text \<open>\<open>currentInput[currentInput.length - 1]\<close>: the last character, \<open>undefined\<close> for the empty string.\<close>

definition lastChar :: "string \<Rightarrow> string option" where
  "lastChar s = (if s = [] then None else Some [last s])"

text \<open>
  \<open>model.tokenToIndex[key]\<close>.  The map of types.ts is a plain object (the initialisers build
  it with \<open>Object.fromEntries\<close>), so a read finds the own property when \<open>key\<close> is one, and
  otherwise whatever \<open>Object.prototype\<close> has under that name: a function, or the prototype
  itself for \<open>__proto__\<close>.  Only a key that is neither is read as \<open>undefined\<close>.  The record
  field \<open>tokenToIndex\<close> holds the own properties.
\<close>

datatype PropertyValue = Undefined | Index int | Inherited

definition objectPrototypeKeys :: "string list" where
  "objectPrototypeKeys =
     [''constructor'', ''__defineGetter__'', ''__defineSetter__'', ''hasOwnProperty'',
      ''__lookupGetter__'', ''__lookupSetter__'', ''isPrototypeOf'', ''propertyIsEnumerable'',
      ''toString'', ''valueOf'', ''__proto__'', ''toLocaleString'']"

definition readProperty :: "(string \<rightharpoonup> int) \<Rightarrow> string \<Rightarrow> PropertyValue" where
  "readProperty t2i key =
     (case t2i key of Some i \<Rightarrow> Index i
      | None \<Rightarrow> if key \<in> set objectPrototypeKeys then Inherited else Undefined)"

text \<open>
  \<open>inputVector.data[0][inputIndex] = 1\<close> with the value that was read: a number is an array
  index; an inherited function or object is turned into a property name that is no index,
  and the row stays as it is.
\<close>

definition arrayIndex :: "PropertyValue \<Rightarrow> int option" where
  "arrayIndex v = (case v of Index i \<Rightarrow> Some i | _ \<Rightarrow> None)"

text \<open>
  The heuristic against an early space, which all four generators apply to the probability
  row while \<open>i < MIN_WORD_LENGTH\<close>: the probability of the space token is set to 0 and the
  others are divided by the remaining sum.  The test
  \<open>spaceIndex !== undefined && row.length > spaceIndex\<close> is false for a value that is not a
  number.
\<close>

definition suppressSpace :: "(string \<rightharpoonup> int) \<Rightarrow> real list \<Rightarrow> real list" where
  "suppressSpace t2i row =
     (case readProperty t2i '' '' of
        Undefined \<Rightarrow> row
      | Inherited \<Rightarrow> row
      | Index spaceIndex \<Rightarrow>
          if spaceIndex < int (length row) then
            (case nth_opt row (Some spaceIndex) of None \<Rightarrow> row
             | Some spaceProb \<Rightarrow>
                 if 0 < spaceProb \<and> spaceProb < 1 then
                   map (\<lambda>(k, p). if int k = spaceIndex then 0 else p / (1 - spaceProb))
                     (enumerate 0 row)
                 else row)
          else row)"

text \<open>The walk along the cumulative distribution; \<open>None\<close> when the draw is never exceeded.\<close>

primrec sampleWalk :: "real list \<Rightarrow> real \<Rightarrow> real \<Rightarrow> int \<Rightarrow> int option" where
  "sampleWalk [] rand cumulativeProb j = None"
| "sampleWalk (p # ps) rand cumulativeProb j =
     (if rand < cumulativeProb + p then Some j
      else sampleWalk ps rand (cumulativeProb + p) (j + 1))"

definition sampleIndex :: "nat \<Rightarrow> real list \<Rightarrow> real \<Rightarrow> int" where
  "sampleIndex vocabLength row rand =
     (case sampleWalk row rand 0 0 of None \<Rightarrow> int vocabLength - 1 | Some j \<Rightarrow> j)"

text \<open>From the logits to the next token: temperature, softmax, the space heuristic, one draw.\<close>

definition sampleNext ::
  "string list \<Rightarrow> (string \<rightharpoonup> int) \<Rightarrow> Matrix \<Rightarrow> real \<Rightarrow> int \<Rightarrow> real \<Rightarrow> string option" where
  "sampleNext v t2i outputRaw temperature i rand =
     (let scaledOutput = map_matrix outputRaw (\<lambda>val. val / temperature);
          outputProbs = softmax scaledOutput;
          row = (if i < MIN_WORD_LENGTH then suppressSpace t2i (row0 outputProbs)
                 else row0 outputProbs);
          nextIndex = sampleIndex (length v) row rand
      in nth_opt v (Some nextIndex))"

text \<open>
  Each generator loop runs over \<open>i = 0, ..., length - 1\<close>; its state is the text generated
  so far, the current input, the carried recurrent state, and the position in the random
  sequence.  A \<open>break\<close> returns the state as it is.  The first \<open>break\<close> is taken only when the
  read of the token is \<open>undefined\<close>; any other value goes on to the forward step.
\<close>

fun generateFFNN_loop ::
  "FFNNModel \<Rightarrow> real \<Rightarrow> (nat \<Rightarrow> real) \<Rightarrow> int list \<Rightarrow> string \<times> string \<times> nat
     \<Rightarrow> error + (string \<times> nat)" where
  "generateFFNN_loop model temperature rnd [] (result, currentInput, pos) = Inr (result, pos)"
| "generateFFNN_loop model temperature rnd (i # ts) (result, currentInput, pos) =
     (case readProperty (tokenToIndex model) (jsString (lastChar currentInput)) of
        Undefined \<Rightarrow> Inr (result, pos)
      | inputIndex \<Rightarrow>
          (case ffnn_forward model (oneHot (length (vocab model)) (arrayIndex inputIndex)) of
             Inl err \<Rightarrow> Inl err
           | Inr (hiddenActivated, outputRaw, outputProbs) \<Rightarrow>
               (let nextChar = sampleNext (vocab model) (tokenToIndex model) outputRaw
                                 temperature i (rnd pos)
                in if nextChar = Some '' '' then Inr (result, pos + 1)
                   else generateFFNN_loop model temperature rnd ts
                          (result @ jsString nextChar, currentInput @ jsString nextChar, pos + 1))))"

definition generateFFNN ::
  "FFNNModel \<Rightarrow> string \<Rightarrow> int \<Rightarrow> real \<Rightarrow> (nat \<Rightarrow> real) \<Rightarrow> nat \<Rightarrow> error + (string \<times> nat)" where
  "generateFFNN model seed len temperature rnd pos =
     andThen (generateFFNN_loop model temperature rnd [0..len - 1] ('''', seed, pos))
       (\<lambda>(result, pos'). Inr (seed @ result, pos'))"

fun generateRNN_loop ::
  "RNNModel \<Rightarrow> real \<Rightarrow> (nat \<Rightarrow> real) \<Rightarrow> int list \<Rightarrow> Matrix \<times> string \<times> string option \<times> nat
     \<Rightarrow> error + (string \<times> nat)" where
  "generateRNN_loop model temperature rnd [] (current_h, result, inputChar, pos) = Inr (result, pos)"
| "generateRNN_loop model temperature rnd (i # ts) (current_h, result, inputChar, pos) =
     (case readProperty (tokenToIndex model) (jsString inputChar) of
        Undefined \<Rightarrow> Inr (result, pos)
      | inputIndex \<Rightarrow>
          (case gatePre (oneHot (length (vocab model)) (arrayIndex inputIndex)) (Wxh model)
                  current_h (Whh model) of
             Inl err \<Rightarrow> Inl err
           | Inr h_raw \<Rightarrow>
               (case dot (map_matrix h_raw tanh) (weights (Why model)) of
                  Inl err \<Rightarrow> Inl err
                | Inr hy \<Rightarrow>
                    (let outputRaw = add hy (biases (Why model));
                         nextChar = sampleNext (vocab model) (tokenToIndex model) outputRaw
                                      temperature i (rnd pos)
                     in if nextChar = Some '' '' then Inr (result, pos + 1)
                        else generateRNN_loop model temperature rnd ts
                               (map_matrix h_raw tanh, result @ jsString nextChar, nextChar,
                                pos + 1)))))"

definition generateRNN ::
  "RNNModel \<Rightarrow> string \<Rightarrow> int \<Rightarrow> real \<Rightarrow> (nat \<Rightarrow> real) \<Rightarrow> nat \<Rightarrow> error + (string \<times> nat)" where
  "generateRNN model seed len temperature rnd pos =
     andThen (generateRNN_loop model temperature rnd [0..len - 1] (h model, '''', Some seed, pos))
       (\<lambda>(result, pos'). Inr (seed @ result, pos'))"

text \<open>The single forward step of the GRU generator: the new hidden state.\<close>

definition gru_generate_step :: "GRULanguageModel \<Rightarrow> Matrix \<Rightarrow> Matrix \<Rightarrow> error + Matrix" where
  "gru_generate_step model x hp =
     andThen (gatePre x (Wz model) hp (Uz model)) (\<lambda>z_raw.
     andThen (gatePre x (Wr model) hp (Ur model)) (\<lambda>r_raw.
     andThen (dot x (weights (Wh model))) (\<lambda>xw.
     andThen (multiply (map_matrix r_raw sigmoid) hp) (\<lambda>rh.
     andThen (dot rh (weights (Uh model))) (\<lambda>rhu.
     andThen (subtract (ones 1 (cols hp)) (map_matrix z_raw sigmoid)) (\<lambda>one_minus_z.
     andThen (multiply one_minus_z hp) (\<lambda>keep.
     andThen (multiply (map_matrix z_raw sigmoid)
                (map_matrix (add (add xw (biases (Wh model))) rhu) tanh)) (\<lambda>fresh.
       Inr (add keep fresh)))))))))"

fun generateGRU_loop ::
  "GRULanguageModel \<Rightarrow> real \<Rightarrow> (nat \<Rightarrow> real) \<Rightarrow> int list
     \<Rightarrow> Matrix \<times> string \<times> string option \<times> nat \<Rightarrow> error + (string \<times> nat)" where
  "generateGRU_loop model temperature rnd [] (hp, result, inputChar, pos) = Inr (result, pos)"
| "generateGRU_loop model temperature rnd (i # ts) (hp, result, inputChar, pos) =
     (case readProperty (tokenToIndex model) (jsString inputChar) of
        Undefined \<Rightarrow> Inr (result, pos)
      | inputIndex \<Rightarrow>
          (case gru_generate_step model (oneHot (length (vocab model)) (arrayIndex inputIndex)) hp of
             Inl err \<Rightarrow> Inl err
           | Inr h_new \<Rightarrow>
               (case dot h_new (weights (Why model)) of
                  Inl err \<Rightarrow> Inl err
                | Inr hy \<Rightarrow>
                    (let outputRaw = add hy (biases (Why model));
                         nextChar = sampleNext (vocab model) (tokenToIndex model) outputRaw
                                      temperature i (rnd pos)
                     in if nextChar = Some '' '' then Inr (result, pos + 1)
                        else generateGRU_loop model temperature rnd ts
                               (h_new, result @ jsString nextChar, nextChar, pos + 1)))))"

definition generateGRU ::
  "GRULanguageModel \<Rightarrow> string \<Rightarrow> int \<Rightarrow> real \<Rightarrow> (nat \<Rightarrow> real) \<Rightarrow> nat \<Rightarrow> error + (string \<times> nat)" where
  "generateGRU model seed len temperature rnd pos =
     andThen (generateGRU_loop model temperature rnd [0..len - 1] (h model, '''', Some seed, pos))
       (\<lambda>(result, pos'). Inr (seed @ result, pos'))"

text \<open>The single forward step of the LSTM generator: the new hidden and cell states.\<close>

definition lstm_generate_step ::
  "LSTMLanguageModel \<Rightarrow> Matrix \<Rightarrow> Matrix \<Rightarrow> Matrix \<Rightarrow> error + (Matrix \<times> Matrix)" where
  "lstm_generate_step model x hp cp =
     andThen (gatePre x (Wf model) hp (Uf model)) (\<lambda>f_raw.
     andThen (gatePre x (Wi model) hp (Ui model)) (\<lambda>i_raw.
     andThen (gatePre x (Wo model) hp (Uo model)) (\<lambda>o_raw.
     andThen (gatePre x (Wc model) hp (Uc model)) (\<lambda>c_raw.
     andThen (multiply (map_matrix f_raw sigmoid) cp) (\<lambda>kept.
     andThen (multiply (map_matrix i_raw sigmoid) (map_matrix c_raw tanh)) (\<lambda>fresh.
     andThen (multiply (map_matrix o_raw sigmoid) (map_matrix (add kept fresh) tanh)) (\<lambda>h_new.
       Inr (h_new, add kept fresh))))))))"

fun generateLSTM_loop ::
  "LSTMLanguageModel \<Rightarrow> real \<Rightarrow> (nat \<Rightarrow> real) \<Rightarrow> int list
     \<Rightarrow> Matrix \<times> Matrix \<times> string \<times> string option \<times> nat \<Rightarrow> error + (string \<times> nat)" where
  "generateLSTM_loop model temperature rnd [] (hp, cp, result, inputChar, pos) = Inr (result, pos)"
| "generateLSTM_loop model temperature rnd (i # ts) (hp, cp, result, inputChar, pos) =
     (case readProperty (tokenToIndex model) (jsString inputChar) of
        Undefined \<Rightarrow> Inr (result, pos)
      | inputIndex \<Rightarrow>
          (case lstm_generate_step model (oneHot (length (vocab model)) (arrayIndex inputIndex)) hp cp of
             Inl err \<Rightarrow> Inl err
           | Inr (h_new, c_new) \<Rightarrow>
               (case dot h_new (weights (Why model)) of
                  Inl err \<Rightarrow> Inl err
                | Inr hy \<Rightarrow>
                    (let outputRaw = add hy (biases (Why model));
                         nextChar = sampleNext (vocab model) (tokenToIndex model) outputRaw
                                      temperature i (rnd pos)
                     in if nextChar = Some '' '' then Inr (result, pos + 1)
                        else generateLSTM_loop model temperature rnd ts
                               (h_new, c_new, result @ jsString nextChar, nextChar, pos + 1)))))"

definition generateLSTM ::
  "LSTMLanguageModel \<Rightarrow> string \<Rightarrow> int \<Rightarrow> real \<Rightarrow> (nat \<Rightarrow> real) \<Rightarrow> nat \<Rightarrow> error + (string \<times> nat)" where
  "generateLSTM model seed len temperature rnd pos =
     andThen (generateLSTM_loop model temperature rnd [0..len - 1]
                (h model, c model, '''', Some seed, pos))
       (\<lambda>(result, pos'). Inr (seed @ result, pos'))"

section \<open>Initialisers\<close>

text \<open>
  \<open>createLayer\<close> draws every weight as \<open>(Math.random() - 0.5) * 0.1\<close> and zeroes the biases;
  \<open>Object.fromEntries\<close> defines one own property per token, whatever its name, and lets a
  later occurrence of a token override an earlier one.
\<close>

definition createLayer :: "nat \<Rightarrow> nat \<Rightarrow> (nat \<Rightarrow> real) \<Rightarrow> nat \<Rightarrow> Layer \<times> nat" where
  "createLayer inputSize outputSize rnd pos =
     (let drawn = createMatrixRandom inputSize outputSize (\<lambda>u. (u - 1 / 2) * (1 / 10)) rnd pos
      in (\<lparr>weights = fst drawn, biases = createMatrix 1 outputSize 0\<rparr>, snd drawn))"

definition indexTokens :: "string list \<Rightarrow> (string \<rightharpoonup> int)" where
  "indexTokens v = map_of (rev (zip v (map int [0..<length v])))"

definition initializeFFNNModel :: "string list \<Rightarrow> nat \<Rightarrow> (nat \<Rightarrow> real) \<Rightarrow> nat \<Rightarrow> FFNNModel \<times> nat" where
  "initializeFFNNModel v hiddenSize rnd pos =
     (let l1 = createLayer (length v) hiddenSize rnd pos;
          l2 = createLayer hiddenSize (length v) rnd (snd l1)
      in (\<lparr>vocab = v, tokenToIndex = indexTokens v, hiddenLayer = fst l1, outputLayer = fst l2\<rparr>,
          snd l2))"

definition initializeRNNModel :: "string list \<Rightarrow> nat \<Rightarrow> (nat \<Rightarrow> real) \<Rightarrow> nat \<Rightarrow> RNNModel \<times> nat" where
  "initializeRNNModel v hiddenSize rnd pos =
     (let l1 = createLayer (length v) hiddenSize rnd pos;
          l2 = createLayer hiddenSize hiddenSize rnd (snd l1);
          l3 = createLayer hiddenSize (length v) rnd (snd l2)
      in (\<lparr>vocab = v, tokenToIndex = indexTokens v, Why = fst l3,
           h = createMatrix 1 hiddenSize 0, Wxh = fst l1, Whh = fst l2\<rparr>,
          snd l3))"

definition initializeGRUModel ::
  "string list \<Rightarrow> nat \<Rightarrow> (nat \<Rightarrow> real) \<Rightarrow> nat \<Rightarrow> GRULanguageModel \<times> nat" where
  "initializeGRUModel v hiddenSize rnd pos =
     (let l1 = createLayer (length v) hiddenSize rnd pos;
          l2 = createLayer hiddenSize hiddenSize rnd (snd l1);
          l3 = createLayer (length v) hiddenSize rnd (snd l2);
          l4 = createLayer hiddenSize hiddenSize rnd (snd l3);
          l5 = createLayer (length v) hiddenSize rnd (snd l4);
          l6 = createLayer hiddenSize hiddenSize rnd (snd l5);
          l7 = createLayer hiddenSize (length v) rnd (snd l6)
      in (\<lparr>vocab = v, tokenToIndex = indexTokens v, Why = fst l7,
           h = createMatrix 1 hiddenSize 0,
           Wz = fst l1, Uz = fst l2, Wr = fst l3, Ur = fst l4, Wh = fst l5, Uh = fst l6\<rparr>,
          snd l7))"

definition initializeLSTMModel ::
  "string list \<Rightarrow> nat \<Rightarrow> (nat \<Rightarrow> real) \<Rightarrow> nat \<Rightarrow> LSTMLanguageModel \<times> nat" where
  "initializeLSTMModel v hiddenSize rnd pos =
     (let l1 = createLayer (length v) hiddenSize rnd pos;
          l2 = createLayer hiddenSize hiddenSize rnd (snd l1);
          l3 = createLayer (length v) hiddenSize rnd (snd l2);
          l4 = createLayer hiddenSize hiddenSize rnd (snd l3);
          l5 = createLayer (length v) hiddenSize rnd (snd l4);
          l6 = createLayer hiddenSize hiddenSize rnd (snd l5);
          l7 = createLayer (length v) hiddenSize rnd (snd l6);
          l8 = createLayer hiddenSize hiddenSize rnd (snd l7);
          l9 = createLayer hiddenSize (length v) rnd (snd l8)
      in (\<lparr>vocab = v, tokenToIndex = indexTokens v, Why = fst l9,
           h = createMatrix 1 hiddenSize 0,
           Wf = fst l1, Uf = fst l2, Wi = fst l3, Ui = fst l4, Wo = fst l5, Uo = fst l6,
           Wc = fst l7, Uc = fst l8, c = createMatrix 1 hiddenSize 0\<rparr>,
          snd l9))"

section \<open>The shape invariants of the data model\<close>

text \<open>
  A layer from \<open>n_in\<close> to \<open>n_out\<close> units has an \<open>n_in\<close>\<times>\<open>n_out\<close> weight matrix and a
  1\<times>\<open>n_out\<close> bias row.  A model with hidden size \<open>hs\<close> is well formed when its layers
  and its recurrent state have the shapes its initialiser gives them.
\<close>

definition wf_layer :: "nat \<Rightarrow> nat \<Rightarrow> Layer \<Rightarrow> bool" where
  "wf_layer n_in n_out l \<longleftrightarrow> shaped n_in n_out (weights l) \<and> shaped 1 n_out (biases l)"

definition wf_FFNN :: "nat \<Rightarrow> FFNNModel \<Rightarrow> bool" where
  "wf_FFNN hs m \<longleftrightarrow>
     wf_layer (length (vocab m)) hs (hiddenLayer m) \<and> wf_layer hs (length (vocab m)) (outputLayer m)"

definition wf_RNN :: "nat \<Rightarrow> RNNModel \<Rightarrow> bool" where
  "wf_RNN hs m \<longleftrightarrow>
     wf_layer (length (vocab m)) hs (Wxh m) \<and> wf_layer hs hs (Whh m) \<and>
     wf_layer hs (length (vocab m)) (Why m) \<and> shaped 1 hs (h m)"

definition wf_GRU :: "nat \<Rightarrow> GRULanguageModel \<Rightarrow> bool" where
  "wf_GRU hs m \<longleftrightarrow>
     wf_layer (length (vocab m)) hs (Wz m) \<and> wf_layer hs hs (Uz m) \<and>
     wf_layer (length (vocab m)) hs (Wr m) \<and> wf_layer hs hs (Ur m) \<and>
     wf_layer (length (vocab m)) hs (Wh m) \<and> wf_layer hs hs (Uh m) \<and>
     wf_layer hs (length (vocab m)) (Why m) \<and> shaped 1 hs (h m)"

definition wf_LSTM :: "nat \<Rightarrow> LSTMLanguageModel \<Rightarrow> bool" where
  "wf_LSTM hs m \<longleftrightarrow>
     wf_layer (length (vocab m)) hs (Wf m) \<and> wf_layer hs hs (Uf m) \<and>
     wf_layer (length (vocab m)) hs (Wi m) \<and> wf_layer hs hs (Ui m) \<and>
     wf_layer (length (vocab m)) hs (Wo m) \<and> wf_layer hs hs (Uo m) \<and>
     wf_layer (length (vocab m)) hs (Wc m) \<and> wf_layer hs hs (Uc m) \<and>
     wf_layer hs (length (vocab m)) (Why m) \<and> shaped 1 hs (h m) \<and> shaped 1 hs (c m)"

section \<open>Invariants of the forward and backward loops\<close>

text \<open>
  What the backward pass of each recurrent step relies on: every cached matrix of a time
  step is a well-formed row of the vocabulary size or of the hidden size.  In the RNN cache
  the dropped state is the new state with the mask of the step applied, when there is one.
\<close>

definition mask_ok :: "nat \<Rightarrow> Matrix option \<Rightarrow> bool" where
  "mask_ok hs mk = (case mk of None \<Rightarrow> True | Some x \<Rightarrow> shaped 1 hs x)"

definition applyMask :: "Matrix \<Rightarrow> Matrix option \<Rightarrow> Matrix" where
  "applyMask x mk = (case mk of None \<Rightarrow> x | Some k \<Rightarrow> multiply_loops x k)"

definition rnn_cache_ok :: "nat \<Rightarrow> nat \<Rightarrow> RNNCache \<Rightarrow> bool" where
  "rnn_cache_ok v hs e \<longleftrightarrow>
     shaped 1 v (inputVector e) \<and> shaped 1 hs (h_prev e) \<and> mask_ok hs (mask e) \<and>
     shaped 1 v (prob e) \<and> shaped 1 hs (h_next e) \<and> shaped 1 hs (h_next_dropped e) \<and>
     h_next_dropped e = applyMask (h_next e) (mask e)"

definition gru_cache_ok :: "nat \<Rightarrow> nat \<Rightarrow> GRUCache \<Rightarrow> bool" where
  "gru_cache_ok v hs e \<longleftrightarrow>
     shaped 1 v (inputVector e) \<and> shaped 1 hs (h_prev e) \<and> mask_ok hs (mask e) \<and>
     shaped 1 v (prob e) \<and> shaped 1 hs (h_t e) \<and> shaped 1 hs (z_t e) \<and> shaped 1 hs (r_t e) \<and>
     shaped 1 hs (h_hat_t e) \<and> shaped 1 hs (h_t_dropped e)"

definition lstm_cache_ok :: "nat \<Rightarrow> nat \<Rightarrow> LSTMCache \<Rightarrow> bool" where
  "lstm_cache_ok v hs e \<longleftrightarrow>
     shaped 1 v (inputVector e) \<and> shaped 1 hs (h_prev e) \<and> mask_ok hs (mask e) \<and>
     shaped 1 v (prob e) \<and> shaped 1 hs (h_t e) \<and> shaped 1 hs (c_prev e) \<and>
     shaped 1 hs (f_t e) \<and> shaped 1 hs (i_t e) \<and> shaped 1 hs (o_t e) \<and>
     shaped 1 hs (c_hat_t e) \<and> shaped 1 hs (c_t e)"

text \<open>The (input, target) token pair that the window position \<open>t\<close> of the corpus stands for.\<close>

definition pairAt :: "string list \<Rightarrow> int list \<Rightarrow> int \<Rightarrow> string option \<times> string option" where
  "pairAt v encodedText t =
     (nth_opt v (nth_opt encodedText (Some t)), nth_opt v (nth_opt encodedText (Some (t + 1))))"

definition pairOf :: "TokenTriple \<Rightarrow> string option \<times> string option" where
  "pairOf p = (inputToken p, targetToken p)"

text \<open>
  The invariant of a recurrent forward loop after the positions \<open>pre\<close>: one cache entry, one
  hidden state and one prediction per position, all of the right shape, and the predictions
  naming the pairs of the positions in order.  For the RNN and the GRU the cache entry also
  holds the hidden state that was pushed (\<open>kept\<close> selects it); the LSTM pushes a cell state
  per position too, the \<open>c_t\<close> of the cache entry.
\<close>

definition forward_shape_inv ::
  "('e \<Rightarrow> bool) \<Rightarrow> nat \<Rightarrow> string list \<Rightarrow> int list \<Rightarrow> int list
     \<Rightarrow> ('e, 'z) ForwardState_scheme \<Rightarrow> bool" where
  "forward_shape_inv entry_ok hs v encodedText pre st \<longleftrightarrow>
     length (cache st) = length pre \<and>
     length (hiddenStates st) = Suc (length pre) \<and>
     list_all (shaped 1 hs) (hiddenStates st) \<and>
     list_all entry_ok (cache st) \<and>
     map pairOf (predictions st) = map (pairAt v encodedText) pre"

definition forward_inv ::
  "('e \<Rightarrow> bool) \<Rightarrow> ('e \<Rightarrow> Matrix) \<Rightarrow> nat \<Rightarrow> string list \<Rightarrow> int list \<Rightarrow> int list
     \<Rightarrow> ('e, 'z) ForwardState_scheme \<Rightarrow> bool" where
  "forward_inv entry_ok kept hs v encodedText pre st \<longleftrightarrow>
     forward_shape_inv entry_ok hs v encodedText pre st \<and>
     map kept (cache st) = tl (hiddenStates st)"

definition lstm_forward_inv ::
  "nat \<Rightarrow> string list \<Rightarrow> int list \<Rightarrow> int list \<Rightarrow> LSTMForwardState \<Rightarrow> bool" where
  "lstm_forward_inv hs v encodedText pre st \<longleftrightarrow>
     forward_shape_inv (lstm_cache_ok (length v) hs) hs v encodedText pre st \<and>
     length (cellStates st) = Suc (length pre) \<and>
     list_all (shaped 1 hs) (cellStates st) \<and>
     map c_t (cache st) = tl (cellStates st)"

text \<open>
  The elementwise sum of a list of \<open>nr\<close>\<times>\<open>nc\<close> matrices: what a gradient accumulated by
  repeated \<open>add\<close> from the zero matrix stands for.
\<close>

definition gradSum :: "nat \<Rightarrow> nat \<Rightarrow> Matrix list \<Rightarrow> Matrix" where
  "gradSum nr nc ms = tabulate nr nc (\<lambda>i j. sum_list (map (\<lambda>g. entry g i j) ms))"

text \<open>
  The invariant of the batch loop of \<open>trainStepFFNN\<close> after the positions \<open>pre\<close>: the
  per-example gradients \<open>gs\<close> of these positions were computed without an error, each
  accumulated gradient is their elementwise sum, and the predictions name the pairs of
  the positions in order.
\<close>

definition ffnn_batch_inv ::
  "FFNNModel \<Rightarrow> nat \<Rightarrow> int list \<Rightarrow> (Matrix \<times> Matrix \<times> Matrix \<times> Matrix) list \<Rightarrow> int list
     \<Rightarrow> FFNNBatch \<Rightarrow> bool" where
  "ffnn_batch_inv m hs encodedText gs pre st \<longleftrightarrow>
     map (ffnn_example_gradients m encodedText) pre = map Inr gs \<and>
     weights (hiddenGrad st) = gradSum (length (vocab m)) hs (map (\<lambda>(a, b, d, e). a) gs) \<and>
     biases (hiddenGrad st) = gradSum 1 hs (map (\<lambda>(a, b, d, e). b) gs) \<and>
     weights (outputGrad st) = gradSum hs (length (vocab m)) (map (\<lambda>(a, b, d, e). d) gs) \<and>
     biases (outputGrad st) = gradSum 1 (length (vocab m)) (map (\<lambda>(a, b, d, e). e) gs) \<and>
     map pairOf (predictions st) = map (pairAt (vocab m) encodedText) pre"

text \<open>The gradients of the three backward loops have the shapes of the parameters.\<close>

definition rnn_grads_ok :: "nat \<Rightarrow> nat \<Rightarrow> RNNGrads \<Rightarrow> bool" where
  "rnn_grads_ok v hs g \<longleftrightarrow>
     shaped 1 hs (dh_next_grad g) \<and> shaped v hs (dWxh g) \<and> shaped hs hs (dWhh g) \<and>
     shaped hs v (dWhy g) \<and> shaped 1 hs (dbxh g) \<and> shaped 1 v (dbhy g)"

definition gru_grads_ok :: "nat \<Rightarrow> nat \<Rightarrow> GRUGrads \<Rightarrow> bool" where
  "gru_grads_ok v hs g \<longleftrightarrow>
     shaped 1 hs (dh_next_grad g) \<and> shaped hs v (gWhy g) \<and> shaped 1 v (gby g) \<and>
     shaped v hs (gWz g) \<and> shaped hs hs (gUz g) \<and> shaped 1 hs (gbz g) \<and>
     shaped v hs (gWr g) \<and> shaped hs hs (gUr g) \<and> shaped 1 hs (gbr g) \<and>
     shaped v hs (gWh g) \<and> shaped hs hs (gUh g) \<and> shaped 1 hs (gbh g)"

definition lstm_grads_ok :: "nat \<Rightarrow> nat \<Rightarrow> LSTMGrads \<Rightarrow> bool" where
  "lstm_grads_ok v hs g \<longleftrightarrow>
     shaped 1 hs (dh_next_grad g) \<and> shaped hs v (gWhy g) \<and> shaped 1 v (gby g) \<and>
     shaped 1 hs (dc_next_grad g) \<and>
     shaped v hs (gWf g) \<and> shaped hs hs (gUf g) \<and> shaped 1 hs (gbf g) \<and>
     shaped v hs (gWi g) \<and> shaped hs hs (gUi g) \<and> shaped 1 hs (gbi g) \<and>
     shaped v hs (gWo g) \<and> shaped hs hs (gUo g) \<and> shaped 1 hs (gbo g) \<and>
     shaped v hs (gWc g) \<and> shaped hs hs (gUc g) \<and> shaped 1 hs (gbc g)"

section \<open>Concrete models\<close>

text \<open>
  An FFNN over the vocabulary a, b with one hidden unit, zero hidden weights and biases,
  and the output weights \<open>[-12, 0]\<close>: every example with input a and target a has the hidden
  bias gradient 6.
\<close>

definition steepFFNN :: FFNNModel where
  "steepFFNN =
     \<lparr>vocab = [''a'', ''b''], tokenToIndex = [''a'' \<mapsto> 0, ''b'' \<mapsto> 1],
      hiddenLayer = \<lparr>weights = \<lparr>rows = 2, cols = 1, data = [[0], [0]]\<rparr>,
                     biases = \<lparr>rows = 1, cols = 1, data = [[0]]\<rparr>\<rparr>,
      outputLayer = \<lparr>weights = \<lparr>rows = 1, cols = 2, data = [[- 12, 0]]\<rparr>,
                     biases = \<lparr>rows = 1, cols = 2, data = [[0, 0]]\<rparr>\<rparr>\<rparr>"

text \<open>
  An LSTM over the vocabulary a, b with one hidden unit and the carried cell state 1.  The
  only weights that are not zero are the recurrent weight of the output gate, 1, and the
  output weight towards a, 1.
\<close>

definition outputGateLSTM :: LSTMLanguageModel where
  "outputGateLSTM =
     \<lparr>vocab = [''a'', ''b''], tokenToIndex = [''a'' \<mapsto> 0, ''b'' \<mapsto> 1],
      Why = \<lparr>weights = \<lparr>rows = 1, cols = 2, data = [[1, 0]]\<rparr>,
             biases = \<lparr>rows = 1, cols = 2, data = [[0, 0]]\<rparr>\<rparr>,
      h = \<lparr>rows = 1, cols = 1, data = [[0]]\<rparr>,
      Wf = \<lparr>weights = \<lparr>rows = 2, cols = 1, data = [[0], [0]]\<rparr>,
            biases = \<lparr>rows = 1, cols = 1, data = [[0]]\<rparr>\<rparr>,
      Uf = \<lparr>weights = \<lparr>rows = 1, cols = 1, data = [[0]]\<rparr>,
            biases = \<lparr>rows = 1, cols = 1, data = [[0]]\<rparr>\<rparr>,
      Wi = \<lparr>weights = \<lparr>rows = 2, cols = 1, data = [[0], [0]]\<rparr>,
            biases = \<lparr>rows = 1, cols = 1, data = [[0]]\<rparr>\<rparr>,
      Ui = \<lparr>weights = \<lparr>rows = 1, cols = 1, data = [[0]]\<rparr>,
            biases = \<lparr>rows = 1, cols = 1, data = [[0]]\<rparr>\<rparr>,
      Wo = \<lparr>weights = \<lparr>rows = 2, cols = 1, data = [[0], [0]]\<rparr>,
            biases = \<lparr>rows = 1, cols = 1, data = [[0]]\<rparr>\<rparr>,
      Uo = \<lparr>weights = \<lparr>rows = 1, cols = 1, data = [[1]]\<rparr>,
            biases = \<lparr>rows = 1, cols = 1, data = [[0]]\<rparr>\<rparr>,
      Wc = \<lparr>weights = \<lparr>rows = 2, cols = 1, data = [[0], [0]]\<rparr>,
            biases = \<lparr>rows = 1, cols = 1, data = [[0]]\<rparr>\<rparr>,
      Uc = \<lparr>weights = \<lparr>rows = 1, cols = 1, data = [[0]]\<rparr>,
            biases = \<lparr>rows = 1, cols = 1, data = [[0]]\<rparr>\<rparr>,
      c = \<lparr>rows = 1, cols = 1, data = [[1]]\<rparr>\<rparr>"

section \<open>Matrix library: shapes and entries\<close>

lemma tabulate_rows [simp]: "rows (tabulate nr nc f) = nr"
  by (simp add: tabulate_def)

lemma tabulate_cols [simp]: "cols (tabulate nr nc f) = nc"
  by (simp add: tabulate_def)

lemma tabulate_wf [simp]: "wf_matrix (tabulate nr nc f)"
  by (simp add: tabulate_def wf_matrix_def list_all_iff)

lemma tabulate_entry [simp]: "i < nr \<Longrightarrow> j < nc \<Longrightarrow> entry (tabulate nr nc f) i j = f i j"
  by (simp add: tabulate_def entry_def)

lemma tabulate_cong: "(\<And>i j. i < nr \<Longrightarrow> j < nc \<Longrightarrow> f i j = g i j) \<Longrightarrow> tabulate nr nc f = tabulate nr nc g"
  by (simp add: tabulate_def)

lemma tabulate_entry_id: "wf_matrix m \<Longrightarrow> tabulate (rows m) (cols m) (entry m) = m"
proof -
  assume wf: "wf_matrix m"
  have len: "length (data m) = rows m" using wf by (simp add: wf_matrix_def)
  have row: "\<And>i. i < rows m \<Longrightarrow> length (data m ! i) = cols m"
    using wf by (simp add: wf_matrix_def list_all_length)
  have "map (\<lambda>i. map (\<lambda>j. data m ! i ! j) [0..<cols m]) [0..<rows m] = data m"
  proof (rule nth_equalityI)
    show "length (map (\<lambda>i. map (\<lambda>j. data m ! i ! j) [0..<cols m]) [0..<rows m]) = length (data m)"
      by (simp add: len)
  next
    fix i assume "i < length (map (\<lambda>i. map (\<lambda>j. data m ! i ! j) [0..<cols m]) [0..<rows m])"
    then have i: "i < rows m" by simp
    have "map (\<lambda>j. data m ! i ! j) [0..<cols m] = data m ! i"
      using row [OF i] by (metis map_nth)
    then show "map (\<lambda>i. map (\<lambda>j. data m ! i ! j) [0..<cols m]) [0..<rows m] ! i = data m ! i"
      using i by simp
  qed
  then show ?thesis by (simp add: tabulate_def entry_def)
qed

lemma createMatrix_tabulate: "createMatrix nr nc v = tabulate nr nc (\<lambda>i j. v)"
  by (simp add: createMatrix_def tabulate_def map_replicate_const)

lemma createMatrix_rows [simp]: "rows (createMatrix nr nc v) = nr"
  by (simp add: createMatrix_def)

lemma createMatrix_cols [simp]: "cols (createMatrix nr nc v) = nc"
  by (simp add: createMatrix_def)

lemma createMatrix_wf [simp]: "wf_matrix (createMatrix nr nc v)"
  by (simp add: createMatrix_tabulate)

lemma createMatrix_entry [simp]: "i < nr \<Longrightarrow> j < nc \<Longrightarrow> entry (createMatrix nr nc v) i j = v"
  by (simp add: createMatrix_tabulate)

section \<open>add\<close>

lemma add_same_shape:
  "rows a = rows b \<Longrightarrow> cols a = cols b \<Longrightarrow> add a b = tabulate (rows a) (cols a) (\<lambda>i j. entry a i j + entry b i j)"
  by (simp add: add_def)

lemma add_broadcast:
  "1 < rows a \<Longrightarrow> rows b = 1 \<Longrightarrow> cols a \<le> cols b \<Longrightarrow>
   add a b = tabulate (rows a) (cols a) (\<lambda>i j. entry a i j + entry b 0 j)"
  by (simp add: add_def)

lemma add_otherwise:
  "rows a \<noteq> rows b \<or> cols a \<noteq> cols b \<Longrightarrow> \<not> (1 < rows a \<and> rows b = 1) \<Longrightarrow> add a b = a"
  by (auto simp: add_def)

text \<open>
  C6, as the code has it.  Equal shapes give the elementwise sum.  For unequal shapes the
  broadcast branch tests the row counts only, \<open>a.rows > 1 && b.rows === 1\<close>, whatever the
  width of \<open>b\<close>: every row of \<open>a\<close> gets the leading entries of the single row of \<open>b\<close>
  added (stated here for a \<open>b\<close> at least as wide as \<open>a\<close>, where every read is inside the
  row).  Every remaining shape combination returns \<open>a\<close> itself, and no case throws.
\<close>

theorem add_by_shape:
  assumes "wf_matrix a" and "wf_matrix b"
  shows "(rows a = rows b \<and> cols a = cols b \<longrightarrow>
            add a b = tabulate (rows a) (cols a) (\<lambda>i j. entry a i j + entry b i j))
       \<and> ((rows a \<noteq> rows b \<or> cols a \<noteq> cols b) \<and> 1 < rows a \<and> rows b = 1 \<and> cols a \<le> cols b \<longrightarrow>
            add a b = tabulate (rows a) (cols a) (\<lambda>i j. entry a i j + entry b 0 j))
       \<and> ((rows a \<noteq> rows b \<or> cols a \<noteq> cols b) \<and> \<not> (1 < rows a \<and> rows b = 1) \<longrightarrow>
            add a b = a)"
proof (intro conjI impI)
  assume "rows a = rows b \<and> cols a = cols b"
  then show "add a b = tabulate (rows a) (cols a) (\<lambda>i j. entry a i j + entry b i j)"
    by (simp add: add_same_shape)
next
  assume "(rows a \<noteq> rows b \<or> cols a \<noteq> cols b) \<and> 1 < rows a \<and> rows b = 1 \<and> cols a \<le> cols b"
  then show "add a b = tabulate (rows a) (cols a) (\<lambda>i j. entry a i j + entry b 0 j)"
    by (simp add: add_broadcast)
next
  assume "(rows a \<noteq> rows b \<or> cols a \<noteq> cols b) \<and> \<not> (1 < rows a \<and> rows b = 1)"
  then show "add a b = a"
    by (simp add: add_otherwise)
qed

theorem add_by_shape_witness:
  "add \<lparr>rows = 1, cols = 2, data = [[1, 2]]\<rparr> \<lparr>rows = 1, cols = 2, data = [[3, 4]]\<rparr>
     = \<lparr>rows = 1, cols = 2, data = [[4, 6]]\<rparr>
   \<and> add \<lparr>rows = 2, cols = 2, data = [[1, 2], [3, 4]]\<rparr> \<lparr>rows = 1, cols = 2, data = [[10, 20]]\<rparr>
     = \<lparr>rows = 2, cols = 2, data = [[11, 22], [13, 24]]\<rparr>
   \<and> add \<lparr>rows = 2, cols = 2, data = [[1, 2], [3, 4]]\<rparr> \<lparr>rows = 1, cols = 3, data = [[10, 20, 30]]\<rparr>
     = \<lparr>rows = 2, cols = 2, data = [[11, 22], [13, 24]]\<rparr>
   \<and> add \<lparr>rows = 1, cols = 2, data = [[1, 2]]\<rparr> \<lparr>rows = 2, cols = 2, data = [[10, 20], [30, 40]]\<rparr>
     = \<lparr>rows = 1, cols = 2, data = [[1, 2]]\<rparr>"
  using
    add_by_shape [of "\<lparr>rows = 1, cols = 2, data = [[1, 2]]\<rparr>" "\<lparr>rows = 1, cols = 2, data = [[3, 4]]\<rparr>"]
    add_by_shape [of "\<lparr>rows = 2, cols = 2, data = [[1, 2], [3, 4]]\<rparr>" "\<lparr>rows = 1, cols = 2, data = [[10, 20]]\<rparr>"]
    add_by_shape [of "\<lparr>rows = 2, cols = 2, data = [[1, 2], [3, 4]]\<rparr>" "\<lparr>rows = 1, cols = 3, data = [[10, 20, 30]]\<rparr>"]
    add_by_shape [of "\<lparr>rows = 1, cols = 2, data = [[1, 2]]\<rparr>" "\<lparr>rows = 2, cols = 2, data = [[10, 20], [30, 40]]\<rparr>"]
  by (simp add: wf_matrix_def tabulate_def entry_def upt_rec)

text \<open>
  The claim has \<open>a\<close> returned unchanged for every shape combination other than equal shapes
  and the broadcast of a one-row \<open>b\<close> of the same width.  A 2\<times>2 matrix and a 1\<times>3 row are
  of neither kind, and the result is not \<open>a\<close>.
\<close>

theorem add_other_shape_counterexample:
  "rows \<lparr>rows = 2, cols = 2, data = [[1, 2], [3, 4]]\<rparr> \<noteq> rows \<lparr>rows = 1, cols = 3, data = [[10, 20, 30]]\<rparr>
   \<and> cols \<lparr>rows = 2, cols = 2, data = [[1, 2], [3, 4]]\<rparr> \<noteq> cols \<lparr>rows = 1, cols = 3, data = [[10, 20, 30]]\<rparr>
   \<and> add \<lparr>rows = 2, cols = 2, data = [[1, 2], [3, 4]]\<rparr> \<lparr>rows = 1, cols = 3, data = [[10, 20, 30]]\<rparr>
       = \<lparr>rows = 2, cols = 2, data = [[11, 22], [13, 24]]\<rparr>
   \<and> add \<lparr>rows = 2, cols = 2, data = [[1, 2], [3, 4]]\<rparr> \<lparr>rows = 1, cols = 3, data = [[10, 20, 30]]\<rparr>
       \<noteq> \<lparr>rows = 2, cols = 2, data = [[1, 2], [3, 4]]\<rparr>"
  by (simp add: add_def tabulate_def entry_def upt_rec)

section \<open>softmax\<close>

lemma foldl_plus_sum_list: "foldl (\<lambda>a b. a + b) (z::real) xs = z + sum_list xs"
  by (induction xs arbitrary: z) simp_all

lemma softmax_sumExps_sum_list: "softmax_sumExps row = sum_list (softmax_exps row)"
  by (simp add: softmax_sumExps_def foldl_plus_sum_list)

lemma softmax_exps_length [simp]: "length (softmax_exps row) = length row"
  by (simp add: softmax_exps_def)

lemma softmax_exps_pos: "e \<in> set (softmax_exps row) \<Longrightarrow> 0 < e"
  by (auto simp: softmax_exps_def)

lemma sum_list_pos_real: "xs \<noteq> [] \<Longrightarrow> (\<And>x. x \<in> set xs \<Longrightarrow> 0 < (x::real)) \<Longrightarrow> 0 < sum_list xs"
  by (induction xs) (auto intro: add_pos_nonneg sum_list_nonneg less_imp_le)

lemma member_le_sum_list_real:
  "x \<in> set xs \<Longrightarrow> (\<And>y. y \<in> set xs \<Longrightarrow> 0 \<le> (y::real)) \<Longrightarrow> x \<le> sum_list xs"
  by (induction xs) (auto simp: sum_list_nonneg add_increasing add_increasing2)

lemma softmax_sumExps_pos: "row \<noteq> [] \<Longrightarrow> 0 < softmax_sumExps row"
  unfolding softmax_sumExps_sum_list
  by (rule sum_list_pos_real) (auto simp: softmax_exps_def)

lemma Max_shift: "row \<noteq> [] \<Longrightarrow> Max (set (map (\<lambda>x. x + d) row)) = Max (set row) + (d::real)"
proof (rule Max_eqI)
  assume ne: "row \<noteq> []"
  show "finite (set (map (\<lambda>x. x + d) row))" by simp
  show "Max (set row) + d \<in> set (map (\<lambda>x. x + d) row)"
    using Max_in [of "set row"] ne by auto
  fix y assume "y \<in> set (map (\<lambda>x. x + d) row)"
  then obtain x where "x \<in> set row" "y = x + d" by auto
  then show "y \<le> Max (set row) + d" by simp
qed

lemma softmax_exps_shift: "row \<noteq> [] \<Longrightarrow> softmax_exps (map (\<lambda>x. x + d) row) = softmax_exps row"
proof -
  assume ne: "row \<noteq> []"
  have "softmax_exps (map (\<lambda>x. x + d) row)
        = map (\<lambda>x. exp (x - (Max (set row) + d))) (map (\<lambda>x. x + d) row)"
    unfolding softmax_exps_def Let_def by (simp only: Max_shift [OF ne])
  also have "\<dots> = map (\<lambda>x. exp (x - Max (set row))) row"
    by (simp add: comp_def)
  finally show ?thesis by (simp add: softmax_exps_def Let_def)
qed

lemma softmax_row:
  "data m = [row] \<Longrightarrow> row \<noteq> [] \<Longrightarrow>
   softmax m = \<lparr>rows = 1, cols = cols m, data = [map (\<lambda>e. e / softmax_sumExps row) (softmax_exps row)]\<rparr>"
  using softmax_sumExps_pos [of row] by (simp add: softmax_def Let_def)

lemma softmax_sum_one:
  "row \<noteq> [] \<Longrightarrow> sum_list (map (\<lambda>e. e / softmax_sumExps row) (softmax_exps row)) = 1"
proof -
  assume ne: "row \<noteq> []"
  have "sum_list (map (\<lambda>e. e / softmax_sumExps row) (softmax_exps row))
        = sum_list (map (\<lambda>e. e * inverse (softmax_sumExps row)) (softmax_exps row))"
    by (simp add: divide_inverse)
  also have "\<dots> = sum_list (softmax_exps row) * inverse (softmax_sumExps row)"
    by (simp add: sum_list_mult_const)
  also have "\<dots> = 1"
    using softmax_sumExps_pos [OF ne] by (simp add: softmax_sumExps_sum_list)
  finally show ?thesis .
qed

lemma softmax_elem_range:
  assumes ne: "row \<noteq> []" and p: "p \<in> set (map (\<lambda>e. e / softmax_sumExps row) (softmax_exps row))"
  shows "0 \<le> p \<and> p \<le> 1"
proof -
  from p obtain e where e: "e \<in> set (softmax_exps row)" and pe: "p = e / softmax_sumExps row"
    by auto
  have s: "0 < softmax_sumExps row" by (rule softmax_sumExps_pos [OF ne])
  have "0 < e" using e by (rule softmax_exps_pos)
  moreover have "e \<le> softmax_sumExps row"
    unfolding softmax_sumExps_sum_list
    by (rule member_le_sum_list_real [OF e]) (auto dest: softmax_exps_pos less_imp_le)
  ultimately show ?thesis using s pe by simp
qed

lemma shift_row:
  "add \<lparr>rows = 1, cols = length row, data = [row]\<rparr> (scale (ones 1 (length row)) d)
     = \<lparr>rows = 1, cols = length row, data = [map (\<lambda>x. x + d) row]\<rparr>"
proof -
  have "map (\<lambda>j. row ! j + d) [0..<length row] = map (\<lambda>x. x + d) row"
    by (rule nth_equalityI) simp_all
  moreover have "add \<lparr>rows = 1, cols = length row, data = [row]\<rparr> (scale (ones 1 (length row)) d)
     = \<lparr>rows = 1, cols = length row, data = [map (\<lambda>j. row ! j + d) [0..<length row]]\<rparr>"
    by (simp add: add_def scale_def ones_def tabulate_def entry_def createMatrix_def)
  ultimately show ?thesis by simp
qed

lemma softmax_thousands:
  "softmax \<lparr>rows = 1, cols = 3, data = [[1000, 1000, 1000]]\<rparr>
     = \<lparr>rows = 1, cols = 3, data = [[1 / 3, 1 / 3, 1 / 3]]\<rparr>"
  by (simp add: softmax_def softmax_exps_def softmax_sumExps_def)

text \<open>
  C7.  Over the reals, \<open>softmax\<close> of a 1\<times>n row with n \<ge> 1 is a 1\<times>n row of numbers in
  [0, 1] that sum to 1; adding a constant \<open>d\<close> to every logit does not change it; the sum of
  the exponentials is not zero, so the fallback \<open>|| 1\<close> is not taken; and the row
  [1000, 1000, 1000] gives [1/3, 1/3, 1/3].
\<close>

theorem softmax_row_properties:
  assumes ne: "row \<noteq> []" and m: "m = \<lparr>rows = 1, cols = length row, data = [row]\<rparr>"
  shows "rows (softmax m) = 1 \<and> cols (softmax m) = length row \<and> wf_matrix (softmax m)
       \<and> (\<forall>p \<in> set (row0 (softmax m)). 0 \<le> p \<and> p \<le> 1)
       \<and> sum_list (row0 (softmax m)) = 1
       \<and> softmax (add m (scale (ones 1 (length row)) d)) = softmax m
       \<and> softmax_sumExps row \<noteq> 0
       \<and> softmax \<lparr>rows = 1, cols = 3, data = [[1000, 1000, 1000]]\<rparr>
           = \<lparr>rows = 1, cols = 3, data = [[1 / 3, 1 / 3, 1 / 3]]\<rparr>"
proof -
  have sm: "softmax m
      = \<lparr>rows = 1, cols = length row, data = [map (\<lambda>e. e / softmax_sumExps row) (softmax_exps row)]\<rparr>"
    using softmax_row [of m row] ne m by simp
  have shape: "rows (softmax m) = 1 \<and> cols (softmax m) = length row \<and> wf_matrix (softmax m)"
    by (simp add: sm wf_matrix_def)
  have range: "\<forall>p \<in> set (row0 (softmax m)). 0 \<le> p \<and> p \<le> 1"
    using softmax_elem_range [OF ne] by (simp add: sm row0_def)
  have total: "sum_list (row0 (softmax m)) = 1"
    using softmax_sum_one [OF ne] by (simp add: sm row0_def)
  have ne': "map (\<lambda>x. x + d) row \<noteq> []" using ne by simp
  have "softmax (add m (scale (ones 1 (length row)) d))
        = softmax \<lparr>rows = 1, cols = length row, data = [map (\<lambda>x. x + d) row]\<rparr>"
    by (simp only: m shift_row)
  also have "\<dots> = \<lparr>rows = 1, cols = length row,
        data = [map (\<lambda>e. e / softmax_sumExps (map (\<lambda>x. x + d) row)) (softmax_exps (map (\<lambda>x. x + d) row))]\<rparr>"
    using softmax_row [of "\<lparr>rows = 1, cols = length row, data = [map (\<lambda>x. x + d) row]\<rparr>" "map (\<lambda>x. x + d) row"] ne'
    by simp
  also have "\<dots> = softmax m"
    by (simp add: sm softmax_sumExps_def softmax_exps_shift [OF ne])
  finally have shift: "softmax (add m (scale (ones 1 (length row)) d)) = softmax m" .
  have nz: "softmax_sumExps row \<noteq> 0"
    using softmax_sumExps_pos [OF ne] by simp
  from shape range total shift nz softmax_thousands show ?thesis by blast
qed

theorem softmax_row_properties_witness:
  "sum_list (row0 (softmax \<lparr>rows = 1, cols = length [1000, 1000, 1000 :: real], data = [[1000, 1000, 1000]]\<rparr>)) = 1
   \<and> softmax (add \<lparr>rows = 1, cols = length [1000, 1000, 1000 :: real], data = [[1000, 1000, 1000]]\<rparr>
                 (scale (ones 1 (length [1000, 1000, 1000 :: real])) 7))
       = softmax \<lparr>rows = 1, cols = length [1000, 1000, 1000 :: real], data = [[1000, 1000, 1000]]\<rparr>
   \<and> softmax_sumExps [1000, 1000, 1000] \<noteq> 0"
  using softmax_row_properties
    [of "[1000, 1000, 1000]"
        "\<lparr>rows = 1, cols = length [1000, 1000, 1000 :: real], data = [[1000, 1000, 1000]]\<rparr>" 7]
  by blast

section \<open>Sequencing and loops\<close>

lemma andThen_Inr [simp]: "andThen (Inr v) f = f v"
  by (simp add: andThen_def)

lemma andThen_Inl [simp]: "andThen (Inl e) f = Inl e"
  by (simp add: andThen_def)

lemma andThen_eq_Inr: "andThen x f = Inr y \<longleftrightarrow> (\<exists>v. x = Inr v \<and> f v = Inr y)"
  by (cases x) simp_all

lemma forEach_append: "forEach body (xs @ ys) s = andThen (forEach body xs s) (forEach body ys)"
proof (induction xs arbitrary: s)
  case Nil
  show ?case by simp
next
  case (Cons x xs)
  show ?case by (cases "body x s") (simp_all add: Cons.IH)
qed

text \<open>
  The loop rule: an invariant of the processed prefix of the index list that every
  iteration re-establishes without throwing holds at the end, and the loop does not throw.
\<close>

lemma forEach_rule_aux:
  assumes step: "\<And>pre i st. I pre st \<Longrightarrow> i \<in> set ts \<Longrightarrow> \<exists>st'. body i st = Inr st' \<and> I (pre @ [i]) st'"
  shows "I pre s \<Longrightarrow> set us \<subseteq> set ts \<Longrightarrow> \<exists>s'. forEach body us s = Inr s' \<and> I (pre @ us) s'"
proof (induction us arbitrary: pre s)
  case Nil
  then show ?case by simp
next
  case (Cons u us)
  from Cons.prems have u: "u \<in> set ts" and sub: "set us \<subseteq> set ts" by auto
  from step [OF Cons.prems(1) u] obtain st' where b: "body u s = Inr st'" and inv': "I (pre @ [u]) st'"
    by blast
  from Cons.IH [OF inv' sub] obtain s' where "forEach body us st' = Inr s'" "I ((pre @ [u]) @ us) s'"
    by blast
  then show ?case using b by simp
qed

lemma forEach_rule:
  assumes start: "I [] s"
    and step: "\<And>pre i st. I pre st \<Longrightarrow> i \<in> set ts \<Longrightarrow> \<exists>st'. body i st = Inr st' \<and> I (pre @ [i]) st'"
  shows "\<exists>s'. forEach body ts s = Inr s' \<and> I ts s'"
  using forEach_rule_aux [of I ts body "[]" s ts, OF step start] by simp

section \<open>Shapes of the matrix operations\<close>

lemma shaped_tabulate [simp]: "shaped nr nc (tabulate nr nc f)"
  by (simp add: shaped_def)

lemma shaped_createMatrix [simp]: "shaped nr nc (createMatrix nr nc v)"
  by (simp add: shaped_def)

lemma dot_ok [simp]: "cols a = rows b \<Longrightarrow> dot a b = Inr (dot_loops a b)"
  by (simp add: dot_def)

lemma multiply_ok [simp]: "rows a = rows b \<Longrightarrow> cols a = cols b \<Longrightarrow> multiply a b = Inr (multiply_loops a b)"
  by (simp add: multiply_def)

lemma subtract_ok [simp]: "rows a = rows b \<Longrightarrow> cols a = cols b \<Longrightarrow> subtract a b = Inr (subtract_loops a b)"
  by (simp add: subtract_def)

lemma dot_loops_shape [simp]:
  "rows (dot_loops a b) = rows a" "cols (dot_loops a b) = cols b" "wf_matrix (dot_loops a b)"
  by (simp_all add: dot_loops_def)

lemma multiply_loops_shape [simp]:
  "rows (multiply_loops a b) = rows a" "cols (multiply_loops a b) = cols a" "wf_matrix (multiply_loops a b)"
  by (simp_all add: multiply_loops_def)

lemma subtract_loops_shape [simp]:
  "rows (subtract_loops a b) = rows a" "cols (subtract_loops a b) = cols a" "wf_matrix (subtract_loops a b)"
  by (simp_all add: subtract_loops_def)

lemma add_shape [simp]: "rows (add a b) = rows a" "cols (add a b) = cols a"
  by (simp_all add: add_def)

lemma add_wf [simp]: "wf_matrix a \<Longrightarrow> wf_matrix (add a b)"
  by (simp add: add_def)

lemma scale_shape [simp]: "rows (scale m s) = rows m" "cols (scale m s) = cols m" "wf_matrix (scale m s)"
  by (simp_all add: scale_def)

lemma transpose_shape [simp]:
  "rows (transpose m) = cols m" "cols (transpose m) = rows m" "wf_matrix (transpose m)"
  by (simp_all add: transpose_def)

lemma map_matrix_shape [simp]:
  "rows (map_matrix m fn) = rows m" "cols (map_matrix m fn) = cols m" "wf_matrix (map_matrix m fn)"
  by (simp_all add: map_matrix_def)

lemma clip_shape [simp]: "rows (clip m) = rows m" "cols (clip m) = cols m" "wf_matrix (clip m)"
  by (simp_all add: clip_def)

lemma ones_shape [simp]: "rows (ones nr nc) = nr" "cols (ones nr nc) = nc" "wf_matrix (ones nr nc)"
  by (simp_all add: ones_def)

lemma updateAt_length [simp]: "length (updateAt xs i f) = length xs"
  by (simp add: updateAt_def split: option.splits)

lemma updateRow0_shape [simp]:
  "rows (updateRow0 m i f) = rows m" "cols (updateRow0 m i f) = cols m"
  by (simp_all add: updateRow0_def)

lemma updateRow0_wf [simp]: "wf_matrix m \<Longrightarrow> wf_matrix (updateRow0 m i f)"
  by (auto simp: updateRow0_def wf_matrix_def split: list.splits)

lemma oneHot_shape [simp]:
  "rows (oneHot n i) = 1" "cols (oneHot n i) = n" "wf_matrix (oneHot n i)"
  by (simp_all add: oneHot_def)

lemma softmax_shape [simp]: "rows (softmax m) = 1" "cols (softmax m) = cols m"
  by (simp_all add: softmax_def Let_def)

lemma softmax_wf [simp]: "wf_matrix m \<Longrightarrow> wf_matrix (softmax m)"
  by (cases "data m") (auto simp: softmax_def Let_def wf_matrix_def createMatrix_def)

lemma createMatrixRandom_shape [simp]:
  "rows (fst (createMatrixRandom nr nc f rnd pos)) = nr"
  "cols (fst (createMatrixRandom nr nc f rnd pos)) = nc"
  "wf_matrix (fst (createMatrixRandom nr nc f rnd pos))"
  by (simp_all add: createMatrixRandom_def)

lemma applyUpdate_shape [simp]:
  "rows (applyUpdate p g lr) = rows p" "cols (applyUpdate p g lr) = cols p"
  by (simp_all add: applyUpdate_def)

lemma applyUpdate_wf [simp]: "wf_matrix p \<Longrightarrow> wf_matrix (applyUpdate p g lr)"
  by (simp add: applyUpdate_def)

lemma gatePre_ok:
  "cols x = rows (weights W) \<Longrightarrow> cols hp = rows (weights U) \<Longrightarrow>
   gatePre x W hp U = Inr (add (add (dot_loops x (weights W)) (biases W)) (dot_loops hp (weights U)))"
  by (simp add: gatePre_def)

section \<open>RNN: the loops do not throw on a well-formed model\<close>

lemma forward_shape_inv_last:
  assumes "forward_shape_inv entry_ok hs v enc pre st"
  shows "hiddenStates st \<noteq> []" and "shaped 1 hs (last (hiddenStates st))"
proof -
  from assms have len: "length (hiddenStates st) = Suc (length pre)"
    and all: "list_all (shaped 1 hs) (hiddenStates st)"
    by (simp_all add: forward_shape_inv_def)
  from len show ne: "hiddenStates st \<noteq> []" by auto
  from all ne show "shaped 1 hs (last (hiddenStates st))"
    by (simp add: list_all_iff)
qed

lemma forward_inv_last:
  assumes "forward_inv entry_ok kept hs v enc pre st"
  shows "hiddenStates st \<noteq> []" and "shaped 1 hs (last (hiddenStates st))"
  using assms forward_shape_inv_last [of entry_ok hs v enc pre st]
  by (simp_all add: forward_inv_def)

lemma forward_inv_extend:
  assumes inv: "forward_inv entry_ok kept hs v enc pre st"
    and e: "entry_ok e" and k: "shaped 1 hs (kept e)"
    and p: "pairOf p = pairAt v enc t"
  shows "forward_inv entry_ok kept hs v enc (pre @ [t])
           (st\<lparr>totalLoss := l, predictions := predictions st @ [p], cache := cache st @ [e],
               hiddenStates := hiddenStates st @ [kept e], rngPos := q\<rparr>)"
proof -
  have ne: "hiddenStates st \<noteq> []" by (rule forward_inv_last [OF inv])
  show ?thesis
    using inv e k p ne by (simp add: forward_inv_def forward_shape_inv_def)
qed

lemma dropout_ok:
  assumes "shaped 1 hs x"
  shows "\<exists>mk y q. dropout x hs dr rnd pos = Inr (mk, y, q) \<and> mask_ok hs mk \<and> shaped 1 hs y
           \<and> y = applyMask x mk \<and> (\<not> 0 < dr \<longrightarrow> mk = None \<and> q = pos)"
  using assms by (simp add: dropout_def Let_def shaped_def mask_ok_def applyMask_def)

lemma rnn_forward_step_ok:
  assumes wf: "wf_RNN hs m"
    and inv: "forward_inv (rnn_cache_ok (length (vocab m)) hs) h_next_dropped hs (vocab m) enc pre st"
  shows "\<exists>st'. rnn_forward_step m enc dr rnd t st = Inr st'
           \<and> forward_inv (rnn_cache_ok (length (vocab m)) hs) h_next_dropped hs (vocab m) enc (pre @ [t]) st'"
proof -
  let ?hp = "last (hiddenStates st)"
  let ?x = "oneHot (length (vocab m)) (nth_opt enc (Some t))"
  let ?raw = "add (add (dot_loops ?x (weights (Wxh m))) (biases (Wxh m))) (dot_loops ?hp (weights (Whh m)))"
  let ?hn = "map_matrix ?raw tanh"
  have hp: "shaped 1 hs ?hp" by (rule forward_inv_last [OF inv])
  have shapes: "rows (weights (Wxh m)) = length (vocab m)" "cols (weights (Wxh m)) = hs"
    "rows (weights (Whh m)) = hs" "cols (weights (Whh m)) = hs"
    "rows (weights (Why m)) = hs" "cols (weights (Why m)) = length (vocab m)"
    "rows (biases (Why m)) = 1" "cols (biases (Why m)) = length (vocab m)"
    using wf by (simp_all add: wf_RNN_def wf_layer_def shaped_def)
  have g: "gatePre ?x (Wxh m) ?hp (Whh m) = Inr ?raw"
    using hp shapes by (simp add: gatePre_ok shaped_def)
  have hn: "shaped 1 hs ?hn" using shapes by (simp add: shaped_def)
  from dropout_ok [OF hn, of dr rnd "rngPos st"] obtain mk y q
    where d: "dropout ?hn hs dr rnd (rngPos st) = Inr (mk, y, q)"
      and mk: "mask_ok hs mk" and y: "shaped 1 hs y" and ym: "y = applyMask ?hn mk" by blast
  let ?prob = "softmax (add (dot_loops y (weights (Why m))) (biases (Why m)))"
  let ?e = "\<lparr>inputVector = ?x, h_prev = ?hp, mask = mk, prob = ?prob, h_next = ?hn, h_next_dropped = y\<rparr>"
  let ?p = "predictionOf (vocab m) (nth_opt enc (Some t)) (nth_opt enc (Some (t + 1))) (argmaxIndex (row0 ?prob))"
  have step: "rnn_forward_step m enc dr rnd t st
      = Inr (st\<lparr>totalLoss := addLoss (totalLoss st) (lossTerm ?prob (nth_opt enc (Some (t + 1)))),
                predictions := predictions st @ [?p], cache := cache st @ [?e],
                hiddenStates := hiddenStates st @ [h_next_dropped ?e], rngPos := q\<rparr>)"
    using g d y shapes by (simp add: rnn_forward_step_def Let_def shaped_def)
  have e: "rnn_cache_ok (length (vocab m)) hs ?e"
    using hp hn mk y ym shapes by (simp add: rnn_cache_ok_def shaped_def)
  have p: "pairOf ?p = pairAt (vocab m) enc t"
    by (simp add: pairOf_def pairAt_def predictionOf_def)
  have k: "shaped 1 hs (h_next_dropped ?e)" using y by simp
  from forward_inv_extend [OF inv e k p] step show ?thesis by blast
qed

lemma rnn_forward_ok:
  assumes wf: "wf_RNN hs m"
  shows "\<exists>fw. rnn_forward m enc step seqEnd dr rnd pos = Inr fw
           \<and> forward_inv (rnn_cache_ok (length (vocab m)) hs) h_next_dropped hs (vocab m) enc
               [step..seqEnd - 1] fw"
  unfolding rnn_forward_def
proof (rule forEach_rule)
  show "forward_inv (rnn_cache_ok (length (vocab m)) hs) h_next_dropped hs (vocab m) enc []
          \<lparr>totalLoss = Some 0, predictions = [], cache = [], hiddenStates = [h m], rngPos = pos\<rparr>"
    using wf by (simp add: forward_inv_def forward_shape_inv_def wf_RNN_def)
next
  fix pre i and st :: "RNNCache ForwardState"
  assume "forward_inv (rnn_cache_ok (length (vocab m)) hs) h_next_dropped hs (vocab m) enc pre st"
  then show "\<exists>st'. rnn_forward_step m enc dr rnd i st = Inr st'
      \<and> forward_inv (rnn_cache_ok (length (vocab m)) hs) h_next_dropped hs (vocab m) enc (pre @ [i]) st'"
    by (rule rnn_forward_step_ok [OF wf])
qed

lemma rnn_backward_step_ok:
  assumes wf: "wf_RNN hs m"
    and e: "rnn_cache_ok (length (vocab m)) hs (cached ! t)"
    and g: "rnn_grads_ok (length (vocab m)) hs g"
  shows "\<exists>g'. rnn_backward_step m enc step cached t g = Inr g' \<and> rnn_grads_ok (length (vocab m)) hs g'"
proof (cases "mask (cached ! t)")
  case None
  then show ?thesis
    using wf e g
    by (simp add: rnn_backward_step_def Let_def wf_RNN_def wf_layer_def rnn_cache_ok_def
        rnn_grads_ok_def shaped_def applyMask_def)
next
  case (Some mk)
  then show ?thesis
    using wf e g
    by (simp add: rnn_backward_step_def Let_def wf_RNN_def wf_layer_def rnn_cache_ok_def
        rnn_grads_ok_def shaped_def mask_ok_def applyMask_def)
qed

lemma rnn_backward_ok:
  assumes wf: "wf_RNN hs m" and es: "list_all (rnn_cache_ok (length (vocab m)) hs) cached"
  shows "\<exists>g. rnn_backward m enc step cached = Inr g \<and> rnn_grads_ok (length (vocab m)) hs g"
proof -
  have hs: "cols (weights (Wxh m)) = hs" using wf by (simp add: wf_RNN_def wf_layer_def shaped_def)
  have "\<exists>g. forEach (rnn_backward_step m enc step cached) (rev [0..<length cached])
          \<lparr>dh_next_grad = createMatrix 1 hs 0,
           dWxh = createMatrix (length (vocab m)) hs 0, dWhh = createMatrix hs hs 0,
           dWhy = createMatrix hs (length (vocab m)) 0, dbxh = createMatrix 1 hs 0,
           dbhy = createMatrix 1 (length (vocab m)) 0\<rparr> = Inr g
        \<and> (\<lambda>pre. rnn_grads_ok (length (vocab m)) hs) (rev [0..<length cached]) g"
  proof (rule forEach_rule)
    show "rnn_grads_ok (length (vocab m)) hs
          \<lparr>dh_next_grad = createMatrix 1 hs 0,
           dWxh = createMatrix (length (vocab m)) hs 0, dWhh = createMatrix hs hs 0,
           dWhy = createMatrix hs (length (vocab m)) 0, dbxh = createMatrix 1 hs 0,
           dbhy = createMatrix 1 (length (vocab m)) 0\<rparr>"
      by (simp add: rnn_grads_ok_def)
  next
    fix pre :: "nat list" and i and st :: RNNGrads
    assume g: "rnn_grads_ok (length (vocab m)) hs st" and i: "i \<in> set (rev [0..<length cached])"
    from i es have "rnn_cache_ok (length (vocab m)) hs (cached ! i)"
      by (simp add: list_all_length)
    from rnn_backward_step_ok [OF wf this g]
    show "\<exists>st'. rnn_backward_step m enc step cached i st = Inr st' \<and> rnn_grads_ok (length (vocab m)) hs st'" .
  qed
  then show ?thesis by (simp add: rnn_backward_def Let_def hs)
qed

text \<open>The training step on a well-formed model: it returns, and what it returns.\<close>

lemma trainStepRNN_ok:
  assumes wf: "wf_RNN hs m"
  shows "\<exists>fw g r. rnn_forward m enc step (min (step + k) (int (length enc) - 1)) dr rnd pos = Inr fw
           \<and> forward_inv (rnn_cache_ok (length (vocab m)) hs) h_next_dropped hs (vocab m) enc
               [step..min (step + k) (int (length enc) - 1) - 1] fw
           \<and> rnn_backward m enc step (cache fw) = Inr g \<and> rnn_grads_ok (length (vocab m)) hs g
           \<and> trainStepRNN m enc step k lr dr rnd pos = Inr (r, rngPos fw)
           \<and> predictionResults r = predictions fw
           \<and> updatedModel r = m
              \<lparr>Wxh := \<lparr>weights = applyUpdate (weights (Wxh m)) (dWxh g) (- lr),
                       biases = applyUpdate (biases (Wxh m)) (dbxh g) (- lr)\<rparr>,
               Whh := (Whh m)\<lparr>weights := applyUpdate (weights (Whh m)) (dWhh g) (- lr)\<rparr>,
               Why := \<lparr>weights = applyUpdate (weights (Why m)) (dWhy g) (- lr),
                       biases = applyUpdate (biases (Why m)) (dbhy g) (- lr)\<rparr>,
               h := last (hiddenStates fw)\<rparr>
           \<and> loss r = map_option
                 (\<lambda>l. l / (if min (step + k) (int (length enc) - 1) - step = 0 then 1
                           else real_of_int (min (step + k) (int (length enc) - 1) - step)))
                 (totalLoss fw)"
proof -
  let ?seqEnd = "min (step + k) (int (length enc) - 1)"
  from rnn_forward_ok [OF wf, of enc step ?seqEnd dr rnd pos] obtain fw
    where fw: "rnn_forward m enc step ?seqEnd dr rnd pos = Inr fw"
      and inv: "forward_inv (rnn_cache_ok (length (vocab m)) hs) h_next_dropped hs (vocab m) enc
                 [step..?seqEnd - 1] fw" by blast
  from inv have "list_all (rnn_cache_ok (length (vocab m)) hs) (cache fw)"
    by (simp add: forward_inv_def forward_shape_inv_def)
  from rnn_backward_ok [OF wf this, of enc step] obtain g
    where g: "rnn_backward m enc step (cache fw) = Inr g"
      and gok: "rnn_grads_ok (length (vocab m)) hs g" by blast
  show ?thesis
    using fw inv g gok by (simp add: trainStepRNN_def Let_def)
qed

section \<open>The initialisers give well-formed models\<close>

lemma createLayer_wf [simp]: "wf_layer n_in n_out (fst (createLayer n_in n_out rnd pos))"
  by (simp add: createLayer_def Let_def wf_layer_def shaped_def)

lemma initializeFFNNModel_wf: "wf_FFNN hs (fst (initializeFFNNModel v hs rnd pos))"
  by (simp add: initializeFFNNModel_def Let_def wf_FFNN_def)

lemma initializeRNNModel_wf: "wf_RNN hs (fst (initializeRNNModel v hs rnd pos))"
  by (simp add: initializeRNNModel_def Let_def wf_RNN_def)

lemma initializeGRUModel_wf: "wf_GRU hs (fst (initializeGRUModel v hs rnd pos))"
  by (simp add: initializeGRUModel_def Let_def wf_GRU_def)

lemma initializeLSTMModel_wf: "wf_LSTM hs (fst (initializeLSTMModel v hs rnd pos))"
  by (simp add: initializeLSTMModel_def Let_def wf_LSTM_def)

section \<open>RNN: the bias of the recurrent layer\<close>

lemma gatePre_recurrent_bias: "gatePre x W hp (U\<lparr>biases := b\<rparr>) = gatePre x W hp U"
  by (simp add: gatePre_def)

lemma rnn_forward_Whh_bias:
  "rnn_forward (m\<lparr>Whh := (Whh m)\<lparr>biases := b\<rparr>\<rparr>) enc step seqEnd dr rnd pos
     = rnn_forward m enc step seqEnd dr rnd pos"
proof -
  have "rnn_forward_step (m\<lparr>Whh := (Whh m)\<lparr>biases := b\<rparr>\<rparr>) enc dr rnd = rnn_forward_step m enc dr rnd"
    by (intro ext) (simp add: rnn_forward_step_def gatePre_recurrent_bias)
  then show ?thesis by (simp add: rnn_forward_def)
qed

lemma rnn_backward_Whh_bias:
  "rnn_backward (m\<lparr>Whh := (Whh m)\<lparr>biases := b\<rparr>\<rparr>) enc step cached = rnn_backward m enc step cached"
proof -
  have "rnn_backward_step (m\<lparr>Whh := (Whh m)\<lparr>biases := b\<rparr>\<rparr>) enc step cached
          = rnn_backward_step m enc step cached"
    by (intro ext) (simp add: rnn_backward_step_def)
  then show ?thesis by (simp add: rnn_backward_def)
qed

text \<open>
  C10.  \<open>trainStepRNN\<close> neither writes nor reads \<open>Whh.biases\<close>: whenever it returns, the
  returned model has the bias row of the recurrent layer it was given, and on the model
  with any other row \<open>b\<close> in that place it returns the same result, with \<open>b\<close> in that place.
\<close>

theorem trainStepRNN_Whh_biases_frame:
  assumes run: "trainStepRNN m enc step k lr dr rnd pos = Inr (r, pos')"
  shows "biases (Whh (updatedModel r)) = biases (Whh m)
       \<and> trainStepRNN (m\<lparr>Whh := (Whh m)\<lparr>biases := b\<rparr>\<rparr>) enc step k lr dr rnd pos
           = Inr (r\<lparr>updatedModel := (updatedModel r)\<lparr>Whh := (Whh (updatedModel r))\<lparr>biases := b\<rparr>\<rparr>\<rparr>,
                  pos')"
proof -
  let ?seqEnd = "min (step + k) (int (length enc) - 1)"
  from run obtain fw where fw: "rnn_forward m enc step ?seqEnd dr rnd pos = Inr fw"
    by (auto simp: trainStepRNN_def Let_def andThen_eq_Inr)
  from run fw obtain g where g: "rnn_backward m enc step (cache fw) = Inr g"
    by (auto simp: trainStepRNN_def Let_def andThen_eq_Inr)
  from run fw g have r: "biases (Whh (updatedModel r)) = biases (Whh m)"
    by (auto simp: trainStepRNN_def Let_def)
  from run fw g show ?thesis
    by (auto simp: trainStepRNN_def Let_def rnn_forward_Whh_bias rnn_backward_Whh_bias)
qed

theorem trainStepRNN_Whh_biases_frame_witness:
  "\<exists>r pos'.
     trainStepRNN (fst (initializeRNNModel [''a'', ''b'', ''c''] 2 (\<lambda>n. 1 / 2) 0))
       [0, 1, 2, 0, 1, 2] 0 3 (1 / 10) 0 (\<lambda>n. 0) 0 = Inr (r, pos')
     \<and> biases (Whh (updatedModel r))
         = biases (Whh (fst (initializeRNNModel [''a'', ''b'', ''c''] 2 (\<lambda>n. 1 / 2) 0)))
     \<and> trainStepRNN
          ((fst (initializeRNNModel [''a'', ''b'', ''c''] 2 (\<lambda>n. 1 / 2) 0))
             \<lparr>Whh := (Whh (fst (initializeRNNModel [''a'', ''b'', ''c''] 2 (\<lambda>n. 1 / 2) 0)))
                       \<lparr>biases := createMatrix 1 2 7\<rparr>\<rparr>)
          [0, 1, 2, 0, 1, 2] 0 3 (1 / 10) 0 (\<lambda>n. 0) 0
         = Inr (r\<lparr>updatedModel :=
                    (updatedModel r)\<lparr>Whh := (Whh (updatedModel r))\<lparr>biases := createMatrix 1 2 7\<rparr>\<rparr>\<rparr>,
                pos')"
proof -
  let ?m = "fst (initializeRNNModel [''a'', ''b'', ''c''] 2 (\<lambda>n. 1 / 2) 0)"
  from trainStepRNN_ok [OF initializeRNNModel_wf, of "[''a'', ''b'', ''c'']" 2 "\<lambda>n. 1 / 2" 0
      "[0, 1, 2, 0, 1, 2]" 0 3 0 "\<lambda>n. 0" 0 "1 / 10"]
  obtain r pos' where run: "trainStepRNN ?m [0, 1, 2, 0, 1, 2] 0 3 (1 / 10) 0 (\<lambda>n. 0) 0 = Inr (r, pos')"
    by blast
  from trainStepRNN_Whh_biases_frame [OF run, of "createMatrix 1 2 7"] run
  show ?thesis by blast
qed

section \<open>GRU: the loops do not throw on a well-formed model\<close>

lemma forward_inv_step:
  assumes inv: "forward_inv entry_ok kept hs v enc pre st"
    and c: "cache st' = cache st @ [e]"
    and hst: "hiddenStates st' = hiddenStates st @ [kept e]"
    and ps: "predictions st' = predictions st @ [p]"
    and e: "entry_ok e" and k: "shaped 1 hs (kept e)"
    and p: "pairOf p = pairAt v enc t"
  shows "forward_inv entry_ok kept hs v enc (pre @ [t]) st'"
proof -
  have ne: "hiddenStates st \<noteq> []" by (rule forward_inv_last [OF inv])
  show ?thesis
    using inv c hst ps e k p ne by (simp add: forward_inv_def forward_shape_inv_def)
qed

lemma pairOf_predictionOf [simp]: "pairOf (predictionOf v (nth_opt enc (Some t)) (nth_opt enc (Some (t + 1))) j) = pairAt v enc t"
  by (simp add: pairOf_def pairAt_def predictionOf_def)

lemma gru_forward_step_shape:
  assumes wf: "wf_GRU hs m" and hp: "shaped 1 hs (last (hiddenStates st))"
  shows "\<exists>st' e p. gru_forward_step m enc dr rnd t st = Inr st'
           \<and> cache st' = cache st @ [e] \<and> hiddenStates st' = hiddenStates st @ [h_t_dropped e]
           \<and> predictions st' = predictions st @ [p]
           \<and> gru_cache_ok (length (vocab m)) hs e \<and> pairOf p = pairAt (vocab m) enc t"
proof (cases "0 < dr")
  case True
  then show ?thesis
    using wf hp
    by (simp add: gru_forward_step_def Let_def gatePre_ok dropout_def wf_GRU_def wf_layer_def
        gru_cache_ok_def shaped_def mask_ok_def)
next
  case False
  then show ?thesis
    using wf hp
    by (simp add: gru_forward_step_def Let_def gatePre_ok dropout_def wf_GRU_def wf_layer_def
        gru_cache_ok_def shaped_def mask_ok_def)
qed

lemma gru_forward_step_ok:
  assumes wf: "wf_GRU hs m"
    and inv: "forward_inv (gru_cache_ok (length (vocab m)) hs) h_t_dropped hs (vocab m) enc pre st"
  shows "\<exists>st'. gru_forward_step m enc dr rnd t st = Inr st'
           \<and> forward_inv (gru_cache_ok (length (vocab m)) hs) h_t_dropped hs (vocab m) enc (pre @ [t]) st'"
proof -
  have hp: "shaped 1 hs (last (hiddenStates st))" by (rule forward_inv_last [OF inv])
  from gru_forward_step_shape [OF wf hp, of enc dr rnd t] obtain st' e p
    where s: "gru_forward_step m enc dr rnd t st = Inr st'"
      and c: "cache st' = cache st @ [e]" "hiddenStates st' = hiddenStates st @ [h_t_dropped e]"
        "predictions st' = predictions st @ [p]"
      and e: "gru_cache_ok (length (vocab m)) hs e" and p: "pairOf p = pairAt (vocab m) enc t"
    by blast
  from e have k: "shaped 1 hs (h_t_dropped e)" by (simp add: gru_cache_ok_def)
  from forward_inv_step [OF inv c e k p] s show ?thesis by blast
qed

lemma gru_forward_ok:
  assumes wf: "wf_GRU hs m"
  shows "\<exists>fw. gru_forward m enc step seqEnd dr rnd pos = Inr fw
           \<and> forward_inv (gru_cache_ok (length (vocab m)) hs) h_t_dropped hs (vocab m) enc
               [step..seqEnd - 1] fw"
  unfolding gru_forward_def
proof (rule forEach_rule)
  show "forward_inv (gru_cache_ok (length (vocab m)) hs) h_t_dropped hs (vocab m) enc []
          \<lparr>totalLoss = Some 0, predictions = [], cache = [], hiddenStates = [h m], rngPos = pos\<rparr>"
    using wf by (simp add: forward_inv_def forward_shape_inv_def wf_GRU_def)
next
  fix pre i and st :: "GRUCache ForwardState"
  assume "forward_inv (gru_cache_ok (length (vocab m)) hs) h_t_dropped hs (vocab m) enc pre st"
  then show "\<exists>st'. gru_forward_step m enc dr rnd i st = Inr st'
      \<and> forward_inv (gru_cache_ok (length (vocab m)) hs) h_t_dropped hs (vocab m) enc (pre @ [i]) st'"
    by (rule gru_forward_step_ok [OF wf])
qed

lemma gru_backward_iteration_ok:
  assumes wf: "wf_GRU hs m"
    and e: "gru_cache_ok (length (vocab m)) hs (cached ! t)"
    and s: "shaped 1 hs (states ! (t + 1))"
    and g: "gru_grads_ok (length (vocab m)) hs g"
  shows "\<exists>l g'. gru_backward_iteration m enc step states cached t g = Inr (l, g')
           \<and> gru_grads_ok (length (vocab m)) hs g'"
proof (cases "mask (cached ! t)")
  case None
  then show ?thesis
    using wf e g s
    by (simp add: gru_backward_iteration_def Let_def wf_GRU_def wf_layer_def gru_cache_ok_def
        gru_grads_ok_def shaped_def)
next
  case (Some mk)
  then show ?thesis
    using wf e g s
    by (simp add: gru_backward_iteration_def Let_def wf_GRU_def wf_layer_def gru_cache_ok_def
        gru_grads_ok_def shaped_def mask_ok_def)
qed

lemma gru_backward_ok:
  assumes wf: "wf_GRU hs m" and es: "list_all (gru_cache_ok (length (vocab m)) hs) cached"
    and ss: "list_all (shaped 1 hs) states" and len: "length states = Suc (length cached)"
  shows "\<exists>g. gru_backward m enc step states cached = Inr g \<and> gru_grads_ok (length (vocab m)) hs g"
proof -
  let ?v = "length (vocab m)"
  let ?g0 = "\<lparr>dh_next_grad = createMatrix 1 hs 0,
            gWhy = createMatrix hs ?v 0, gby = createMatrix 1 ?v 0,
            gWz = createMatrix ?v hs 0, gUz = createMatrix hs hs 0, gbz = createMatrix 1 hs 0,
            gWr = createMatrix ?v hs 0, gUr = createMatrix hs hs 0, gbr = createMatrix 1 hs 0,
            gWh = createMatrix ?v hs 0, gUh = createMatrix hs hs 0, gbh = createMatrix 1 hs 0\<rparr>"
  have hs: "rows (weights (Why m)) = hs" using wf by (simp add: wf_GRU_def wf_layer_def shaped_def)
  have "\<exists>g. forEach (gru_backward_step m enc step states cached) (rev [0..<length cached]) ?g0 = Inr g
        \<and> (\<lambda>pre. gru_grads_ok ?v hs) (rev [0..<length cached]) g"
  proof (rule forEach_rule)
    show "gru_grads_ok ?v hs ?g0" by (simp add: gru_grads_ok_def)
  next
    fix pre :: "nat list" and i and st :: GRUGrads
    assume g: "gru_grads_ok ?v hs st" and i: "i \<in> set (rev [0..<length cached])"
    from i es have e: "gru_cache_ok ?v hs (cached ! i)" by (simp add: list_all_length)
    from i ss len have s: "shaped 1 hs (states ! (i + 1))" by (simp add: list_all_length)
    from gru_backward_iteration_ok [OF wf e s g, of enc step]
    show "\<exists>st'. gru_backward_step m enc step states cached i st = Inr st' \<and> gru_grads_ok ?v hs st'"
      by (auto simp: gru_backward_step_def)
  qed
  then show ?thesis by (simp add: gru_backward_def Let_def hs)
qed

lemma trainStepGRU_ok:
  assumes wf: "wf_GRU hs m"
  shows "\<exists>fw g r. gru_forward m enc step (min (step + k) (int (length enc) - 1)) dr rnd pos = Inr fw
           \<and> forward_inv (gru_cache_ok (length (vocab m)) hs) h_t_dropped hs (vocab m) enc
               [step..min (step + k) (int (length enc) - 1) - 1] fw
           \<and> gru_backward m enc step (hiddenStates fw) (cache fw) = Inr g
           \<and> gru_grads_ok (length (vocab m)) hs g
           \<and> trainStepGRU m enc step k lr dr rnd pos = Inr (r, rngPos fw)
           \<and> predictionResults r = predictions fw
           \<and> updatedModel r = m
              \<lparr>Wz := \<lparr>weights = applyUpdate (weights (Wz m)) (gWz g) (- lr),
                      biases = applyUpdate (biases (Wz m)) (gbz g) (- lr)\<rparr>,
               Uz := (Uz m)\<lparr>weights := applyUpdate (weights (Uz m)) (gUz g) (- lr)\<rparr>,
               Wr := \<lparr>weights = applyUpdate (weights (Wr m)) (gWr g) (- lr),
                      biases = applyUpdate (biases (Wr m)) (gbr g) (- lr)\<rparr>,
               Ur := (Ur m)\<lparr>weights := applyUpdate (weights (Ur m)) (gUr g) (- lr)\<rparr>,
               Wh := \<lparr>weights = applyUpdate (weights (Wh m)) (gWh g) (- lr),
                      biases = applyUpdate (biases (Wh m)) (gbh g) (- lr)\<rparr>,
               Uh := (Uh m)\<lparr>weights := applyUpdate (weights (Uh m)) (gUh g) (- lr)\<rparr>,
               Why := \<lparr>weights = applyUpdate (weights (Why m)) (gWhy g) (- lr),
                       biases = applyUpdate (biases (Why m)) (gby g) (- lr)\<rparr>,
               h := last (hiddenStates fw)\<rparr>
           \<and> loss r = map_option
                 (\<lambda>l. l / (if min (step + k) (int (length enc) - 1) - step = 0 then 1
                           else real_of_int (min (step + k) (int (length enc) - 1) - step)))
                 (totalLoss fw)"
proof -
  let ?seqEnd = "min (step + k) (int (length enc) - 1)"
  from gru_forward_ok [OF wf, of enc step ?seqEnd dr rnd pos] obtain fw
    where fw: "gru_forward m enc step ?seqEnd dr rnd pos = Inr fw"
      and inv: "forward_inv (gru_cache_ok (length (vocab m)) hs) h_t_dropped hs (vocab m) enc
                 [step..?seqEnd - 1] fw" by blast
  from inv have es: "list_all (gru_cache_ok (length (vocab m)) hs) (cache fw)"
    and ss: "list_all (shaped 1 hs) (hiddenStates fw)"
    and len: "length (hiddenStates fw) = Suc (length (cache fw))"
    by (simp_all add: forward_inv_def forward_shape_inv_def)
  from gru_backward_ok [OF wf es ss len, of enc step] obtain g
    where g: "gru_backward m enc step (hiddenStates fw) (cache fw) = Inr g"
      and gok: "gru_grads_ok (length (vocab m)) hs g" by blast
  show ?thesis
    using fw inv g gok by (simp add: trainStepGRU_def Let_def)
qed

section \<open>LSTM: the loops do not throw on a well-formed model\<close>

lemma lstm_forward_step_shape:
  assumes wf: "wf_LSTM hs m" and hp: "shaped 1 hs (last (hiddenStates st))"
    and cp: "shaped 1 hs (last (cellStates st))"
  shows "\<exists>st' e p. lstm_forward_step m enc dr rnd t st = Inr st'
           \<and> cache st' = cache st @ [e] \<and> hiddenStates st' = hiddenStates st @ [last (hiddenStates st')]
           \<and> shaped 1 hs (last (hiddenStates st'))
           \<and> (\<not> 0 < dr \<longrightarrow> last (hiddenStates st') = h_t e)
           \<and> cellStates st' = cellStates st @ [c_t e]
           \<and> predictions st' = predictions st @ [p]
           \<and> lstm_cache_ok (length (vocab m)) hs e \<and> pairOf p = pairAt (vocab m) enc t"
proof (cases "0 < dr")
  case True
  then show ?thesis
    using wf hp cp
    by (simp add: lstm_forward_step_def Let_def gatePre_ok dropout_def wf_LSTM_def wf_layer_def
        lstm_cache_ok_def shaped_def mask_ok_def)
next
  case False
  then show ?thesis
    using wf hp cp
    by (simp add: lstm_forward_step_def Let_def gatePre_ok dropout_def wf_LSTM_def wf_layer_def
        lstm_cache_ok_def shaped_def mask_ok_def)
qed

lemma lstm_forward_inv_last:
  assumes "lstm_forward_inv hs v enc pre st"
  shows "hiddenStates st \<noteq> []" and "shaped 1 hs (last (hiddenStates st))"
    and "cellStates st \<noteq> []" and "shaped 1 hs (last (cellStates st))"
proof -
  from assms have sh: "forward_shape_inv (lstm_cache_ok (length v) hs) hs v enc pre st"
    and len: "length (cellStates st) = Suc (length pre)"
    and all: "list_all (shaped 1 hs) (cellStates st)"
    by (simp_all add: lstm_forward_inv_def)
  from forward_shape_inv_last [OF sh]
  show "hiddenStates st \<noteq> []" and "shaped 1 hs (last (hiddenStates st))" .
  from len show ne: "cellStates st \<noteq> []" by auto
  from all ne show "shaped 1 hs (last (cellStates st))" by (simp add: list_all_iff)
qed

lemma lstm_forward_step_ok:
  assumes wf: "wf_LSTM hs m" and inv: "lstm_forward_inv hs (vocab m) enc pre st"
  shows "\<exists>st'. lstm_forward_step m enc dr rnd t st = Inr st'
           \<and> lstm_forward_inv hs (vocab m) enc (pre @ [t]) st'"
proof -
  note l = lstm_forward_inv_last [OF inv]
  from lstm_forward_step_shape [OF wf l(2) l(4), of enc dr rnd t] obtain st' e p
    where s: "lstm_forward_step m enc dr rnd t st = Inr st'"
      and c: "cache st' = cache st @ [e]"
        "hiddenStates st' = hiddenStates st @ [last (hiddenStates st')]"
        "shaped 1 hs (last (hiddenStates st'))"
        "cellStates st' = cellStates st @ [c_t e]"
        "predictions st' = predictions st @ [p]"
      and e: "lstm_cache_ok (length (vocab m)) hs e" and p: "pairOf p = pairAt (vocab m) enc t"
    by blast
  from e have ct: "shaped 1 hs (c_t e)" by (simp add: lstm_cache_ok_def)
  have "length (hiddenStates st') = length (hiddenStates st @ [last (hiddenStates st')])"
    using c(2) by (rule arg_cong)
  then have h1: "length (hiddenStates st') = Suc (length (hiddenStates st))" by simp
  have "list_all (shaped 1 hs) (hiddenStates st')
        = list_all (shaped 1 hs) (hiddenStates st @ [last (hiddenStates st')])"
    using c(2) by (rule arg_cong)
  then have h2: "list_all (shaped 1 hs) (hiddenStates st') = list_all (shaped 1 hs) (hiddenStates st)"
    using c(3) by simp
  have "lstm_forward_inv hs (vocab m) enc (pre @ [t]) st'"
    using inv c(1,4,5) e p l(3) ct h1 h2
    by (simp add: lstm_forward_inv_def forward_shape_inv_def)
  with s show ?thesis by blast
qed

lemma lstm_forward_ok:
  assumes wf: "wf_LSTM hs m"
  shows "\<exists>fw. lstm_forward m enc step seqEnd dr rnd pos = Inr fw
           \<and> lstm_forward_inv hs (vocab m) enc [step..seqEnd - 1] fw"
  unfolding lstm_forward_def
proof (rule forEach_rule)
  show "lstm_forward_inv hs (vocab m) enc []
          \<lparr>totalLoss = Some 0, predictions = [], cache = [], hiddenStates = [h m], rngPos = pos,
           cellStates = [c m]\<rparr>"
    using wf by (simp add: lstm_forward_inv_def forward_shape_inv_def wf_LSTM_def)
next
  fix pre i and st :: LSTMForwardState
  assume "lstm_forward_inv hs (vocab m) enc pre st"
  then show "\<exists>st'. lstm_forward_step m enc dr rnd i st = Inr st'
      \<and> lstm_forward_inv hs (vocab m) enc (pre @ [i]) st'"
    by (rule lstm_forward_step_ok [OF wf])
qed

lemma lstm_backward_iteration_ok:
  assumes wf: "wf_LSTM hs m"
    and e: "lstm_cache_ok (length (vocab m)) hs (cached ! t)"
    and s: "shaped 1 hs (states ! (t + 1))"
    and g: "lstm_grads_ok (length (vocab m)) hs g"
  shows "\<exists>l g'. lstm_backward_iteration m enc step states cached t g = Inr (l, g')
           \<and> lstm_grads_ok (length (vocab m)) hs g'"
proof (cases "mask (cached ! t)")
  case None
  then show ?thesis
    using wf e g s
    by (simp add: lstm_backward_iteration_def Let_def wf_LSTM_def wf_layer_def lstm_cache_ok_def
        lstm_grads_ok_def shaped_def)
next
  case (Some mk)
  then show ?thesis
    using wf e g s
    by (simp add: lstm_backward_iteration_def Let_def wf_LSTM_def wf_layer_def lstm_cache_ok_def
        lstm_grads_ok_def shaped_def mask_ok_def)
qed

lemma lstm_backward_ok:
  assumes wf: "wf_LSTM hs m" and es: "list_all (lstm_cache_ok (length (vocab m)) hs) cached"
    and ss: "list_all (shaped 1 hs) states" and len: "length states = Suc (length cached)"
  shows "\<exists>g. lstm_backward m enc step states cached = Inr g \<and> lstm_grads_ok (length (vocab m)) hs g"
proof -
  let ?v = "length (vocab m)"
  let ?g0 = "\<lparr>dh_next_grad = createMatrix 1 hs 0,
            gWhy = createMatrix hs ?v 0, gby = createMatrix 1 ?v 0,
            dc_next_grad = createMatrix 1 hs 0,
            gWf = createMatrix ?v hs 0, gUf = createMatrix hs hs 0, gbf = createMatrix 1 hs 0,
            gWi = createMatrix ?v hs 0, gUi = createMatrix hs hs 0, gbi = createMatrix 1 hs 0,
            gWo = createMatrix ?v hs 0, gUo = createMatrix hs hs 0, gbo = createMatrix 1 hs 0,
            gWc = createMatrix ?v hs 0, gUc = createMatrix hs hs 0, gbc = createMatrix 1 hs 0\<rparr>"
  have hs: "rows (weights (Why m)) = hs" using wf by (simp add: wf_LSTM_def wf_layer_def shaped_def)
  have "\<exists>g. forEach (lstm_backward_step m enc step states cached) (rev [0..<length cached]) ?g0 = Inr g
        \<and> (\<lambda>pre. lstm_grads_ok ?v hs) (rev [0..<length cached]) g"
  proof (rule forEach_rule)
    show "lstm_grads_ok ?v hs ?g0" by (simp add: lstm_grads_ok_def)
  next
    fix pre :: "nat list" and i and st :: LSTMGrads
    assume g: "lstm_grads_ok ?v hs st" and i: "i \<in> set (rev [0..<length cached])"
    from i es have e: "lstm_cache_ok ?v hs (cached ! i)" by (simp add: list_all_length)
    from i ss len have s: "shaped 1 hs (states ! (i + 1))" by (simp add: list_all_length)
    from lstm_backward_iteration_ok [OF wf e s g, of enc step]
    show "\<exists>st'. lstm_backward_step m enc step states cached i st = Inr st' \<and> lstm_grads_ok ?v hs st'"
      by (auto simp: lstm_backward_step_def)
  qed
  then show ?thesis by (simp add: lstm_backward_def Let_def hs)
qed

lemma trainStepLSTM_ok:
  assumes wf: "wf_LSTM hs m"
  shows "\<exists>fw g r. lstm_forward m enc step (min (step + k) (int (length enc) - 1)) dr rnd pos = Inr fw
           \<and> lstm_forward_inv hs (vocab m) enc [step..min (step + k) (int (length enc) - 1) - 1] fw
           \<and> lstm_backward m enc step (hiddenStates fw) (cache fw) = Inr g
           \<and> lstm_grads_ok (length (vocab m)) hs g
           \<and> trainStepLSTM m enc step k lr dr rnd pos = Inr (r, rngPos fw)
           \<and> predictionResults r = predictions fw
           \<and> updatedModel r = m
              \<lparr>Wf := fst (applyGrads (Wf m) (Uf m) (gWf g) (gUf g) (gbf g) (- lr)),
               Uf := snd (applyGrads (Wf m) (Uf m) (gWf g) (gUf g) (gbf g) (- lr)),
               Wi := fst (applyGrads (Wi m) (Ui m) (gWi g) (gUi g) (gbi g) (- lr)),
               Ui := snd (applyGrads (Wi m) (Ui m) (gWi g) (gUi g) (gbi g) (- lr)),
               Wo := fst (applyGrads (Wo m) (Uo m) (gWo g) (gUo g) (gbo g) (- lr)),
               Uo := snd (applyGrads (Wo m) (Uo m) (gWo g) (gUo g) (gbo g) (- lr)),
               Wc := fst (applyGrads (Wc m) (Uc m) (gWc g) (gUc g) (gbc g) (- lr)),
               Uc := snd (applyGrads (Wc m) (Uc m) (gWc g) (gUc g) (gbc g) (- lr)),
               Why := \<lparr>weights = applyUpdate (weights (Why m)) (gWhy g) (- lr),
                       biases = applyUpdate (biases (Why m)) (gby g) (- lr)\<rparr>,
               h := last (hiddenStates fw), c := last (cellStates fw)\<rparr>
           \<and> loss r = map_option
                 (\<lambda>l. l / (if min (step + k) (int (length enc) - 1) - step = 0 then 1
                           else real_of_int (min (step + k) (int (length enc) - 1) - step)))
                 (totalLoss fw)"
proof -
  let ?seqEnd = "min (step + k) (int (length enc) - 1)"
  from lstm_forward_ok [OF wf, of enc step ?seqEnd dr rnd pos] obtain fw
    where fw: "lstm_forward m enc step ?seqEnd dr rnd pos = Inr fw"
      and inv: "lstm_forward_inv hs (vocab m) enc [step..?seqEnd - 1] fw" by blast
  from inv have es: "list_all (lstm_cache_ok (length (vocab m)) hs) (cache fw)"
    and ss: "list_all (shaped 1 hs) (hiddenStates fw)"
    and len: "length (hiddenStates fw) = Suc (length (cache fw))"
    by (simp_all add: lstm_forward_inv_def forward_shape_inv_def)
  from lstm_backward_ok [OF wf es ss len, of enc step] obtain g
    where g: "lstm_backward m enc step (hiddenStates fw) (cache fw) = Inr g"
      and gok: "lstm_grads_ok (length (vocab m)) hs g" by blast
  show ?thesis
    using fw inv g gok by (simp add: trainStepLSTM_def Let_def)
qed

section \<open>Entries of sums and updates\<close>

lemma matrix_eqI:
  assumes "wf_matrix a" "wf_matrix b" "rows a = rows b" "cols a = cols b"
    and "\<And>i j. i < rows a \<Longrightarrow> j < cols a \<Longrightarrow> entry a i j = entry b i j"
  shows "a = b"
proof -
  have "a = tabulate (rows a) (cols a) (entry a)"
    by (simp only: tabulate_entry_id [OF assms(1)])
  also have "\<dots> = tabulate (rows a) (cols a) (entry b)"
    by (rule tabulate_cong) (rule assms(5))
  also have "\<dots> = tabulate (rows b) (cols b) (entry b)"
    by (simp only: assms(3,4))
  also have "\<dots> = b"
    by (rule tabulate_entry_id [OF assms(2)])
  finally show ?thesis .
qed

lemma add_entry:
  "rows a = rows b \<Longrightarrow> cols a = cols b \<Longrightarrow> i < rows a \<Longrightarrow> j < cols a \<Longrightarrow>
   entry (add a b) i j = entry a i j + entry b i j"
  by (simp add: add_def)

lemma applyUpdate_entry:
  "rows p = rows g \<Longrightarrow> cols p = cols g \<Longrightarrow> i < rows p \<Longrightarrow> j < cols p \<Longrightarrow>
   entry (applyUpdate p g lr) i j = entry p i j + max (- 5) (min 5 (entry g i j)) * lr"
  by (simp add: applyUpdate_def add_def scale_def clip_def map_matrix_def)

lemma applyUpdate_tabulate:
  "rows p = rows g \<Longrightarrow> cols p = cols g \<Longrightarrow>
   applyUpdate p g lr
     = tabulate (rows p) (cols p) (\<lambda>i j. entry p i j + max (- 5) (min 5 (entry g i j)) * lr)"
proof -
  assume s: "rows p = rows g" "cols p = cols g"
  have "applyUpdate p g lr
        = tabulate (rows p) (cols p) (\<lambda>i j. entry p i j + entry (scale (clip g) lr) i j)"
    using s by (simp add: applyUpdate_def add_same_shape)
  also have "\<dots> = tabulate (rows p) (cols p) (\<lambda>i j. entry p i j + max (- 5) (min 5 (entry g i j)) * lr)"
    using s by (intro tabulate_cong) (simp add: scale_def clip_def map_matrix_def)
  finally show ?thesis .
qed

lemma applyUpdate_zero_rate:
  "wf_matrix p \<Longrightarrow> rows p = rows g \<Longrightarrow> cols p = cols g \<Longrightarrow> applyUpdate p g 0 = p"
  by (rule matrix_eqI) (simp_all add: applyUpdate_entry)

lemma applyUpdate_zero_grad:
  "wf_matrix p \<Longrightarrow> applyUpdate p (createMatrix (rows p) (cols p) 0) lr = p"
  by (rule matrix_eqI) (simp_all add: applyUpdate_entry)

lemma gradSum_Nil: "gradSum nr nc [] = createMatrix nr nc 0"
  by (simp add: gradSum_def createMatrix_tabulate)

lemma gradSum_shape [simp]: "rows (gradSum nr nc ms) = nr" "cols (gradSum nr nc ms) = nc" "wf_matrix (gradSum nr nc ms)"
  by (simp_all add: gradSum_def)

lemma gradSum_snoc:
  "rows g = nr \<Longrightarrow> cols g = nc \<Longrightarrow> add (gradSum nr nc ms) g = gradSum nr nc (ms @ [g])"
  by (rule matrix_eqI) (simp_all add: add_entry, simp add: gradSum_def)

section \<open>FFNN: the batch loop on a well-formed model\<close>

lemma ffnn_example_ok:
  assumes wf: "wf_FFNN hs m"
  shows "\<exists>a b d e st' p. ffnn_example_gradients m enc t = Inr (a, b, d, e)
           \<and> shaped (length (vocab m)) hs a \<and> shaped 1 hs b
           \<and> shaped hs (length (vocab m)) d \<and> shaped 1 (length (vocab m)) e
           \<and> ffnn_example m enc batchEnd t st = Inr st'
           \<and> hiddenGrad st' = \<lparr>weights = add (weights (hiddenGrad st)) a,
                                biases = add (biases (hiddenGrad st)) b\<rparr>
           \<and> outputGrad st' = \<lparr>weights = add (weights (outputGrad st)) d,
                                biases = add (biases (outputGrad st)) e\<rparr>
           \<and> predictions st' = predictions st @ [p] \<and> pairOf p = pairAt (vocab m) enc t"
  using wf
  by (simp add: ffnn_example_def ffnn_example_gradients_def ffnn_forward_def ffnn_backward_def
      Let_def wf_FFNN_def wf_layer_def shaped_def)

lemma ffnn_example_inv:
  assumes wf: "wf_FFNN hs m" and inv: "ffnn_batch_inv m hs enc gs pre st"
  shows "\<exists>st' g. ffnn_example m enc batchEnd t st = Inr st'
           \<and> ffnn_batch_inv m hs enc (gs @ [g]) (pre @ [t]) st'"
proof -
  from ffnn_example_ok [OF wf, of enc t batchEnd st] obtain a b d e st' p
    where gr: "ffnn_example_gradients m enc t = Inr (a, b, d, e)"
      and sh: "shaped (length (vocab m)) hs a" "shaped 1 hs b"
        "shaped hs (length (vocab m)) d" "shaped 1 (length (vocab m)) e"
      and s: "ffnn_example m enc batchEnd t st = Inr st'"
      and hg: "hiddenGrad st' = \<lparr>weights = add (weights (hiddenGrad st)) a,
                                biases = add (biases (hiddenGrad st)) b\<rparr>"
      and og: "outputGrad st' = \<lparr>weights = add (weights (outputGrad st)) d,
                                biases = add (biases (outputGrad st)) e\<rparr>"
      and ps: "predictions st' = predictions st @ [p]" and p: "pairOf p = pairAt (vocab m) enc t"
    by blast
  have "ffnn_batch_inv m hs enc (gs @ [(a, b, d, e)]) (pre @ [t]) st'"
    using inv gr sh hg og ps p
    by (simp add: ffnn_batch_inv_def gradSum_snoc shaped_def)
  with s show ?thesis by blast
qed

lemma ffnn_loop_ok:
  assumes wf: "wf_FFNN hs m" and inv: "ffnn_batch_inv m hs enc gs pre st"
  shows "\<exists>st' gs'. forEach (ffnn_example m enc batchEnd) ts st = Inr st'
           \<and> ffnn_batch_inv m hs enc (gs @ gs') (pre @ ts) st' \<and> length gs' = length ts"
  using inv
proof (induction ts arbitrary: gs pre st)
  case Nil
  then show ?case by simp
next
  case (Cons t ts)
  from ffnn_example_inv [OF wf Cons.prems, of batchEnd t] obtain st1 g
    where s: "ffnn_example m enc batchEnd t st = Inr st1"
      and inv1: "ffnn_batch_inv m hs enc (gs @ [g]) (pre @ [t]) st1" by blast
  from Cons.IH [OF inv1] obtain st' gs'
    where l: "forEach (ffnn_example m enc batchEnd) ts st1 = Inr st'"
      and inv': "ffnn_batch_inv m hs enc ((gs @ [g]) @ gs') ((pre @ [t]) @ ts) st'"
      and len: "length gs' = length ts" by blast
  show ?case
  proof (intro exI conjI)
    show "forEach (ffnn_example m enc batchEnd) (t # ts) st = Inr st'" using s l by simp
    show "ffnn_batch_inv m hs enc (gs @ (g # gs')) (pre @ t # ts) st'" using inv' by simp
    show "length (g # gs') = length (t # ts)" using len by simp
  qed
qed

text \<open>The training step on a well-formed model: it returns, and what it returns.\<close>

lemma trainStepFFNN_ok:
  assumes wf: "wf_FFNN hs m"
  shows "\<exists>st gs r.
           forEach (ffnn_example m enc (min (step + bs) (int (length enc) - 1)))
             [step..min (step + bs) (int (length enc) - 1) - 1]
             \<lparr>totalLoss = Some 0, predictions = [],
              hiddenGrad = \<lparr>weights = createMatrix (length (vocab m)) hs 0,
                             biases = createMatrix 1 hs 0\<rparr>,
              outputGrad = \<lparr>weights = createMatrix hs (length (vocab m)) 0,
                             biases = createMatrix 1 (length (vocab m)) 0\<rparr>,
              lastResultForVis = None\<rparr> = Inr st
           \<and> ffnn_batch_inv m hs enc gs [step..min (step + bs) (int (length enc) - 1) - 1] st
           \<and> length gs = length [step..min (step + bs) (int (length enc) - 1) - 1]
           \<and> trainStepFFNN m enc step bs lr = Inr r
           \<and> (min (step + bs) (int (length enc) - 1) - step = 0 \<longrightarrow>
                 updatedModel r = m \<and> loss r = Some 0 \<and> predictionResults r = [])
           \<and> (min (step + bs) (int (length enc) - 1) - step \<noteq> 0 \<longrightarrow>
                 updatedModel r = m
                   \<lparr>hiddenLayer :=
                      \<lparr>weights = applyUpdate (weights (hiddenLayer m)) (weights (hiddenGrad st))
                                  (- lr / real_of_int (min (step + bs) (int (length enc) - 1) - step)),
                       biases = applyUpdate (biases (hiddenLayer m)) (biases (hiddenGrad st))
                                  (- lr / real_of_int (min (step + bs) (int (length enc) - 1) - step))\<rparr>,
                    outputLayer :=
                      \<lparr>weights = applyUpdate (weights (outputLayer m)) (weights (outputGrad st))
                                  (- lr / real_of_int (min (step + bs) (int (length enc) - 1) - step)),
                       biases = applyUpdate (biases (outputLayer m)) (biases (outputGrad st))
                                  (- lr / real_of_int (min (step + bs) (int (length enc) - 1) - step))\<rparr>\<rparr>
                 \<and> loss r = map_option
                       (\<lambda>l. l / real_of_int (min (step + bs) (int (length enc) - 1) - step))
                       (totalLoss st)
                 \<and> predictionResults r = predictions st)"
proof -
  let ?be = "min (step + bs) (int (length enc) - 1)"
  let ?s0 = "\<lparr>totalLoss = Some 0, predictions = [],
              hiddenGrad = \<lparr>weights = createMatrix (length (vocab m)) hs 0,
                             biases = createMatrix 1 hs 0\<rparr>,
              outputGrad = \<lparr>weights = createMatrix hs (length (vocab m)) 0,
                             biases = createMatrix 1 (length (vocab m)) 0\<rparr>,
              lastResultForVis = None\<rparr>"
  have hs: "cols (weights (hiddenLayer m)) = hs"
    using wf by (simp add: wf_FFNN_def wf_layer_def shaped_def)
  have inv0: "ffnn_batch_inv m hs enc [] [] ?s0"
    by (simp add: ffnn_batch_inv_def gradSum_Nil)
  from ffnn_loop_ok [OF wf inv0, of ?be "[step..?be - 1]"] obtain st gs
    where l: "forEach (ffnn_example m enc ?be) [step..?be - 1] ?s0 = Inr st"
      and inv: "ffnn_batch_inv m hs enc gs [step..?be - 1] st"
      and len: "length gs = length [step..?be - 1]" by auto
  show ?thesis
    by (rule exI [of _ st], rule exI [of _ gs])
      (use l inv len hs in \<open>simp add: trainStepFFNN_def Let_def\<close>)
qed

section \<open>The empty window\<close>

lemma applyUpdate_zeros:
  "shaped nr nc p \<Longrightarrow> applyUpdate p (createMatrix nr nc 0) lr = p"
  using applyUpdate_zero_grad [of p lr] by (auto simp: shaped_def)

lemma layer_update_zeros:
  "wf_layer n_in n_out l \<Longrightarrow>
   \<lparr>weights = applyUpdate (weights l) (createMatrix n_in n_out 0) lr,
    biases = applyUpdate (biases l) (createMatrix (Suc 0) n_out 0) lr\<rparr> = l"
  using applyUpdate_zeros [of 1 n_out "biases l" lr]
  by (simp add: wf_layer_def applyUpdate_zeros)

lemma layer_weights_update_zeros:
  "wf_layer n_in n_out l \<Longrightarrow> l\<lparr>weights := applyUpdate (weights l) (createMatrix n_in n_out 0) lr\<rparr> = l"
  by (simp add: wf_layer_def applyUpdate_zeros)

lemma empty_window_FFNN:
  assumes wf: "wf_FFNN hs m" and empty: "min (step + k) (int (length enc) - 1) \<le> step"
  shows "\<exists>r. trainStepFFNN m enc step k lr = Inr r \<and> loss r = Some 0
           \<and> predictionResults r = [] \<and> updatedModel r = m"
proof -
  have hs: "cols (weights (hiddenLayer m)) = hs"
    using wf by (simp add: wf_FFNN_def wf_layer_def shaped_def)
  have nil: "[step..min (step + k) (int (length enc) - 1) - 1] = []" using empty by simp
  show ?thesis
    using wf
    by (simp add: trainStepFFNN_def Let_def nil hs wf_FFNN_def layer_update_zeros)
qed

lemma empty_window_RNN:
  assumes wf: "wf_RNN hs m" and empty: "min (step + k) (int (length enc) - 1) \<le> step"
  shows "\<exists>r. trainStepRNN m enc step k lr dr rnd pos = Inr (r, pos) \<and> loss r = Some 0
           \<and> predictionResults r = [] \<and> updatedModel r = m"
proof -
  have hs: "cols (weights (Wxh m)) = hs"
    using wf by (simp add: wf_RNN_def wf_layer_def shaped_def)
  have nil: "[step..min (step + k) (int (length enc) - 1) - 1] = []" using empty by simp
  show ?thesis
    using wf
    by (simp add: trainStepRNN_def rnn_forward_def rnn_backward_def Let_def nil hs wf_RNN_def
        layer_update_zeros layer_weights_update_zeros)
qed

lemma empty_window_GRU:
  assumes wf: "wf_GRU hs m" and empty: "min (step + k) (int (length enc) - 1) \<le> step"
  shows "\<exists>r. trainStepGRU m enc step k lr dr rnd pos = Inr (r, pos) \<and> loss r = Some 0
           \<and> predictionResults r = [] \<and> updatedModel r = m"
proof -
  have hs: "rows (weights (Why m)) = hs"
    using wf by (simp add: wf_GRU_def wf_layer_def shaped_def)
  have nil: "[step..min (step + k) (int (length enc) - 1) - 1] = []" using empty by simp
  show ?thesis
    using wf
    by (simp add: trainStepGRU_def gru_forward_def gru_backward_def Let_def nil hs wf_GRU_def
        layer_update_zeros layer_weights_update_zeros)
qed

lemma empty_window_LSTM:
  assumes wf: "wf_LSTM hs m" and empty: "min (step + k) (int (length enc) - 1) \<le> step"
  shows "\<exists>r. trainStepLSTM m enc step k lr dr rnd pos = Inr (r, pos) \<and> loss r = Some 0
           \<and> predictionResults r = [] \<and> updatedModel r = m"
proof -
  have hs: "rows (weights (Why m)) = hs"
    using wf by (simp add: wf_LSTM_def wf_layer_def shaped_def)
  have nil: "[step..min (step + k) (int (length enc) - 1) - 1] = []" using empty by simp
  show ?thesis
    using wf
    by (simp add: trainStepLSTM_def lstm_forward_def lstm_backward_def Let_def nil hs wf_LSTM_def
        applyGrads_def layer_update_zeros layer_weights_update_zeros)
qed

text \<open>
  C5.  A call whose window holds no (input, target) pair: the end of the window,
  \<open>min (step + k) (length - 1)\<close>, is not after the cursor \<open>step\<close>, which is the case when the
  cursor is at or past \<open>length - 1\<close>.  On well-formed models each of the four training steps
  then returns without an error, with loss 0, no prediction, and the model it was given.
\<close>

theorem empty_window_is_noop:
  assumes "wf_FFNN hs1 m1" and "wf_RNN hs2 m2" and "wf_GRU hs3 m3" and "wf_LSTM hs4 m4"
    and "min (step + k) (int (length enc) - 1) \<le> step"
  shows "(\<exists>r. trainStepFFNN m1 enc step k lr = Inr r \<and> loss r = Some 0
              \<and> predictionResults r = [] \<and> updatedModel r = m1)
       \<and> (\<exists>r. trainStepRNN m2 enc step k lr dr rnd pos = Inr (r, pos) \<and> loss r = Some 0
              \<and> predictionResults r = [] \<and> updatedModel r = m2)
       \<and> (\<exists>r. trainStepGRU m3 enc step k lr dr rnd pos = Inr (r, pos) \<and> loss r = Some 0
              \<and> predictionResults r = [] \<and> updatedModel r = m3)
       \<and> (\<exists>r. trainStepLSTM m4 enc step k lr dr rnd pos = Inr (r, pos) \<and> loss r = Some 0
              \<and> predictionResults r = [] \<and> updatedModel r = m4)"
  using assms
  by (intro conjI empty_window_FFNN empty_window_RNN empty_window_GRU empty_window_LSTM)

theorem empty_window_is_noop_witness:
  "(\<exists>r. trainStepFFNN (fst (initializeFFNNModel [''a'', ''b'', ''c''] 4 (\<lambda>n. 1 / 2) 0))
            [0, 1, 2] 2 3 (1 / 10) = Inr r \<and> loss r = Some 0 \<and> predictionResults r = []
         \<and> updatedModel r = fst (initializeFFNNModel [''a'', ''b'', ''c''] 4 (\<lambda>n. 1 / 2) 0))
   \<and> (\<exists>r. trainStepRNN (fst (initializeRNNModel [''a'', ''b'', ''c''] 4 (\<lambda>n. 1 / 2) 0))
            [0, 1, 2] 2 3 (1 / 10) (1 / 5) (\<lambda>n. 0) 0 = Inr (r, 0) \<and> loss r = Some 0
         \<and> predictionResults r = []
         \<and> updatedModel r = fst (initializeRNNModel [''a'', ''b'', ''c''] 4 (\<lambda>n. 1 / 2) 0))
   \<and> (\<exists>r. trainStepGRU (fst (initializeGRUModel [''a'', ''b'', ''c''] 4 (\<lambda>n. 1 / 2) 0))
            [0, 1, 2] 2 3 (1 / 10) (1 / 5) (\<lambda>n. 0) 0 = Inr (r, 0) \<and> loss r = Some 0
         \<and> predictionResults r = []
         \<and> updatedModel r = fst (initializeGRUModel [''a'', ''b'', ''c''] 4 (\<lambda>n. 1 / 2) 0))
   \<and> (\<exists>r. trainStepLSTM (fst (initializeLSTMModel [''a'', ''b'', ''c''] 4 (\<lambda>n. 1 / 2) 0))
            [0, 1, 2] 2 3 (1 / 10) (1 / 5) (\<lambda>n. 0) 0 = Inr (r, 0) \<and> loss r = Some 0
         \<and> predictionResults r = []
         \<and> updatedModel r = fst (initializeLSTMModel [''a'', ''b'', ''c''] 4 (\<lambda>n. 1 / 2) 0))"
  by (rule empty_window_is_noop
      [OF initializeFFNNModel_wf initializeRNNModel_wf initializeGRUModel_wf initializeLSTMModel_wf])
    simp

section \<open>One prediction per processed pair\<close>

lemma window_positions:
  assumes "0 \<le> k" and "step < int (length enc) - 1"
  shows "min (step + k) (int (length enc) - 1) - 1 = step + min k (int (length enc) - 1 - step) - 1"
    and "length [step..step + min k (int (length enc) - 1 - step) - 1]
           = nat (min k (int (length enc) - 1 - step))"
  using assms by auto

lemma predictions_FFNN:
  assumes wf: "wf_FFNN hs m"
  shows "\<exists>r. trainStepFFNN m enc step k lr = Inr r
           \<and> map pairOf (predictionResults r)
               = map (pairAt (vocab m) enc) [step..min (step + k) (int (length enc) - 1) - 1]"
proof -
  let ?be = "min (step + k) (int (length enc) - 1)"
  from trainStepFFNN_ok [OF wf, of enc step k lr] obtain st gs r
    where inv: "ffnn_batch_inv m hs enc gs [step..?be - 1] st"
      and r: "trainStepFFNN m enc step k lr = Inr r"
      and z: "?be - step = 0 \<longrightarrow> predictionResults r = []"
      and nz: "?be - step \<noteq> 0 \<longrightarrow> predictionResults r = predictions st"
    by blast
  have "map pairOf (predictionResults r) = map (pairAt (vocab m) enc) [step..?be - 1]"
  proof (cases "?be - step = 0")
    case True
    then have "[step..?be - 1] = []" by simp
    with True z show ?thesis by simp
  next
    case False
    with nz inv show ?thesis by (simp add: ffnn_batch_inv_def)
  qed
  with r show ?thesis by blast
qed

lemma predictions_RNN:
  assumes wf: "wf_RNN hs m"
  shows "\<exists>r pos' fw. trainStepRNN m enc step k lr dr rnd pos = Inr (r, pos')
           \<and> map pairOf (predictionResults r)
               = map (pairAt (vocab m) enc) [step..min (step + k) (int (length enc) - 1) - 1]
           \<and> rnn_forward m enc step (min (step + k) (int (length enc) - 1)) dr rnd pos = Inr fw
           \<and> length (cache fw) = length [step..min (step + k) (int (length enc) - 1) - 1]
           \<and> list_all (rnn_cache_ok (length (vocab m)) hs) (cache fw)
           \<and> (cache fw \<noteq> [] \<longrightarrow> h (updatedModel r) = h_next_dropped (last (cache fw)))"
proof -
  let ?se = "min (step + k) (int (length enc) - 1)"
  from trainStepRNN_ok [OF wf, of enc step k dr rnd pos lr] obtain fw g r
    where fw: "rnn_forward m enc step ?se dr rnd pos = Inr fw"
      and inv: "forward_inv (rnn_cache_ok (length (vocab m)) hs) h_next_dropped hs (vocab m) enc
                 [step..?se - 1] fw"
      and r: "trainStepRNN m enc step k lr dr rnd pos = Inr (r, rngPos fw)"
      and ps: "predictionResults r = predictions fw"
      and hh: "h (updatedModel r) = last (hiddenStates fw)"
    by (auto simp del: upto.simps)
  from inv have len: "length (cache fw) = length [step..?se - 1]"
    and oks: "list_all (rnn_cache_ok (length (vocab m)) hs) (cache fw)"
    and pm: "map pairOf (predictions fw) = map (pairAt (vocab m) enc) [step..?se - 1]"
    and kept: "map h_next_dropped (cache fw) = tl (hiddenStates fw)"
    and hl: "length (hiddenStates fw) = Suc (length [step..?se - 1])"
    by (simp_all add: forward_inv_def forward_shape_inv_def)
  have "cache fw \<noteq> [] \<longrightarrow> last (hiddenStates fw) = h_next_dropped (last (cache fw))"
  proof
    assume ne: "cache fw \<noteq> []"
    then have "tl (hiddenStates fw) \<noteq> []" using kept by auto
    then have "last (hiddenStates fw) = last (tl (hiddenStates fw))"
      by (simp add: last_tl)
    also have "\<dots> = last (map h_next_dropped (cache fw))" by (simp only: kept)
    also have "\<dots> = h_next_dropped (last (cache fw))" using ne by (simp add: last_map)
    finally show "last (hiddenStates fw) = h_next_dropped (last (cache fw))" .
  qed
  with fw r ps hh len oks pm show ?thesis by (auto simp del: upto.simps)
qed

lemma predictions_GRU:
  assumes wf: "wf_GRU hs m"
  shows "\<exists>r pos'. trainStepGRU m enc step k lr dr rnd pos = Inr (r, pos')
           \<and> map pairOf (predictionResults r)
               = map (pairAt (vocab m) enc) [step..min (step + k) (int (length enc) - 1) - 1]"
proof -
  let ?se = "min (step + k) (int (length enc) - 1)"
  from trainStepGRU_ok [OF wf, of enc step k dr rnd pos lr] obtain fw g r
    where fw: "gru_forward m enc step ?se dr rnd pos = Inr fw"
      and inv: "forward_inv (gru_cache_ok (length (vocab m)) hs) h_t_dropped hs (vocab m) enc
                 [step..?se - 1] fw"
      and r: "trainStepGRU m enc step k lr dr rnd pos = Inr (r, rngPos fw)"
      and ps: "predictionResults r = predictions fw"
    by blast
  from inv ps have "map pairOf (predictionResults r) = map (pairAt (vocab m) enc) [step..?se - 1]"
    by (simp add: forward_inv_def forward_shape_inv_def)
  with r show ?thesis by blast
qed

lemma predictions_LSTM:
  assumes wf: "wf_LSTM hs m"
  shows "\<exists>r pos'. trainStepLSTM m enc step k lr dr rnd pos = Inr (r, pos')
           \<and> map pairOf (predictionResults r)
               = map (pairAt (vocab m) enc) [step..min (step + k) (int (length enc) - 1) - 1]"
proof -
  let ?se = "min (step + k) (int (length enc) - 1)"
  from trainStepLSTM_ok [OF wf, of enc step k dr rnd pos lr] obtain fw g r
    where fw: "lstm_forward m enc step ?se dr rnd pos = Inr fw"
      and inv: "lstm_forward_inv hs (vocab m) enc [step..?se - 1] fw"
      and r: "trainStepLSTM m enc step k lr dr rnd pos = Inr (r, rngPos fw)"
      and ps: "predictionResults r = predictions fw"
    by blast
  from inv ps have "map pairOf (predictionResults r) = map (pairAt (vocab m) enc) [step..?se - 1]"
    by (simp add: lstm_forward_inv_def forward_shape_inv_def)
  with r show ?thesis by blast
qed

lemma initializeRNNModel_vocab [simp]: "vocab (fst (initializeRNNModel v hs rnd pos)) = v"
  by (simp add: initializeRNNModel_def Let_def)

lemma scenario_B_pairs:
  "map (pairAt [''a'', ''b'', ''c''] [0, 1, 2, 0, 1, 2]) [0..2]
     = [(Some ''a'', Some ''b''), (Some ''b'', Some ''c''), (Some ''c'', Some ''a'')]"
proof -
  have "[0..2::int] = [0, 1, 2]" by (simp add: upto.simps)
  then show ?thesis by (simp add: pairAt_def nth_opt_def)
qed

text \<open>
  C8.  With a valid cursor and a window size \<open>k \<ge> 0\<close>, each training step on a well-formed
  model returns a prediction list with exactly \<open>min k (length - 1 - step)\<close> entries, the
  entry at each position naming the (input, target) pair of that corpus position, in
  order.  For an RNN with the vocabulary a, b, c on the corpus [0,1,2,0,1,2], window 3 at
  cursor 0: three entries, for (a,b), (b,c), (c,a), and the returned \<open>h\<close> is the hidden state
  the third forward step cached (its new state, with the mask of the step applied when
  dropout drew one).
\<close>

theorem predictionResults_per_pair:
  assumes "wf_FFNN hs1 m1" and "wf_RNN hs2 m2" and "wf_GRU hs3 m3" and "wf_LSTM hs4 m4"
    and "0 \<le> step" and "step < int (length enc) - 1" and "0 \<le> k"
    and "wf_RNN hs5 m5" and "vocab m5 = [''a'', ''b'', ''c'']"
  shows "(\<exists>r. trainStepFFNN m1 enc step k lr = Inr r
            \<and> int (length (predictionResults r)) = min k (int (length enc) - 1 - step)
            \<and> map pairOf (predictionResults r)
                = map (pairAt (vocab m1) enc) [step..step + min k (int (length enc) - 1 - step) - 1])
       \<and> (\<exists>r pos'. trainStepRNN m2 enc step k lr dr rnd pos = Inr (r, pos')
            \<and> int (length (predictionResults r)) = min k (int (length enc) - 1 - step)
            \<and> map pairOf (predictionResults r)
                = map (pairAt (vocab m2) enc) [step..step + min k (int (length enc) - 1 - step) - 1])
       \<and> (\<exists>r pos'. trainStepGRU m3 enc step k lr dr rnd pos = Inr (r, pos')
            \<and> int (length (predictionResults r)) = min k (int (length enc) - 1 - step)
            \<and> map pairOf (predictionResults r)
                = map (pairAt (vocab m3) enc) [step..step + min k (int (length enc) - 1 - step) - 1])
       \<and> (\<exists>r pos'. trainStepLSTM m4 enc step k lr dr rnd pos = Inr (r, pos')
            \<and> int (length (predictionResults r)) = min k (int (length enc) - 1 - step)
            \<and> map pairOf (predictionResults r)
                = map (pairAt (vocab m4) enc) [step..step + min k (int (length enc) - 1 - step) - 1])
       \<and> (\<exists>r pos' fw. trainStepRNN m5 [0, 1, 2, 0, 1, 2] 0 3 lr dr rnd pos = Inr (r, pos')
            \<and> length (predictionResults r) = 3
            \<and> map pairOf (predictionResults r)
                = [(Some ''a'', Some ''b''), (Some ''b'', Some ''c''), (Some ''c'', Some ''a'')]
            \<and> rnn_forward m5 [0, 1, 2, 0, 1, 2] 0 3 dr rnd pos = Inr fw
            \<and> length (cache fw) = 3
            \<and> h (updatedModel r) = h_next_dropped (cache fw ! 2)
            \<and> h_next_dropped (cache fw ! 2) = applyMask (h_next (cache fw ! 2)) (mask (cache fw ! 2)))"
proof -
  let ?n = "min k (int (length enc) - 1 - step)"
  have w: "min (step + k) (int (length enc) - 1) - 1 = step + ?n - 1" by auto
  have len: "\<And>ps :: TokenTriple list. map pairOf ps = map (pairAt v enc) [step..step + ?n - 1]
      \<Longrightarrow> int (length ps) = ?n" for v
  proof -
    fix ps :: "TokenTriple list"
    assume "map pairOf ps = map (pairAt v enc) [step..step + ?n - 1]"
    then have "length (map pairOf ps) = length (map (pairAt v enc) [step..step + ?n - 1])" by simp
    then show "int (length ps) = ?n" using assms(6,7) by simp
  qed
  have A: "\<exists>r. trainStepFFNN m1 enc step k lr = Inr r
            \<and> int (length (predictionResults r)) = ?n
            \<and> map pairOf (predictionResults r) = map (pairAt (vocab m1) enc) [step..step + ?n - 1]"
    using predictions_FFNN [OF assms(1), of enc step k lr] len unfolding w by blast
  have B: "\<exists>r pos'. trainStepRNN m2 enc step k lr dr rnd pos = Inr (r, pos')
            \<and> int (length (predictionResults r)) = ?n
            \<and> map pairOf (predictionResults r) = map (pairAt (vocab m2) enc) [step..step + ?n - 1]"
    using predictions_RNN [OF assms(2), of enc step k lr dr rnd pos] len unfolding w by blast
  have C: "\<exists>r pos'. trainStepGRU m3 enc step k lr dr rnd pos = Inr (r, pos')
            \<and> int (length (predictionResults r)) = ?n
            \<and> map pairOf (predictionResults r) = map (pairAt (vocab m3) enc) [step..step + ?n - 1]"
    using predictions_GRU [OF assms(3), of enc step k lr dr rnd pos] len unfolding w by blast
  have D: "\<exists>r pos'. trainStepLSTM m4 enc step k lr dr rnd pos = Inr (r, pos')
            \<and> int (length (predictionResults r)) = ?n
            \<and> map pairOf (predictionResults r) = map (pairAt (vocab m4) enc) [step..step + ?n - 1]"
    using predictions_LSTM [OF assms(4), of enc step k lr dr rnd pos] len unfolding w by blast
  have se: "min (0 + 3) (int (length [0, 1, 2, 0, 1, 2 :: int]) - 1) = 3" by simp
  from predictions_RNN [OF assms(8), of "[0, 1, 2, 0, 1, 2]" 0 3 lr dr rnd pos]
  obtain r pos' fw
    where r: "trainStepRNN m5 [0, 1, 2, 0, 1, 2] 0 3 lr dr rnd pos = Inr (r, pos')"
      and ps: "map pairOf (predictionResults r) = map (pairAt (vocab m5) [0, 1, 2, 0, 1, 2]) [0..3 - 1]"
      and fw: "rnn_forward m5 [0, 1, 2, 0, 1, 2] 0 3 dr rnd pos = Inr fw"
      and cl: "length (cache fw) = length [0..3 - 1 :: int]"
      and oks: "list_all (rnn_cache_ok (length (vocab m5)) hs5) (cache fw)"
      and hh: "cache fw \<noteq> [] \<longrightarrow> h (updatedModel r) = h_next_dropped (last (cache fw))"
    unfolding se by blast
  have c3: "length (cache fw) = 3" using cl by simp
  have ps': "map pairOf (predictionResults r)
      = [(Some ''a'', Some ''b''), (Some ''b'', Some ''c''), (Some ''c'', Some ''a'')]"
    using ps scenario_B_pairs by (simp add: assms(9))
  from ps' have "length (map pairOf (predictionResults r)) = 3" by simp
  then have p3: "length (predictionResults r) = 3" by simp
  have ne: "cache fw \<noteq> []" using c3 by auto
  have last2: "last (cache fw) = cache fw ! 2" using last_conv_nth [OF ne] c3 by simp
  have hh': "h (updatedModel r) = h_next_dropped (cache fw ! 2)" using hh ne last2 by simp
  have "rnn_cache_ok (length (vocab m5)) hs5 (cache fw ! 2)"
    using oks c3 by (simp add: list_all_length)
  then have am: "h_next_dropped (cache fw ! 2) = applyMask (h_next (cache fw ! 2)) (mask (cache fw ! 2))"
    by (simp add: rnn_cache_ok_def)
  from r p3 ps' fw c3 hh' am
  have E: "\<exists>r pos' fw. trainStepRNN m5 [0, 1, 2, 0, 1, 2] 0 3 lr dr rnd pos = Inr (r, pos')
            \<and> length (predictionResults r) = 3
            \<and> map pairOf (predictionResults r)
                = [(Some ''a'', Some ''b''), (Some ''b'', Some ''c''), (Some ''c'', Some ''a'')]
            \<and> rnn_forward m5 [0, 1, 2, 0, 1, 2] 0 3 dr rnd pos = Inr fw
            \<and> length (cache fw) = 3
            \<and> h (updatedModel r) = h_next_dropped (cache fw ! 2)
            \<and> h_next_dropped (cache fw ! 2) = applyMask (h_next (cache fw ! 2)) (mask (cache fw ! 2))"
    by (intro exI conjI) assumption+
  from A B C D E show ?thesis by (intro conjI) assumption+
qed

theorem predictionResults_per_pair_witness:
  "(\<exists>r. trainStepFFNN (fst (initializeFFNNModel [''a'', ''b'', ''c''] 4 (\<lambda>n. 1 / 2) 0))
            [0, 1, 2, 0, 1, 2] 0 3 (1 / 10) = Inr r
         \<and> int (length (predictionResults r)) = 3)
   \<and> (\<exists>r pos'. trainStepLSTM (fst (initializeLSTMModel [''a'', ''b'', ''c''] 4 (\<lambda>n. 1 / 2) 0))
            [0, 1, 2, 0, 1, 2] 0 3 (1 / 10) 0 (\<lambda>n. 0) 0 = Inr (r, pos')
         \<and> int (length (predictionResults r)) = 3)
   \<and> (\<exists>r pos' fw.
         trainStepRNN (fst (initializeRNNModel [''a'', ''b'', ''c''] 4 (\<lambda>n. 1 / 2) 0))
           [0, 1, 2, 0, 1, 2] 0 3 (1 / 10) 0 (\<lambda>n. 0) 0 = Inr (r, pos')
         \<and> length (predictionResults r) = 3
         \<and> map pairOf (predictionResults r)
             = [(Some ''a'', Some ''b''), (Some ''b'', Some ''c''), (Some ''c'', Some ''a'')]
         \<and> rnn_forward (fst (initializeRNNModel [''a'', ''b'', ''c''] 4 (\<lambda>n. 1 / 2) 0))
               [0, 1, 2, 0, 1, 2] 0 3 0 (\<lambda>n. 0) 0 = Inr fw
         \<and> length (cache fw) = 3
         \<and> h (updatedModel r) = h_next_dropped (cache fw ! 2)
         \<and> h_next_dropped (cache fw ! 2) = applyMask (h_next (cache fw ! 2)) (mask (cache fw ! 2)))"
proof -
  have c: "(0::int) \<le> 0" "(0::int) < int (length [0, 1, 2, 0, 1, 2 :: int]) - 1" "(0::int) \<le> 3"
    by simp_all
  have n: "min 3 (int (length [0, 1, 2, 0, 1, 2 :: int]) - 1 - 0) = 3" by simp
  note w1 = initializeFFNNModel_wf [of 4 "[''a'', ''b'', ''c'']" "\<lambda>n. 1 / 2" 0]
  note w2 = initializeRNNModel_wf [of 4 "[''a'', ''b'', ''c'']" "\<lambda>n. 1 / 2" 0]
  note w3 = initializeGRUModel_wf [of 4 "[''a'', ''b'', ''c'']" "\<lambda>n. 1 / 2" 0]
  note w4 = initializeLSTMModel_wf [of 4 "[''a'', ''b'', ''c'']" "\<lambda>n. 1 / 2" 0]
  note v5 = initializeRNNModel_vocab [of "[''a'', ''b'', ''c'']" 4 "\<lambda>n. 1 / 2" 0]
  note t = predictionResults_per_pair
    [OF w1 w2 w3 w4 c w2 v5, where lr = "1 / 10" and dr = 0 and rnd = "\<lambda>n. 0" and pos = 0,
      unfolded n]
  from t show ?thesis by (elim conjE exE) (intro conjI exI; assumption)
qed

section \<open>Consecutive windows\<close>

lemma forEach_sim:
  assumes step: "\<And>i s1 s2. R s1 s2 \<Longrightarrow> \<exists>a b. body i s1 = Inr a \<and> body i s2 = Inr b \<and> R a b"
  shows "R s1 s2 \<Longrightarrow> \<exists>a b. forEach body ts s1 = Inr a \<and> forEach body ts s2 = Inr b \<and> R a b"
proof (induction ts arbitrary: s1 s2)
  case Nil
  then show ?case by simp
next
  case (Cons t ts)
  from step [OF Cons.prems, of t] obtain a b
    where ab: "body t s1 = Inr a" "body t s2 = Inr b" "R a b" by blast
  from Cons.IH [OF ab(3)] ab(1,2) show ?case by simp
qed

lemma window_split:
  assumes "0 \<le> k"
  shows "[0..2 * k - 1] = [0..k - 1] @ [k..2 * k - 1]"
proof (cases "k = 0")
  case True
  then show ?thesis by simp
next
  case False
  with assms have "0 \<le> k" "k \<le> 2 * k - 1" by auto
  then show ?thesis by (rule upto_split1)
qed

lemma window_ends:
  assumes "0 \<le> k" and "2 * k + 1 \<le> int (length enc)"
  shows "min (0 + k) (int (length enc) - 1) = k"
    and "min (k + k) (int (length enc) - 1) = 2 * k"
    and "min (0 + 2 * k) (int (length enc) - 1) = 2 * k"
  using assms by auto

lemma layer_update_zero_rate:
  "wf_matrix (weights l) \<Longrightarrow> wf_matrix (biases l) \<Longrightarrow>
   rows (weights l) = rows gW \<Longrightarrow> cols (weights l) = cols gW \<Longrightarrow>
   rows (biases l) = rows gb \<Longrightarrow> cols (biases l) = cols gb \<Longrightarrow>
   \<lparr>weights = applyUpdate (weights l) gW 0, biases = applyUpdate (biases l) gb 0\<rparr> = l"
  by (simp add: applyUpdate_zero_rate)

lemma layer_weights_update_zero_rate:
  "wf_matrix (weights l) \<Longrightarrow> rows (weights l) = rows gW \<Longrightarrow> cols (weights l) = cols gW \<Longrightarrow>
   l\<lparr>weights := applyUpdate (weights l) gW 0\<rparr> = l"
  by (simp add: applyUpdate_zero_rate)

subsection \<open>RNN\<close>

lemma trainStepRNN_frozen:
  assumes wf: "wf_RNN hs m"
  shows "\<exists>fw r. rnn_forward m enc step (min (step + k) (int (length enc) - 1)) dr rnd pos = Inr fw
           \<and> shaped 1 hs (last (hiddenStates fw))
           \<and> trainStepRNN m enc step k 0 dr rnd pos = Inr (r, rngPos fw)
           \<and> updatedModel r = m\<lparr>h := last (hiddenStates fw)\<rparr>"
proof -
  let ?se = "min (step + k) (int (length enc) - 1)"
  from trainStepRNN_ok [OF wf, of enc step k dr rnd pos 0] obtain fw g r
    where fw: "rnn_forward m enc step ?se dr rnd pos = Inr fw"
      and inv: "forward_inv (rnn_cache_ok (length (vocab m)) hs) h_next_dropped hs (vocab m) enc
                 [step..?se - 1] fw"
      and g: "rnn_grads_ok (length (vocab m)) hs g"
      and r: "trainStepRNN m enc step k 0 dr rnd pos = Inr (r, rngPos fw)"
      and u: "updatedModel r = m
              \<lparr>Wxh := \<lparr>weights = applyUpdate (weights (Wxh m)) (dWxh g) (- 0),
                       biases = applyUpdate (biases (Wxh m)) (dbxh g) (- 0)\<rparr>,
               Whh := (Whh m)\<lparr>weights := applyUpdate (weights (Whh m)) (dWhh g) (- 0)\<rparr>,
               Why := \<lparr>weights = applyUpdate (weights (Why m)) (dWhy g) (- 0),
                       biases = applyUpdate (biases (Why m)) (dbhy g) (- 0)\<rparr>,
               h := last (hiddenStates fw)\<rparr>"
    by blast
  have sh: "shaped 1 hs (last (hiddenStates fw))" by (rule forward_inv_last [OF inv])
  have "updatedModel r = m\<lparr>h := last (hiddenStates fw)\<rparr>"
    using u wf g
    by (simp add: wf_RNN_def wf_layer_def shaped_def rnn_grads_ok_def layer_update_zero_rate
        layer_weights_update_zero_rate)
  with fw sh r show ?thesis by blast
qed

lemma rnn_forward_step_carried:
  "rnn_forward_step (m\<lparr>h := x\<rparr>) enc dr rnd = rnn_forward_step m enc dr rnd"
  by (intro ext) (simp add: rnn_forward_step_def)

lemma rnn_forward_step_sim:
  assumes wf: "wf_RNN hs m" and dr: "\<not> 0 < dr"
    and R: "shaped 1 hs (last (hiddenStates s1)) \<and> last (hiddenStates s2) = last (hiddenStates s1)"
  shows "\<exists>a b. rnn_forward_step m enc dr rnd t s1 = Inr a \<and> rnn_forward_step m enc dr rnd t s2 = Inr b
           \<and> (shaped 1 hs (last (hiddenStates a)) \<and> last (hiddenStates b) = last (hiddenStates a))"
  using wf dr R
  by (simp add: rnn_forward_step_def Let_def gatePre_ok dropout_def wf_RNN_def wf_layer_def shaped_def)

lemma continuity_RNN:
  assumes wf: "wf_RNN hs m" and k: "0 \<le> k" and len: "2 * k + 1 \<le> int (length enc)"
  shows "\<exists>r1 p1 r2 p2 r3 p3.
           trainStepRNN m enc 0 k 0 0 rnd pos = Inr (r1, p1)
           \<and> trainStepRNN (updatedModel r1) enc k k 0 0 rnd p1 = Inr (r2, p2)
           \<and> trainStepRNN m enc 0 (2 * k) 0 0 rnd pos = Inr (r3, p3)
           \<and> h (updatedModel r2) = h (updatedModel r3)"
proof -
  note e = window_ends [OF k len]
  let ?body = "rnn_forward_step m enc 0 rnd"
  let ?s0 = "\<lparr>totalLoss = Some 0, predictions = [], cache = [], hiddenStates = [h m], rngPos = pos\<rparr>"
  from trainStepRNN_frozen [OF wf, of enc 0 k 0 rnd pos] obtain fw1 r1
    where fw1: "rnn_forward m enc 0 k 0 rnd pos = Inr fw1"
      and sh1: "shaped 1 hs (last (hiddenStates fw1))"
      and r1: "trainStepRNN m enc 0 k 0 0 rnd pos = Inr (r1, rngPos fw1)"
      and u1: "updatedModel r1 = m\<lparr>h := last (hiddenStates fw1)\<rparr>"
    unfolding e by blast
  let ?m' = "m\<lparr>h := last (hiddenStates fw1)\<rparr>"
  let ?s0' = "\<lparr>totalLoss = Some 0, predictions = [], cache = [],
              hiddenStates = [last (hiddenStates fw1)], rngPos = rngPos fw1\<rparr>"
  have wf': "wf_RNN hs ?m'" using wf sh1 by (simp add: wf_RNN_def)
  from trainStepRNN_frozen [OF wf', of enc k k 0 rnd "rngPos fw1"] obtain fw2 r2
    where fw2: "rnn_forward ?m' enc k (2 * k) 0 rnd (rngPos fw1) = Inr fw2"
      and r2: "trainStepRNN ?m' enc k k 0 0 rnd (rngPos fw1) = Inr (r2, rngPos fw2)"
      and u2: "updatedModel r2 = ?m'\<lparr>h := last (hiddenStates fw2)\<rparr>"
    unfolding e by blast
  from trainStepRNN_frozen [OF wf, of enc 0 "2 * k" 0 rnd pos] obtain fw3 r3
    where fw3: "rnn_forward m enc 0 (2 * k) 0 rnd pos = Inr fw3"
      and r3: "trainStepRNN m enc 0 (2 * k) 0 0 rnd pos = Inr (r3, rngPos fw3)"
      and u3: "updatedModel r3 = m\<lparr>h := last (hiddenStates fw3)\<rparr>"
    unfolding e by blast
  have a1: "forEach ?body [0..k - 1] ?s0 = Inr fw1" using fw1 by (simp add: rnn_forward_def)
  have a3: "forEach ?body [k..2 * k - 1] fw1 = Inr fw3"
    using fw3 a1 by (simp add: rnn_forward_def window_split [OF k] forEach_append)
  have a2: "forEach ?body [k..2 * k - 1] ?s0' = Inr fw2"
    using fw2 by (simp add: rnn_forward_def rnn_forward_step_carried)
  have "\<exists>a b. forEach ?body [k..2 * k - 1] fw1 = Inr a \<and> forEach ?body [k..2 * k - 1] ?s0' = Inr b
          \<and> (shaped 1 hs (last (hiddenStates a)) \<and> last (hiddenStates b) = last (hiddenStates a))"
  proof (rule forEach_sim)
    show "shaped 1 hs (last (hiddenStates fw1)) \<and> last (hiddenStates ?s0') = last (hiddenStates fw1)"
      using sh1 by simp
  next
    fix i and s1 s2 :: "RNNCache ForwardState"
    assume "shaped 1 hs (last (hiddenStates s1)) \<and> last (hiddenStates s2) = last (hiddenStates s1)"
    then show "\<exists>a b. ?body i s1 = Inr a \<and> ?body i s2 = Inr b
        \<and> (shaped 1 hs (last (hiddenStates a)) \<and> last (hiddenStates b) = last (hiddenStates a))"
      by (intro rnn_forward_step_sim [OF wf]) simp_all
  qed
  with a2 a3 have "last (hiddenStates fw2) = last (hiddenStates fw3)" by simp
  then have hh: "h (updatedModel r2) = h (updatedModel r3)" using u2 u3 by simp
  have r2': "trainStepRNN (updatedModel r1) enc k k 0 0 rnd (rngPos fw1) = Inr (r2, rngPos fw2)"
    using r2 u1 by simp
  from r1 r2' r3 hh show ?thesis by blast
qed

subsection \<open>GRU\<close>

lemma trainStepGRU_frozen:
  assumes wf: "wf_GRU hs m"
  shows "\<exists>fw r. gru_forward m enc step (min (step + k) (int (length enc) - 1)) dr rnd pos = Inr fw
           \<and> shaped 1 hs (last (hiddenStates fw))
           \<and> trainStepGRU m enc step k 0 dr rnd pos = Inr (r, rngPos fw)
           \<and> updatedModel r = m\<lparr>h := last (hiddenStates fw)\<rparr>"
proof -
  let ?se = "min (step + k) (int (length enc) - 1)"
  from trainStepGRU_ok [OF wf, of enc step k dr rnd pos 0] obtain fw g r
    where fw: "gru_forward m enc step ?se dr rnd pos = Inr fw"
      and inv: "forward_inv (gru_cache_ok (length (vocab m)) hs) h_t_dropped hs (vocab m) enc
                 [step..?se - 1] fw"
      and g: "gru_grads_ok (length (vocab m)) hs g"
      and r: "trainStepGRU m enc step k 0 dr rnd pos = Inr (r, rngPos fw)"
      and u: "updatedModel r = m
              \<lparr>Wz := \<lparr>weights = applyUpdate (weights (Wz m)) (gWz g) (- 0),
                      biases = applyUpdate (biases (Wz m)) (gbz g) (- 0)\<rparr>,
               Uz := (Uz m)\<lparr>weights := applyUpdate (weights (Uz m)) (gUz g) (- 0)\<rparr>,
               Wr := \<lparr>weights = applyUpdate (weights (Wr m)) (gWr g) (- 0),
                      biases = applyUpdate (biases (Wr m)) (gbr g) (- 0)\<rparr>,
               Ur := (Ur m)\<lparr>weights := applyUpdate (weights (Ur m)) (gUr g) (- 0)\<rparr>,
               Wh := \<lparr>weights = applyUpdate (weights (Wh m)) (gWh g) (- 0),
                      biases = applyUpdate (biases (Wh m)) (gbh g) (- 0)\<rparr>,
               Uh := (Uh m)\<lparr>weights := applyUpdate (weights (Uh m)) (gUh g) (- 0)\<rparr>,
               Why := \<lparr>weights = applyUpdate (weights (Why m)) (gWhy g) (- 0),
                       biases = applyUpdate (biases (Why m)) (gby g) (- 0)\<rparr>,
               h := last (hiddenStates fw)\<rparr>"
    by blast
  have sh: "shaped 1 hs (last (hiddenStates fw))" by (rule forward_inv_last [OF inv])
  have "updatedModel r = m\<lparr>h := last (hiddenStates fw)\<rparr>"
    using u wf g
    by (simp add: wf_GRU_def wf_layer_def shaped_def gru_grads_ok_def layer_update_zero_rate
        layer_weights_update_zero_rate)
  with fw sh r show ?thesis by blast
qed

lemma gru_forward_step_carried:
  "gru_forward_step (m\<lparr>h := x\<rparr>) enc dr rnd = gru_forward_step m enc dr rnd"
  by (intro ext) (simp add: gru_forward_step_def)

lemma gru_forward_step_sim:
  assumes wf: "wf_GRU hs m" and dr: "\<not> 0 < dr"
    and R: "shaped 1 hs (last (hiddenStates s1)) \<and> last (hiddenStates s2) = last (hiddenStates s1)"
  shows "\<exists>a b. gru_forward_step m enc dr rnd t s1 = Inr a \<and> gru_forward_step m enc dr rnd t s2 = Inr b
           \<and> (shaped 1 hs (last (hiddenStates a)) \<and> last (hiddenStates b) = last (hiddenStates a))"
  using wf dr R
  by (simp add: gru_forward_step_def Let_def gatePre_ok dropout_def wf_GRU_def wf_layer_def shaped_def)

lemma continuity_GRU:
  assumes wf: "wf_GRU hs m" and k: "0 \<le> k" and len: "2 * k + 1 \<le> int (length enc)"
  shows "\<exists>r1 p1 r2 p2 r3 p3.
           trainStepGRU m enc 0 k 0 0 rnd pos = Inr (r1, p1)
           \<and> trainStepGRU (updatedModel r1) enc k k 0 0 rnd p1 = Inr (r2, p2)
           \<and> trainStepGRU m enc 0 (2 * k) 0 0 rnd pos = Inr (r3, p3)
           \<and> h (updatedModel r2) = h (updatedModel r3)"
proof -
  note e = window_ends [OF k len]
  let ?body = "gru_forward_step m enc 0 rnd"
  let ?s0 = "\<lparr>totalLoss = Some 0, predictions = [], cache = [], hiddenStates = [h m], rngPos = pos\<rparr>"
  from trainStepGRU_frozen [OF wf, of enc 0 k 0 rnd pos] obtain fw1 r1
    where fw1: "gru_forward m enc 0 k 0 rnd pos = Inr fw1"
      and sh1: "shaped 1 hs (last (hiddenStates fw1))"
      and r1: "trainStepGRU m enc 0 k 0 0 rnd pos = Inr (r1, rngPos fw1)"
      and u1: "updatedModel r1 = m\<lparr>h := last (hiddenStates fw1)\<rparr>"
    unfolding e by blast
  let ?m' = "m\<lparr>h := last (hiddenStates fw1)\<rparr>"
  let ?s0' = "\<lparr>totalLoss = Some 0, predictions = [], cache = [],
              hiddenStates = [last (hiddenStates fw1)], rngPos = rngPos fw1\<rparr>"
  have wf': "wf_GRU hs ?m'" using wf sh1 by (simp add: wf_GRU_def)
  from trainStepGRU_frozen [OF wf', of enc k k 0 rnd "rngPos fw1"] obtain fw2 r2
    where fw2: "gru_forward ?m' enc k (2 * k) 0 rnd (rngPos fw1) = Inr fw2"
      and r2: "trainStepGRU ?m' enc k k 0 0 rnd (rngPos fw1) = Inr (r2, rngPos fw2)"
      and u2: "updatedModel r2 = ?m'\<lparr>h := last (hiddenStates fw2)\<rparr>"
    unfolding e by blast
  from trainStepGRU_frozen [OF wf, of enc 0 "2 * k" 0 rnd pos] obtain fw3 r3
    where fw3: "gru_forward m enc 0 (2 * k) 0 rnd pos = Inr fw3"
      and r3: "trainStepGRU m enc 0 (2 * k) 0 0 rnd pos = Inr (r3, rngPos fw3)"
      and u3: "updatedModel r3 = m\<lparr>h := last (hiddenStates fw3)\<rparr>"
    unfolding e by blast
  have a1: "forEach ?body [0..k - 1] ?s0 = Inr fw1" using fw1 by (simp add: gru_forward_def)
  have a3: "forEach ?body [k..2 * k - 1] fw1 = Inr fw3"
    using fw3 a1 by (simp add: gru_forward_def window_split [OF k] forEach_append)
  have a2: "forEach ?body [k..2 * k - 1] ?s0' = Inr fw2"
    using fw2 by (simp add: gru_forward_def gru_forward_step_carried)
  have "\<exists>a b. forEach ?body [k..2 * k - 1] fw1 = Inr a \<and> forEach ?body [k..2 * k - 1] ?s0' = Inr b
          \<and> (shaped 1 hs (last (hiddenStates a)) \<and> last (hiddenStates b) = last (hiddenStates a))"
  proof (rule forEach_sim)
    show "shaped 1 hs (last (hiddenStates fw1)) \<and> last (hiddenStates ?s0') = last (hiddenStates fw1)"
      using sh1 by simp
  next
    fix i and s1 s2 :: "GRUCache ForwardState"
    assume "shaped 1 hs (last (hiddenStates s1)) \<and> last (hiddenStates s2) = last (hiddenStates s1)"
    then show "\<exists>a b. ?body i s1 = Inr a \<and> ?body i s2 = Inr b
        \<and> (shaped 1 hs (last (hiddenStates a)) \<and> last (hiddenStates b) = last (hiddenStates a))"
      by (intro gru_forward_step_sim [OF wf]) simp_all
  qed
  with a2 a3 have "last (hiddenStates fw2) = last (hiddenStates fw3)" by simp
  then have hh: "h (updatedModel r2) = h (updatedModel r3)" using u2 u3 by simp
  have r2': "trainStepGRU (updatedModel r1) enc k k 0 0 rnd (rngPos fw1) = Inr (r2, rngPos fw2)"
    using r2 u1 by simp
  from r1 r2' r3 hh show ?thesis by blast
qed

subsection \<open>LSTM\<close>

lemma trainStepLSTM_frozen:
  assumes wf: "wf_LSTM hs m"
  shows "\<exists>fw r. lstm_forward m enc step (min (step + k) (int (length enc) - 1)) dr rnd pos = Inr fw
           \<and> shaped 1 hs (last (hiddenStates fw)) \<and> shaped 1 hs (last (cellStates fw))
           \<and> trainStepLSTM m enc step k 0 dr rnd pos = Inr (r, rngPos fw)
           \<and> updatedModel r = m\<lparr>h := last (hiddenStates fw), c := last (cellStates fw)\<rparr>"
proof -
  let ?se = "min (step + k) (int (length enc) - 1)"
  from trainStepLSTM_ok [OF wf, of enc step k dr rnd pos 0] obtain fw g r
    where fw: "lstm_forward m enc step ?se dr rnd pos = Inr fw"
      and inv: "lstm_forward_inv hs (vocab m) enc [step..?se - 1] fw"
      and g: "lstm_grads_ok (length (vocab m)) hs g"
      and r: "trainStepLSTM m enc step k 0 dr rnd pos = Inr (r, rngPos fw)"
      and u: "updatedModel r = m
              \<lparr>Wf := fst (applyGrads (Wf m) (Uf m) (gWf g) (gUf g) (gbf g) (- 0)),
               Uf := snd (applyGrads (Wf m) (Uf m) (gWf g) (gUf g) (gbf g) (- 0)),
               Wi := fst (applyGrads (Wi m) (Ui m) (gWi g) (gUi g) (gbi g) (- 0)),
               Ui := snd (applyGrads (Wi m) (Ui m) (gWi g) (gUi g) (gbi g) (- 0)),
               Wo := fst (applyGrads (Wo m) (Uo m) (gWo g) (gUo g) (gbo g) (- 0)),
               Uo := snd (applyGrads (Wo m) (Uo m) (gWo g) (gUo g) (gbo g) (- 0)),
               Wc := fst (applyGrads (Wc m) (Uc m) (gWc g) (gUc g) (gbc g) (- 0)),
               Uc := snd (applyGrads (Wc m) (Uc m) (gWc g) (gUc g) (gbc g) (- 0)),
               Why := \<lparr>weights = applyUpdate (weights (Why m)) (gWhy g) (- 0),
                       biases = applyUpdate (biases (Why m)) (gby g) (- 0)\<rparr>,
               h := last (hiddenStates fw), c := last (cellStates fw)\<rparr>"
    by blast
  note l = lstm_forward_inv_last [OF inv]
  have "updatedModel r = m\<lparr>h := last (hiddenStates fw), c := last (cellStates fw)\<rparr>"
    using u wf g
    by (simp add: wf_LSTM_def wf_layer_def shaped_def lstm_grads_ok_def applyGrads_def
        layer_update_zero_rate layer_weights_update_zero_rate)
  with fw l(2) l(4) r show ?thesis by blast
qed

lemma lstm_forward_step_carried:
  "lstm_forward_step (m\<lparr>h := x, c := y\<rparr>) enc dr rnd = lstm_forward_step m enc dr rnd"
  by (intro ext) (simp add: lstm_forward_step_def)

lemma lstm_forward_step_sim:
  assumes wf: "wf_LSTM hs m" and dr: "\<not> 0 < dr"
    and R: "shaped 1 hs (last (hiddenStates s1)) \<and> shaped 1 hs (last (cellStates s1))
            \<and> last (hiddenStates s2) = last (hiddenStates s1)
            \<and> last (cellStates s2) = last (cellStates s1)"
  shows "\<exists>a b. lstm_forward_step m enc dr rnd t s1 = Inr a \<and> lstm_forward_step m enc dr rnd t s2 = Inr b
           \<and> (shaped 1 hs (last (hiddenStates a)) \<and> shaped 1 hs (last (cellStates a))
              \<and> last (hiddenStates b) = last (hiddenStates a)
              \<and> last (cellStates b) = last (cellStates a))"
  using wf dr R
  by (simp add: lstm_forward_step_def Let_def gatePre_ok dropout_def wf_LSTM_def wf_layer_def
      shaped_def)

lemma continuity_LSTM:
  assumes wf: "wf_LSTM hs m" and k: "0 \<le> k" and len: "2 * k + 1 \<le> int (length enc)"
  shows "\<exists>r1 p1 r2 p2 r3 p3.
           trainStepLSTM m enc 0 k 0 0 rnd pos = Inr (r1, p1)
           \<and> trainStepLSTM (updatedModel r1) enc k k 0 0 rnd p1 = Inr (r2, p2)
           \<and> trainStepLSTM m enc 0 (2 * k) 0 0 rnd pos = Inr (r3, p3)
           \<and> h (updatedModel r2) = h (updatedModel r3)
           \<and> c (updatedModel r2) = c (updatedModel r3)"
proof -
  note e = window_ends [OF k len]
  let ?body = "lstm_forward_step m enc 0 rnd"
  let ?s0 = "\<lparr>totalLoss = Some 0, predictions = [], cache = [], hiddenStates = [h m], rngPos = pos,
             cellStates = [c m]\<rparr>"
  from trainStepLSTM_frozen [OF wf, of enc 0 k 0 rnd pos] obtain fw1 r1
    where fw1: "lstm_forward m enc 0 k 0 rnd pos = Inr fw1"
      and sh1: "shaped 1 hs (last (hiddenStates fw1))" "shaped 1 hs (last (cellStates fw1))"
      and r1: "trainStepLSTM m enc 0 k 0 0 rnd pos = Inr (r1, rngPos fw1)"
      and u1: "updatedModel r1 = m\<lparr>h := last (hiddenStates fw1), c := last (cellStates fw1)\<rparr>"
    unfolding e by blast
  let ?m' = "m\<lparr>h := last (hiddenStates fw1), c := last (cellStates fw1)\<rparr>"
  let ?s0' = "\<lparr>totalLoss = Some 0, predictions = [], cache = [],
              hiddenStates = [last (hiddenStates fw1)], rngPos = rngPos fw1,
              cellStates = [last (cellStates fw1)]\<rparr>"
  have wf': "wf_LSTM hs ?m'" using wf sh1 by (simp add: wf_LSTM_def)
  from trainStepLSTM_frozen [OF wf', of enc k k 0 rnd "rngPos fw1"] obtain fw2 r2
    where fw2: "lstm_forward ?m' enc k (2 * k) 0 rnd (rngPos fw1) = Inr fw2"
      and r2: "trainStepLSTM ?m' enc k k 0 0 rnd (rngPos fw1) = Inr (r2, rngPos fw2)"
      and u2: "updatedModel r2 = ?m'\<lparr>h := last (hiddenStates fw2), c := last (cellStates fw2)\<rparr>"
    unfolding e by blast
  from trainStepLSTM_frozen [OF wf, of enc 0 "2 * k" 0 rnd pos] obtain fw3 r3
    where fw3: "lstm_forward m enc 0 (2 * k) 0 rnd pos = Inr fw3"
      and r3: "trainStepLSTM m enc 0 (2 * k) 0 0 rnd pos = Inr (r3, rngPos fw3)"
      and u3: "updatedModel r3 = m\<lparr>h := last (hiddenStates fw3), c := last (cellStates fw3)\<rparr>"
    unfolding e by blast
  have a1: "forEach ?body [0..k - 1] ?s0 = Inr fw1" using fw1 by (simp add: lstm_forward_def)
  have a3: "forEach ?body [k..2 * k - 1] fw1 = Inr fw3"
    using fw3 a1 by (simp add: lstm_forward_def window_split [OF k] forEach_append)
  have a2: "forEach ?body [k..2 * k - 1] ?s0' = Inr fw2"
    using fw2 by (simp add: lstm_forward_def lstm_forward_step_carried)
  have "\<exists>a b. forEach ?body [k..2 * k - 1] fw1 = Inr a \<and> forEach ?body [k..2 * k - 1] ?s0' = Inr b
          \<and> (shaped 1 hs (last (hiddenStates a)) \<and> shaped 1 hs (last (cellStates a))
             \<and> last (hiddenStates b) = last (hiddenStates a)
             \<and> last (cellStates b) = last (cellStates a))"
  proof (rule forEach_sim)
    show "shaped 1 hs (last (hiddenStates fw1)) \<and> shaped 1 hs (last (cellStates fw1))
          \<and> last (hiddenStates ?s0') = last (hiddenStates fw1)
          \<and> last (cellStates ?s0') = last (cellStates fw1)"
      using sh1 by simp
  next
    fix i and s1 s2 :: LSTMForwardState
    assume "shaped 1 hs (last (hiddenStates s1)) \<and> shaped 1 hs (last (cellStates s1))
            \<and> last (hiddenStates s2) = last (hiddenStates s1)
            \<and> last (cellStates s2) = last (cellStates s1)"
    then show "\<exists>a b. ?body i s1 = Inr a \<and> ?body i s2 = Inr b
        \<and> (shaped 1 hs (last (hiddenStates a)) \<and> shaped 1 hs (last (cellStates a))
           \<and> last (hiddenStates b) = last (hiddenStates a)
           \<and> last (cellStates b) = last (cellStates a))"
      by (intro lstm_forward_step_sim [OF wf]) simp_all
  qed
  with a2 a3 have "last (hiddenStates fw2) = last (hiddenStates fw3)"
    and "last (cellStates fw2) = last (cellStates fw3)" by simp_all
  then have hh: "h (updatedModel r2) = h (updatedModel r3)" "c (updatedModel r2) = c (updatedModel r3)"
    using u2 u3 by simp_all
  have r2': "trainStepLSTM (updatedModel r1) enc k k 0 0 rnd (rngPos fw1) = Inr (r2, rngPos fw2)"
    using r2 u1 by simp
  from r1 r2' r3 hh show ?thesis by blast
qed

text \<open>
  C4.  With learning rate 0 and dropout rate 0, on a corpus of at least \<open>2k + 1\<close> tokens
  (\<open>k \<ge> 0\<close>), and on well-formed models: the three calls return, and the step with window
  \<open>k\<close> at cursor 0 followed by the step with window \<open>k\<close> at cursor \<open>k\<close> on the returned model
  leaves the recurrent state (\<open>h\<close>, and \<open>c\<close> for the LSTM) that the single step with window
  \<open>2k\<close> at cursor 0 on the original model leaves.
\<close>

theorem recurrent_state_continuity:
  assumes "wf_RNN hs2 m2" and "wf_GRU hs3 m3" and "wf_LSTM hs4 m4"
    and "0 \<le> k" and "2 * k + 1 \<le> int (length enc)"
  shows "(\<exists>r1 p1 r2 p2 r3 p3.
            trainStepRNN m2 enc 0 k 0 0 rnd pos = Inr (r1, p1)
            \<and> trainStepRNN (updatedModel r1) enc k k 0 0 rnd p1 = Inr (r2, p2)
            \<and> trainStepRNN m2 enc 0 (2 * k) 0 0 rnd pos = Inr (r3, p3)
            \<and> h (updatedModel r2) = h (updatedModel r3))
       \<and> (\<exists>r1 p1 r2 p2 r3 p3.
            trainStepGRU m3 enc 0 k 0 0 rnd pos = Inr (r1, p1)
            \<and> trainStepGRU (updatedModel r1) enc k k 0 0 rnd p1 = Inr (r2, p2)
            \<and> trainStepGRU m3 enc 0 (2 * k) 0 0 rnd pos = Inr (r3, p3)
            \<and> h (updatedModel r2) = h (updatedModel r3))
       \<and> (\<exists>r1 p1 r2 p2 r3 p3.
            trainStepLSTM m4 enc 0 k 0 0 rnd pos = Inr (r1, p1)
            \<and> trainStepLSTM (updatedModel r1) enc k k 0 0 rnd p1 = Inr (r2, p2)
            \<and> trainStepLSTM m4 enc 0 (2 * k) 0 0 rnd pos = Inr (r3, p3)
            \<and> h (updatedModel r2) = h (updatedModel r3)
            \<and> c (updatedModel r2) = c (updatedModel r3))"
  using assms by (intro conjI continuity_RNN continuity_GRU continuity_LSTM)

theorem recurrent_state_continuity_witness:
  "(\<exists>r1 p1 r2 p2 r3 p3.
      trainStepRNN (fst (initializeRNNModel [''a'', ''b'', ''c''] 4 (\<lambda>n. 3 / 4) 0))
        [0, 1, 2, 0, 1, 2, 0] 0 3 0 0 (\<lambda>n. 0) 0 = Inr (r1, p1)
      \<and> trainStepRNN (updatedModel r1) [0, 1, 2, 0, 1, 2, 0] 3 3 0 0 (\<lambda>n. 0) p1 = Inr (r2, p2)
      \<and> trainStepRNN (fst (initializeRNNModel [''a'', ''b'', ''c''] 4 (\<lambda>n. 3 / 4) 0))
          [0, 1, 2, 0, 1, 2, 0] 0 (2 * 3) 0 0 (\<lambda>n. 0) 0 = Inr (r3, p3)
      \<and> h (updatedModel r2) = h (updatedModel r3))
   \<and> (\<exists>r1 p1 r2 p2 r3 p3.
      trainStepGRU (fst (initializeGRUModel [''a'', ''b'', ''c''] 4 (\<lambda>n. 3 / 4) 0))
        [0, 1, 2, 0, 1, 2, 0] 0 3 0 0 (\<lambda>n. 0) 0 = Inr (r1, p1)
      \<and> trainStepGRU (updatedModel r1) [0, 1, 2, 0, 1, 2, 0] 3 3 0 0 (\<lambda>n. 0) p1 = Inr (r2, p2)
      \<and> trainStepGRU (fst (initializeGRUModel [''a'', ''b'', ''c''] 4 (\<lambda>n. 3 / 4) 0))
          [0, 1, 2, 0, 1, 2, 0] 0 (2 * 3) 0 0 (\<lambda>n. 0) 0 = Inr (r3, p3)
      \<and> h (updatedModel r2) = h (updatedModel r3))
   \<and> (\<exists>r1 p1 r2 p2 r3 p3.
      trainStepLSTM (fst (initializeLSTMModel [''a'', ''b'', ''c''] 4 (\<lambda>n. 3 / 4) 0))
        [0, 1, 2, 0, 1, 2, 0] 0 3 0 0 (\<lambda>n. 0) 0 = Inr (r1, p1)
      \<and> trainStepLSTM (updatedModel r1) [0, 1, 2, 0, 1, 2, 0] 3 3 0 0 (\<lambda>n. 0) p1 = Inr (r2, p2)
      \<and> trainStepLSTM (fst (initializeLSTMModel [''a'', ''b'', ''c''] 4 (\<lambda>n. 3 / 4) 0))
          [0, 1, 2, 0, 1, 2, 0] 0 (2 * 3) 0 0 (\<lambda>n. 0) 0 = Inr (r3, p3)
      \<and> h (updatedModel r2) = h (updatedModel r3)
      \<and> c (updatedModel r2) = c (updatedModel r3))"
  by (rule recurrent_state_continuity
      [OF initializeRNNModel_wf initializeGRUModel_wf initializeLSTMModel_wf])
    simp_all

section \<open>The FFNN weight update\<close>

lemma steepFFNN_wf: "wf_FFNN 1 steepFFNN"
  by (simp add: steepFFNN_def wf_FFNN_def wf_layer_def shaped_def wf_matrix_def)

lemma steep_forward:
  "ffnn_forward steepFFNN \<lparr>rows = 1, cols = 2, data = [[1, 0]]\<rparr>
     = Inr (\<lparr>rows = 1, cols = 1, data = [[0]]\<rparr>, \<lparr>rows = 1, cols = 2, data = [[0, 0]]\<rparr>,
            \<lparr>rows = 1, cols = 2, data = [[1 / 2, 1 / 2]]\<rparr>)"
  by (simp add: ffnn_forward_def steepFFNN_def dot_def dot_loops_def add_def map_matrix_def
      tabulate_def entry_def softmax_def softmax_exps_def softmax_sumExps_def Let_def upt_rec)

lemma steep_backward:
  "ffnn_backward steepFFNN \<lparr>rows = 1, cols = 2, data = [[1, 0]]\<rparr> \<lparr>rows = 1, cols = 1, data = [[0]]\<rparr>
       \<lparr>rows = 1, cols = 2, data = [[1 / 2, 1 / 2]]\<rparr> (Some 0)
     = Inr (\<lparr>rows = 2, cols = 1, data = [[6], [0]]\<rparr>, \<lparr>rows = 1, cols = 1, data = [[6]]\<rparr>,
            \<lparr>rows = 1, cols = 2, data = [[0, 0]]\<rparr>, \<lparr>rows = 1, cols = 2, data = [[- (1 / 2), 1 / 2]]\<rparr>)"
  by (simp add: ffnn_backward_def steepFFNN_def dot_def dot_loops_def multiply_def multiply_loops_def
      transpose_def map_matrix_def tabulate_def entry_def updateRow0_def updateAt_def dtanh_def
      Let_def upt_rec)

lemma steep_gradients:
  assumes "t = 0 \<or> t = 1"
  shows "ffnn_example_gradients steepFFNN [0, 0, 0] t
     = Inr (\<lparr>rows = 2, cols = 1, data = [[6], [0]]\<rparr>, \<lparr>rows = 1, cols = 1, data = [[6]]\<rparr>,
            \<lparr>rows = 1, cols = 2, data = [[0, 0]]\<rparr>, \<lparr>rows = 1, cols = 2, data = [[- (1 / 2), 1 / 2]]\<rparr>)"
proof -
  have x: "oneHot (length (vocab steepFFNN)) (nth_opt [0, 0, 0] (Some t))
           = \<lparr>rows = 1, cols = 2, data = [[1, 0]]\<rparr>"
    using assms
    by (auto simp: oneHot_def nth_opt_def updateRow0_def updateAt_def createMatrix_def steepFFNN_def)
  have y: "nth_opt [0, 0, 0 :: int] (Some (t + 1)) = Some 0"
    using assms by (auto simp: nth_opt_def)
  show ?thesis
    by (simp only: ffnn_example_gradients_def Let_def x y steep_forward andThen_Inr prod.case
        steep_backward)
qed

text \<open>
  What the update does on a nonempty window of a well-formed model: every accumulated
  gradient is the elementwise sum of the per-example gradients, and every parameter
  becomes the old one plus the clipped accumulated gradient times \<open>-learningRate / n\<close>.
\<close>

lemma trainStepFFNN_update:
  assumes wf: "wf_FFNN hs m" and n: "n = min (step + bs) (int (length enc) - 1) - step"
    and nz: "n \<noteq> 0"
  shows "\<exists>gs r. trainStepFFNN m enc step bs lr = Inr r
       \<and> map (ffnn_example_gradients m enc) [step..step + n - 1] = map Inr gs
       \<and> length gs = length [step..step + n - 1]
       \<and> gradients r =
           Some (\<lparr>weights = gradSum (length (vocab m)) hs (map (\<lambda>(a, b, d, e). a) gs),
                  biases = gradSum 1 hs (map (\<lambda>(a, b, d, e). b) gs)\<rparr>,
                 \<lparr>weights = gradSum hs (length (vocab m)) (map (\<lambda>(a, b, d, e). d) gs),
                  biases = gradSum 1 (length (vocab m)) (map (\<lambda>(a, b, d, e). e) gs)\<rparr>)
       \<and> weights (hiddenLayer (updatedModel r))
           = applyUpdate (weights (hiddenLayer m))
               (gradSum (length (vocab m)) hs (map (\<lambda>(a, b, d, e). a) gs)) (- lr / real_of_int n)
       \<and> biases (hiddenLayer (updatedModel r))
           = applyUpdate (biases (hiddenLayer m))
               (gradSum 1 hs (map (\<lambda>(a, b, d, e). b) gs)) (- lr / real_of_int n)
       \<and> weights (outputLayer (updatedModel r))
           = applyUpdate (weights (outputLayer m))
               (gradSum hs (length (vocab m)) (map (\<lambda>(a, b, d, e). d) gs)) (- lr / real_of_int n)
       \<and> biases (outputLayer (updatedModel r))
           = applyUpdate (biases (outputLayer m))
               (gradSum 1 (length (vocab m)) (map (\<lambda>(a, b, d, e). e) gs)) (- lr / real_of_int n)"
proof -
  let ?be = "min (step + bs) (int (length enc) - 1)"
  let ?s0 = "\<lparr>totalLoss = Some 0, predictions = [],
              hiddenGrad = \<lparr>weights = createMatrix (length (vocab m)) hs 0,
                             biases = createMatrix 1 hs 0\<rparr>,
              outputGrad = \<lparr>weights = createMatrix hs (length (vocab m)) 0,
                             biases = createMatrix 1 (length (vocab m)) 0\<rparr>,
              lastResultForVis = None\<rparr>"
  have w: "?be - 1 = step + n - 1" using n by simp
  have hs: "cols (weights (hiddenLayer m)) = hs"
    using wf by (simp add: wf_FFNN_def wf_layer_def shaped_def)
  have inv0: "ffnn_batch_inv m hs enc [] [] ?s0"
    by (simp add: ffnn_batch_inv_def gradSum_Nil)
  from ffnn_loop_ok [OF wf inv0, of ?be "[step..?be - 1]"] obtain st gs
    where l: "forEach (ffnn_example m enc ?be) [step..?be - 1] ?s0 = Inr st"
      and inv: "ffnn_batch_inv m hs enc gs [step..?be - 1] st"
      and len: "length gs = length [step..?be - 1]" by auto
  have hg: "hiddenGrad st = \<lparr>weights = weights (hiddenGrad st), biases = biases (hiddenGrad st)\<rparr>"
    and og: "outputGrad st = \<lparr>weights = weights (outputGrad st), biases = biases (outputGrad st)\<rparr>"
    by simp_all
  have nz': "?be - step \<noteq> 0" using n nz by simp
  show ?thesis
    by (rule exI [of _ gs])
      (use l inv len hs nz' hg og in
        \<open>simp add: trainStepFFNN_def Let_def ffnn_batch_inv_def n del: upto.simps\<close>)
qed

lemma applyUpdate_gradSum:
  assumes "shaped nr nc p"
  shows "applyUpdate p (gradSum nr nc (map f gs)) lr
     = tabulate nr nc
         (\<lambda>i j. entry p i j + max (- 5) (min 5 (sum_list (map (\<lambda>g. entry (f g) i j) gs))) * lr)"
proof -
  have r: "rows p = nr" "cols p = nc" using assms by (simp_all add: shaped_def)
  have "applyUpdate p (gradSum nr nc (map f gs)) lr
      = tabulate nr nc (\<lambda>i j. entry p i j + max (- 5) (min 5 (entry (gradSum nr nc (map f gs)) i j)) * lr)"
    using applyUpdate_tabulate [of p "gradSum nr nc (map f gs)" lr] r by simp
  also have "\<dots> = tabulate nr nc
         (\<lambda>i j. entry p i j + max (- 5) (min 5 (sum_list (map (\<lambda>g. entry (f g) i j) gs))) * lr)"
    by (rule tabulate_cong) (simp add: gradSum_def comp_def)
  finally show ?thesis .
qed

text \<open>
  C3, as the code has it.  On a nonempty window of \<open>n\<close> pairs of a well-formed model the
  step returns; the per-example gradients \<open>gs\<close> of the window positions are all computed;
  and every entry of every parameter becomes the old entry plus the accumulated gradient
  (the sum of the per-example gradients), clipped to [-5, 5], times \<open>-learningRate / n\<close>:
  the sum is clipped first and the clipped value is divided by \<open>n\<close>.
\<close>

theorem ffnn_update_clips_sum_then_averages:
  assumes wf: "wf_FFNN hs m" and n: "n = min (step + bs) (int (length enc) - 1) - step"
    and pos: "0 < n"
  shows "\<exists>gs r. trainStepFFNN m enc step bs lr = Inr r
       \<and> map (ffnn_example_gradients m enc) [step..step + n - 1] = map Inr gs
       \<and> int (length gs) = n
       \<and> weights (hiddenLayer (updatedModel r))
           = tabulate (length (vocab m)) hs
               (\<lambda>i j. entry (weights (hiddenLayer m)) i j
                  + max (- 5) (min 5 (sum_list (map (\<lambda>g. entry (fst g) i j) gs)))
                    * (- lr / real_of_int n))
       \<and> biases (hiddenLayer (updatedModel r))
           = tabulate 1 hs
               (\<lambda>i j. entry (biases (hiddenLayer m)) i j
                  + max (- 5) (min 5 (sum_list (map (\<lambda>g. entry (fst (snd g)) i j) gs)))
                    * (- lr / real_of_int n))
       \<and> weights (outputLayer (updatedModel r))
           = tabulate hs (length (vocab m))
               (\<lambda>i j. entry (weights (outputLayer m)) i j
                  + max (- 5) (min 5 (sum_list (map (\<lambda>g. entry (fst (snd (snd g))) i j) gs)))
                    * (- lr / real_of_int n))
       \<and> biases (outputLayer (updatedModel r))
           = tabulate 1 (length (vocab m))
               (\<lambda>i j. entry (biases (outputLayer m)) i j
                  + max (- 5) (min 5 (sum_list (map (\<lambda>g. entry (snd (snd (snd g))) i j) gs)))
                    * (- lr / real_of_int n))"
proof -
  have nz: "n \<noteq> 0" using pos by simp
  have f: "(\<lambda>(a, b, d, e). a) = (fst :: Matrix \<times> Matrix \<times> Matrix \<times> Matrix \<Rightarrow> Matrix)"
    "(\<lambda>(a, b, d, e). b) = (\<lambda>g :: Matrix \<times> Matrix \<times> Matrix \<times> Matrix. fst (snd g))"
    "(\<lambda>(a, b, d, e). d) = (\<lambda>g :: Matrix \<times> Matrix \<times> Matrix \<times> Matrix. fst (snd (snd g)))"
    "(\<lambda>(a, b, d, e). e) = (\<lambda>g :: Matrix \<times> Matrix \<times> Matrix \<times> Matrix. snd (snd (snd g)))"
    by (simp_all add: fun_eq_iff)
  have sh: "shaped (length (vocab m)) hs (weights (hiddenLayer m))"
    "shaped 1 hs (biases (hiddenLayer m))"
    "shaped hs (length (vocab m)) (weights (outputLayer m))"
    "shaped 1 (length (vocab m)) (biases (outputLayer m))"
    using wf by (simp_all add: wf_FFNN_def wf_layer_def)
  from trainStepFFNN_update [OF wf n nz, of lr] obtain gs r
    where r: "trainStepFFNN m enc step bs lr = Inr r"
      and gs: "map (ffnn_example_gradients m enc) [step..step + n - 1] = map Inr gs"
      and len: "length gs = length [step..step + n - 1]"
      and u: "weights (hiddenLayer (updatedModel r))
           = applyUpdate (weights (hiddenLayer m))
               (gradSum (length (vocab m)) hs (map (\<lambda>(a, b, d, e). a) gs)) (- lr / real_of_int n)"
        "biases (hiddenLayer (updatedModel r))
           = applyUpdate (biases (hiddenLayer m))
               (gradSum 1 hs (map (\<lambda>(a, b, d, e). b) gs)) (- lr / real_of_int n)"
        "weights (outputLayer (updatedModel r))
           = applyUpdate (weights (outputLayer m))
               (gradSum hs (length (vocab m)) (map (\<lambda>(a, b, d, e). d) gs)) (- lr / real_of_int n)"
        "biases (outputLayer (updatedModel r))
           = applyUpdate (biases (outputLayer m))
               (gradSum 1 (length (vocab m)) (map (\<lambda>(a, b, d, e). e) gs)) (- lr / real_of_int n)"
    by blast
  have len': "int (length gs) = n" using len pos by simp
  note u' = u [unfolded f applyUpdate_gradSum [OF sh(1)] applyUpdate_gradSum [OF sh(2)]
      applyUpdate_gradSum [OF sh(3)] applyUpdate_gradSum [OF sh(4)]]
  from r gs len' u' show ?thesis by (intro exI conjI)
qed

theorem ffnn_update_clips_sum_then_averages_witness:
  "\<exists>gs r. trainStepFFNN steepFFNN [0, 0, 0] 0 2 1 = Inr r
     \<and> map (ffnn_example_gradients steepFFNN [0, 0, 0]) [0..0 + 2 - 1] = map Inr gs
     \<and> int (length gs) = 2
     \<and> biases (hiddenLayer (updatedModel r))
         = tabulate 1 1
             (\<lambda>i j. entry (biases (hiddenLayer steepFFNN)) i j
                + max (- 5) (min 5 (sum_list (map (\<lambda>g. entry (fst (snd g)) i j) gs)))
                  * (- 1 / real_of_int 2))"
proof -
  have n: "(2::int) = min (0 + 2) (int (length [0, 0, 0 :: int]) - 1) - 0" by simp
  have p: "(0::int) < 2" by simp
  from ffnn_update_clips_sum_then_averages [OF steepFFNN_wf n p, of 1]
  show ?thesis by (elim exE conjE) (intro exI conjI; assumption)
qed

text \<open>
  The claim divides the accumulated gradient by \<open>n\<close> before clipping.  On \<open>steepFFNN\<close>, the
  corpus a a a, a window of 2 at cursor 0 and learning rate 1, the accumulated hidden bias
  gradient is 12: the code moves the bias from 0 to \<open>-5/2\<close> (the clipped sum 5, divided
  by 2), where the claim's formula gives \<open>0 - 1 * clip (12 / 2) = -5\<close>.
\<close>

theorem ffnn_update_counterexample:
  "(case trainStepFFNN steepFFNN [0, 0, 0] 0 2 1 of
      Inl err \<Rightarrow> False
    | Inr r \<Rightarrow>
        map_option (\<lambda>g. entry (biases (fst g)) 0 0) (gradients r) = Some 12
        \<and> entry (biases (hiddenLayer (updatedModel r))) 0 0 = - (5 / 2)
        \<and> entry (biases (hiddenLayer (updatedModel r))) 0 0
            \<noteq> entry (biases (hiddenLayer steepFFNN)) 0 0 - 1 * max (- 5) (min 5 (12 / 2)))"
proof -
  let ?G = "(\<lparr>rows = 2, cols = 1, data = [[6], [0]]\<rparr>, \<lparr>rows = 1, cols = 1, data = [[6]]\<rparr>,
            \<lparr>rows = 1, cols = 2, data = [[0, 0]]\<rparr>, \<lparr>rows = 1, cols = 2, data = [[- (1 / 2), 1 / 2]]\<rparr>)"
  have n: "(2::int) = min (0 + 2) (int (length [0, 0, 0 :: int]) - 1) - 0" by simp
  have nz: "(2::int) \<noteq> 0" by simp
  have w: "[0..0 + 2 - 1 :: int] = [0, 1]" by (simp add: upto.simps)
  from trainStepFFNN_update [OF steepFFNN_wf n nz, of 1] obtain gs r
    where r: "trainStepFFNN steepFFNN [0, 0, 0] 0 2 1 = Inr r"
      and gs: "map (ffnn_example_gradients steepFFNN [0, 0, 0]) [0..0 + 2 - 1] = map Inr gs"
      and gr: "gradients r =
           Some (\<lparr>weights = gradSum (length (vocab steepFFNN)) 1 (map (\<lambda>(a, b, d, e). a) gs),
                  biases = gradSum 1 1 (map (\<lambda>(a, b, d, e). b) gs)\<rparr>,
                 \<lparr>weights = gradSum 1 (length (vocab steepFFNN)) (map (\<lambda>(a, b, d, e). d) gs),
                  biases = gradSum 1 (length (vocab steepFFNN)) (map (\<lambda>(a, b, d, e). e) gs)\<rparr>)"
      and u: "biases (hiddenLayer (updatedModel r))
           = applyUpdate (biases (hiddenLayer steepFFNN))
               (gradSum 1 1 (map (\<lambda>(a, b, d, e). b) gs)) (- 1 / real_of_int 2)"
    by blast
  have g0: "ffnn_example_gradients steepFFNN [0, 0, 0] 0 = Inr ?G"
    by (rule steep_gradients) simp
  have g1: "ffnn_example_gradients steepFFNN [0, 0, 0] 1 = Inr ?G"
    by (rule steep_gradients) simp
  have "[Inr ?G, Inr ?G] = map (Inr :: _ \<Rightarrow> error + _) gs"
    using gs unfolding w list.map g0 g1 .
  then have "map (Inr :: _ \<Rightarrow> error + _) gs = [Inr ?G, Inr ?G]"
    by (rule sym)
  then have g2: "gs = [?G, ?G]" by (auto simp: map_eq_Cons_conv)
  have acc: "entry (gradSum 1 1 (map (\<lambda>(a, b, d, e). b) gs)) 0 0 = 12"
    by (simp add: g2 gradSum_def tabulate_entry) (simp add: entry_def)
  have old: "entry (biases (hiddenLayer steepFFNN)) 0 0 = 0"
    by (simp add: steepFFNN_def entry_def)
  have sh: "rows (biases (hiddenLayer steepFFNN)) = 1" "cols (biases (hiddenLayer steepFFNN)) = 1"
    by (simp_all add: steepFFNN_def)
  have "entry (biases (hiddenLayer (updatedModel r))) 0 0
      = entry (biases (hiddenLayer steepFFNN)) 0 0
        + max (- 5) (min 5 (entry (gradSum 1 1 (map (\<lambda>(a, b, d, e). b) gs)) 0 0)) * (- 1 / real_of_int 2)"
    unfolding u by (rule applyUpdate_entry) (simp_all add: sh)
  with acc have new: "entry (biases (hiddenLayer (updatedModel r))) 0 0 = - (5 / 2)"
    by (simp add: old)
  show ?thesis
    using acc new old by (simp add: r gr)
qed

section \<open>Generators on a token whose read is undefined\<close>

lemma readProperty_Undefined_iff:
  "readProperty t2i key = Undefined \<longleftrightarrow> t2i key = None \<and> key \<notin> set objectPrototypeKeys"
  by (simp add: readProperty_def split: option.splits)

lemma generateFFNN_loop_unknown:
  "readProperty (tokenToIndex m) (jsString (lastChar cur)) = Undefined \<Longrightarrow>
   generateFFNN_loop m temperature rnd ts (res, cur, pos) = Inr (res, pos)"
  by (cases ts) simp_all

lemma generateRNN_loop_unknown:
  "readProperty (tokenToIndex m) (jsString tok) = Undefined \<Longrightarrow>
   generateRNN_loop m temperature rnd ts (x, res, tok, pos) = Inr (res, pos)"
  by (cases ts) simp_all

lemma generateGRU_loop_unknown:
  "readProperty (tokenToIndex m) (jsString tok) = Undefined \<Longrightarrow>
   generateGRU_loop m temperature rnd ts (x, res, tok, pos) = Inr (res, pos)"
  by (cases ts) simp_all

lemma generateLSTM_loop_unknown:
  "readProperty (tokenToIndex m) (jsString tok) = Undefined \<Longrightarrow>
   generateLSTM_loop m temperature rnd ts (x, y, res, tok, pos) = Inr (res, pos)"
  by (cases ts) simp_all

lemma indexTokens_abc:
  "indexTokens [''a'', ''b'', ''c''] = [''a'' \<mapsto> 0, ''b'' \<mapsto> 1, ''c'' \<mapsto> 2]"
  by (simp add: indexTokens_def upt_rec)

lemma tokenToIndex_init [simp]:
  "tokenToIndex (fst (initializeFFNNModel v hs rnd pos)) = indexTokens v"
  "tokenToIndex (fst (initializeRNNModel v hs rnd pos)) = indexTokens v"
  "tokenToIndex (fst (initializeGRUModel v hs rnd pos)) = indexTokens v"
  "tokenToIndex (fst (initializeLSTMModel v hs rnd pos)) = indexTokens v"
  by (simp_all add: initializeFFNNModel_def initializeRNNModel_def initializeGRUModel_def
      initializeLSTMModel_def Let_def)

text \<open>
  C9, as the code has it.  The three recurrent generators read the seed token from
  \<open>tokenToIndex\<close>, the FFNN generator the last character of the seed (the key \<open>undefined\<close>
  when the seed is empty).  When that read is \<open>undefined\<close>, that is, the key is no property
  of the map and no name that \<open>Object.prototype\<close> defines, the generator returns without an
  error, draws no random number (so it samples nothing), and the string it returns is the
  seed itself: the seed followed by the empty generated text.
\<close>

theorem generator_unknown_seed_returns_seed:
  assumes "readProperty (tokenToIndex m1) (jsString (lastChar seed1)) = Undefined"
    and "readProperty (tokenToIndex m2) seed = Undefined"
    and "readProperty (tokenToIndex m3) seed = Undefined"
    and "readProperty (tokenToIndex m4) seed = Undefined"
  shows "generateFFNN m1 seed1 len temperature rnd pos = Inr (seed1, pos)
       \<and> generateRNN m2 seed len temperature rnd pos = Inr (seed, pos)
       \<and> generateGRU m3 seed len temperature rnd pos = Inr (seed, pos)
       \<and> generateLSTM m4 seed len temperature rnd pos = Inr (seed, pos)"
  using assms
  by (simp add: generateFFNN_def generateRNN_def generateGRU_def generateLSTM_def
      generateFFNN_loop_unknown generateRNN_loop_unknown generateGRU_loop_unknown
      generateLSTM_loop_unknown jsString_def)

theorem generator_unknown_seed_returns_seed_witness:
  "generateFFNN (fst (initializeFFNNModel [''a'', ''b'', ''c''] 4 (\<lambda>n. 1 / 2) 0)) ''x'' 5 1 (\<lambda>n. 0) 0
     = Inr (''x'', 0)
   \<and> generateRNN (fst (initializeRNNModel [''a'', ''b'', ''c''] 4 (\<lambda>n. 1 / 2) 0)) ''x'' 5 1 (\<lambda>n. 0) 0
     = Inr (''x'', 0)
   \<and> generateGRU (fst (initializeGRUModel [''a'', ''b'', ''c''] 4 (\<lambda>n. 1 / 2) 0)) ''x'' 5 1 (\<lambda>n. 0) 0
     = Inr (''x'', 0)
   \<and> generateLSTM (fst (initializeLSTMModel [''a'', ''b'', ''c''] 4 (\<lambda>n. 1 / 2) 0)) ''x'' 5 1 (\<lambda>n. 0) 0
     = Inr (''x'', 0)"
  by (rule generator_unknown_seed_returns_seed)
    (simp_all add: indexTokens_abc lastChar_def jsString_def readProperty_def objectPrototypeKeys_def)

lemma zeroRNN:
  "fst (initializeRNNModel [''a'', ''b''] 1 (\<lambda>n. 1 / 2) 0)
     = \<lparr>vocab = [''a'', ''b''], tokenToIndex = [''a'' \<mapsto> 0, ''b'' \<mapsto> 1],
        Why = \<lparr>weights = \<lparr>rows = 1, cols = 2, data = [[0, 0]]\<rparr>,
               biases = \<lparr>rows = 1, cols = 2, data = [[0, 0]]\<rparr>\<rparr>,
        h = \<lparr>rows = 1, cols = 1, data = [[0]]\<rparr>,
        Wxh = \<lparr>weights = \<lparr>rows = 2, cols = 1, data = [[0], [0]]\<rparr>,
               biases = \<lparr>rows = 1, cols = 1, data = [[0]]\<rparr>\<rparr>,
        Whh = \<lparr>weights = \<lparr>rows = 1, cols = 1, data = [[0]]\<rparr>,
               biases = \<lparr>rows = 1, cols = 1, data = [[0]]\<rparr>\<rparr>\<rparr>"
  by (simp add: initializeRNNModel_def createLayer_def createMatrixRandom_def createMatrix_def
      tabulate_def indexTokens_def Let_def upt_rec)

lemma sample_even:
  "sampleNext [''a'', ''b''] [''a'' \<mapsto> 0, ''b'' \<mapsto> 1] \<lparr>rows = Suc 0, cols = 2, data = [[0, 0]]\<rparr> 1 0 0
     = Some ''a''"
  by (simp add: sampleNext_def map_matrix_def tabulate_def entry_def softmax_def softmax_exps_def
      softmax_sumExps_def row0_def suppressSpace_def readProperty_def objectPrototypeKeys_def
      sampleIndex_def nth_opt_def MIN_WORD_LENGTH_def Let_def upt_rec)

lemma zeroRNN_constructor:
  "generateRNN (fst (initializeRNNModel [''a'', ''b''] 1 (\<lambda>n. 1 / 2) 0)) ''constructor'' 1 1 (\<lambda>n. 0) 0
     = Inr (''constructora'', 1)"
  unfolding zeroRNN
  by (simp add: generateRNN_def upto.simps jsString_def readProperty_def objectPrototypeKeys_def
      arrayIndex_def oneHot_def updateRow0_def updateAt_def createMatrix_def gatePre_def
      dot_def dot_loops_def add_def map_matrix_def tabulate_def entry_def sample_even upt_rec)

lemma steepFFNN_xa:
  "generateFFNN steepFFNN ''xa'' 1 1 (\<lambda>n. 0) 0 = Inr (''xaa'', 1)"
proof -
  have t: "tokenToIndex steepFFNN = [''a'' \<mapsto> 0, ''b'' \<mapsto> 1]" "vocab steepFFNN = [''a'', ''b'']"
    by (simp_all add: steepFFNN_def)
  have x: "oneHot 2 (Some 0) = \<lparr>rows = 1, cols = 2, data = [[1, 0]]\<rparr>"
    by (simp add: oneHot_def updateRow0_def updateAt_def createMatrix_def eval_nat_numeral)
  have l: "length (vocab steepFFNN) = 2" by (simp add: t)
  have fw: "ffnn_forward steepFFNN (oneHot (length (vocab steepFFNN)) (arrayIndex (Index 0)))
      = Inr (\<lparr>rows = 1, cols = 1, data = [[0]]\<rparr>, \<lparr>rows = 1, cols = 2, data = [[0, 0]]\<rparr>,
             \<lparr>rows = 1, cols = 2, data = [[1 / 2, 1 / 2]]\<rparr>)"
    unfolding l arrayIndex_def PropertyValue.case x by (rule steep_forward)
  have r: "readProperty (tokenToIndex steepFFNN) (jsString (lastChar ''xa'')) = Index 0"
    by (simp add: readProperty_def t jsString_def lastChar_def)
  show ?thesis
    by (simp add: generateFFNN_def upto.simps r fw) (simp add: t sample_even jsString_def)
qed

text \<open>
  The claim says the returned string is empty, and takes the absence of the seed from the map
  as its condition for all four generators.  For the seed \<open>x\<close>, which is not a token of the
  vocabulary a, b, c, the RNN generator returns \<open>x\<close>.  The seed \<open>xa\<close> is no token of
  \<open>steepFFNN\<close>, but the FFNN generator reads its last character, runs the forward step,
  draws, and returns \<open>xaa\<close>.  The seed \<open>constructor\<close> is no token of the initial RNN model
  on a, b, but the read finds the inherited function: the generator runs the forward step
  on the zero vector, draws, and returns \<open>constructora\<close>.
\<close>

theorem generator_unknown_seed_counterexample:
  "tokenToIndex (fst (initializeRNNModel [''a'', ''b'', ''c''] 4 (\<lambda>n. 1 / 2) 0)) ''x'' = None
   \<and> generateRNN (fst (initializeRNNModel [''a'', ''b'', ''c''] 4 (\<lambda>n. 1 / 2) 0)) ''x'' 5 1 (\<lambda>n. 0) 0
       = Inr (''x'', 0)
   \<and> ''x'' \<noteq> ''''
   \<and> tokenToIndex steepFFNN ''xa'' = None
   \<and> generateFFNN steepFFNN ''xa'' 1 1 (\<lambda>n. 0) 0 = Inr (''xaa'', 1)
   \<and> tokenToIndex (fst (initializeRNNModel [''a'', ''b''] 1 (\<lambda>n. 1 / 2) 0)) ''constructor'' = None
   \<and> generateRNN (fst (initializeRNNModel [''a'', ''b''] 1 (\<lambda>n. 1 / 2) 0)) ''constructor'' 1 1 (\<lambda>n. 0) 0
       = Inr (''constructora'', 1)"
proof -
  have u: "readProperty (indexTokens [''a'', ''b'', ''c'']) ''x'' = Undefined"
    by (simp add: readProperty_def indexTokens_abc objectPrototypeKeys_def)
  have f1: "tokenToIndex (fst (initializeRNNModel [''a'', ''b'', ''c''] 4 (\<lambda>n. 1 / 2) 0)) ''x'' = None"
    by (simp add: indexTokens_abc)
  have f2: "generateRNN (fst (initializeRNNModel [''a'', ''b'', ''c''] 4 (\<lambda>n. 1 / 2) 0)) ''x'' 5 1 (\<lambda>n. 0) 0
       = Inr (''x'', 0)"
    using u by (simp add: generateRNN_def generateRNN_loop_unknown jsString_def)
  have f3: "''x'' \<noteq> []" by simp
  have f4: "tokenToIndex steepFFNN ''xa'' = None"
    by (simp add: steepFFNN_def)
  have f5: "tokenToIndex (fst (initializeRNNModel [''a'', ''b''] 1 (\<lambda>n. 1 / 2) 0)) ''constructor'' = None"
    by (simp add: indexTokens_def upt_rec)
  show ?thesis
    by (intro conjI f1 f2 f3 f4 f5 steepFFNN_xa zeroRNN_constructor)
qed

section \<open>Entries of products\<close>

lemma sum_list_upt: "sum_list (map f [0..<n]) = (\<Sum>k<n. (f k :: real))"
  by (simp add: interv_sum_list_conv_sum_set_nat atLeast0LessThan)

lemma dot_loops_transpose:
  assumes "cols a = cols u"
  shows "dot_loops a (transpose u)
       = tabulate (rows a) (rows u) (\<lambda>i j. \<Sum>k<cols u. entry a i k * entry u j k)"
  unfolding dot_loops_def transpose_shape sum_list_upt assms
  by (rule tabulate_cong) (simp add: transpose_def)

lemma add_tabulate:
  "add (tabulate nr nc f) (tabulate nr nc g) = tabulate nr nc (\<lambda>i j. f i j + g i j)"
  unfolding add_same_shape [of "tabulate nr nc f" "tabulate nr nc g", simplified] tabulate_rows tabulate_cols
  by (rule tabulate_cong) simp

lemma multiply_loops_tabulate:
  "multiply_loops (tabulate nr nc f) b = tabulate nr nc (\<lambda>i j. f i j * entry b i j)"
  unfolding multiply_loops_def tabulate_rows tabulate_cols
  by (rule tabulate_cong) simp

lemma multiply_loops_shaped:
  "shaped nr nc a \<Longrightarrow> multiply_loops a b = tabulate nr nc (\<lambda>i j. entry a i j * entry b i j)"
  by (simp add: multiply_loops_def shaped_def)

lemma add_shaped:
  "shaped nr nc a \<Longrightarrow> shaped nr nc b \<Longrightarrow> add a b = tabulate nr nc (\<lambda>i j. entry a i j + entry b i j)"
  by (simp add: add_same_shape shaped_def)


section \<open>GRU: the gradient passed to the earlier step\<close>

lemma gru_backward_iteration_unfold:
  assumes wf: "wf_GRU hs m"
    and e: "gru_cache_ok (length (vocab m)) hs (cached ! t)"
    and s: "shaped 1 hs (states ! (t + 1))"
    and g: "gru_grads_ok (length (vocab m)) hs g"
  shows "\<exists>l g'. gru_backward_iteration m enc step states cached t g = Inr (l, g')
     \<and> gru_dh l = applyMask
          (add (dot_loops (updateRow0 (prob (cached ! t)) (nth_opt enc (Some (step + int t + 1)))
                             (\<lambda>v. v - 1))
                  (transpose (weights (Why m))))
               (dh_next_grad g))
          (mask (cached ! t))
     \<and> gru_dh_hat_raw l
         = multiply_loops (multiply_loops (gru_dh l) (z_t (cached ! t)))
             (map_matrix (h_hat_t (cached ! t)) dtanh)
     \<and> gru_dr_raw l
         = multiply_loops
             (multiply_loops (dot_loops (gru_dh_hat_raw l) (transpose (weights (Uh m))))
                (h_prev (cached ! t)))
             (map_matrix (r_t (cached ! t)) dsigmoid)
     \<and> gru_dz_raw l
         = multiply_loops
             (multiply_loops (gru_dh l) (subtract_loops (h_hat_t (cached ! t)) (h_prev (cached ! t))))
             (map_matrix (z_t (cached ! t)) dsigmoid)
     \<and> dh_next_grad g'
         = add (add (add (multiply_loops (gru_dh l) (subtract_loops (ones 1 hs) (z_t (cached ! t))))
                         (multiply_loops (dot_loops (gru_dh_hat_raw l) (transpose (weights (Uh m))))
                            (r_t (cached ! t))))
                    (dot_loops (gru_dz_raw l) (transpose (weights (Uz m)))))
               (dot_loops (gru_dr_raw l) (transpose (weights (Ur m))))"
proof (cases "mask (cached ! t)")
  case None
  then show ?thesis
    using wf e g s
    by (simp add: gru_backward_iteration_def Let_def wf_GRU_def wf_layer_def gru_cache_ok_def
        gru_grads_ok_def shaped_def applyMask_def)
next
  case (Some mk)
  then show ?thesis
    using wf e g s
    by (simp add: gru_backward_iteration_def Let_def wf_GRU_def wf_layer_def gru_cache_ok_def
        gru_grads_ok_def shaped_def mask_ok_def applyMask_def)
qed


lemma gru_backward_iteration_paths:
  assumes wf: "wf_GRU hs m"
    and e: "gru_cache_ok (length (vocab m)) hs (cached ! t)"
    and s: "shaped 1 hs (states ! (t + 1))"
    and g: "gru_grads_ok (length (vocab m)) hs g"
  shows "\<exists>l g'. gru_backward_iteration m enc step states cached t g = Inr (l, g')
     \<and> gru_dh l = tabulate 1 hs (\<lambda>i j.
           ((\<Sum>k<length (vocab m).
               entry (updateRow0 (prob (cached ! t)) (nth_opt enc (Some (step + int t + 1)))
                        (\<lambda>v. v - 1)) i k
               * entry (weights (Why m)) j k)
            + entry (dh_next_grad g) i j)
           * (case mask (cached ! t) of None \<Rightarrow> 1 | Some mk \<Rightarrow> entry mk i j))
     \<and> gru_dh_hat_raw l = tabulate 1 hs (\<lambda>i j.
           entry (gru_dh l) i j * entry (z_t (cached ! t)) i j
           * dtanh (entry (h_hat_t (cached ! t)) i j))
     \<and> gru_dr_raw l = tabulate 1 hs (\<lambda>i j.
           (\<Sum>k<hs. entry (gru_dh_hat_raw l) i k * entry (weights (Uh m)) j k)
           * entry (h_prev (cached ! t)) i j * dsigmoid (entry (r_t (cached ! t)) i j))
     \<and> gru_dz_raw l = tabulate 1 hs (\<lambda>i j.
           entry (gru_dh l) i j
           * (entry (h_hat_t (cached ! t)) i j - entry (h_prev (cached ! t)) i j)
           * dsigmoid (entry (z_t (cached ! t)) i j))
     \<and> dh_next_grad g' = tabulate 1 hs (\<lambda>i j.
           entry (gru_dh l) i j * (1 - entry (z_t (cached ! t)) i j)
           + (\<Sum>k<hs. entry (gru_dh_hat_raw l) i k * entry (weights (Uh m)) j k)
             * entry (r_t (cached ! t)) i j
           + (\<Sum>k<hs. entry (gru_dz_raw l) i k * entry (weights (Uz m)) j k)
           + (\<Sum>k<hs. entry (gru_dr_raw l) i k * entry (weights (Ur m)) j k))"
proof -
  let ?e = "cached ! t"
  let ?dy = "updateRow0 (prob ?e) (nth_opt enc (Some (step + int t + 1))) (\<lambda>v. v - 1)"
  from gru_backward_iteration_unfold [OF wf e s g, of enc step] obtain l g'
    where it: "gru_backward_iteration m enc step states cached t g = Inr (l, g')"
      and dh: "gru_dh l = applyMask (add (dot_loops ?dy (transpose (weights (Why m)))) (dh_next_grad g))
                 (mask ?e)"
      and dhr: "gru_dh_hat_raw l
         = multiply_loops (multiply_loops (gru_dh l) (z_t ?e)) (map_matrix (h_hat_t ?e) dtanh)"
      and drr: "gru_dr_raw l
         = multiply_loops
             (multiply_loops (dot_loops (gru_dh_hat_raw l) (transpose (weights (Uh m)))) (h_prev ?e))
             (map_matrix (r_t ?e) dsigmoid)"
      and dzr: "gru_dz_raw l
         = multiply_loops (multiply_loops (gru_dh l) (subtract_loops (h_hat_t ?e) (h_prev ?e)))
             (map_matrix (z_t ?e) dsigmoid)"
      and nx: "dh_next_grad g'
         = add (add (add (multiply_loops (gru_dh l) (subtract_loops (ones 1 hs) (z_t ?e)))
                         (multiply_loops (dot_loops (gru_dh_hat_raw l) (transpose (weights (Uh m))))
                            (r_t ?e)))
                    (dot_loops (gru_dz_raw l) (transpose (weights (Uz m)))))
               (dot_loops (gru_dr_raw l) (transpose (weights (Ur m))))"
    by blast
  have W: "rows (weights (Why m)) = hs" "cols (weights (Why m)) = length (vocab m)"
    "rows (weights (Uh m)) = hs" "cols (weights (Uh m)) = hs"
    "rows (weights (Uz m)) = hs" "cols (weights (Uz m)) = hs"
    "rows (weights (Ur m)) = hs" "cols (weights (Ur m)) = hs"
    using wf by (simp_all add: wf_GRU_def wf_layer_def shaped_def)
  have E: "rows (prob ?e) = 1" "cols (prob ?e) = length (vocab m)"
    "rows (z_t ?e) = 1" "cols (z_t ?e) = hs" "rows (r_t ?e) = 1" "cols (r_t ?e) = hs"
    "rows (h_hat_t ?e) = 1" "cols (h_hat_t ?e) = hs" "rows (h_prev ?e) = 1" "cols (h_prev ?e) = hs"
    using e by (simp_all add: gru_cache_ok_def shaped_def)
  have G: "rows (dh_next_grad g) = 1" "cols (dh_next_grad g) = hs"
    using g by (simp_all add: gru_grads_ok_def shaped_def)
  have dot_dy: "dot_loops ?dy (transpose (weights (Why m)))
      = tabulate 1 hs (\<lambda>i j. \<Sum>k<length (vocab m). entry ?dy i k * entry (weights (Why m)) j k)"
    by (simp add: dot_loops_transpose W E)
  have pre: "add (dot_loops ?dy (transpose (weights (Why m)))) (dh_next_grad g)
      = tabulate 1 hs (\<lambda>i j. (\<Sum>k<length (vocab m). entry ?dy i k * entry (weights (Why m)) j k)
            + entry (dh_next_grad g) i j)"
    unfolding dot_dy
    by (simp add: add_same_shape G) (rule tabulate_cong, simp)
  have dh': "gru_dh l = tabulate 1 hs (\<lambda>i j.
           ((\<Sum>k<length (vocab m). entry ?dy i k * entry (weights (Why m)) j k)
            + entry (dh_next_grad g) i j)
           * (case mask ?e of None \<Rightarrow> 1 | Some mk \<Rightarrow> entry mk i j))"
  proof (cases "mask ?e")
    case None
    then show ?thesis by (simp add: dh applyMask_def pre)
  next
    case (Some mk)
    then show ?thesis by (simp add: dh applyMask_def pre multiply_loops_tabulate)
  qed
  have sh_dh: "shaped 1 hs (gru_dh l)" by (simp add: dh')
  have dhr': "gru_dh_hat_raw l = tabulate 1 hs (\<lambda>i j.
           entry (gru_dh l) i j * entry (z_t ?e) i j * dtanh (entry (h_hat_t ?e) i j))"
    unfolding dhr multiply_loops_shaped [OF sh_dh] multiply_loops_tabulate
    by (rule tabulate_cong) (simp add: map_matrix_def E)
  have sh_dhr: "shaped 1 hs (gru_dh_hat_raw l)" by (simp add: dhr')
  have dot_h: "dot_loops (gru_dh_hat_raw l) (transpose (weights (Uh m)))
      = tabulate 1 hs (\<lambda>i j. \<Sum>k<hs. entry (gru_dh_hat_raw l) i k * entry (weights (Uh m)) j k)"
    using sh_dhr by (simp add: dot_loops_transpose W shaped_def)
  have drr': "gru_dr_raw l = tabulate 1 hs (\<lambda>i j.
           (\<Sum>k<hs. entry (gru_dh_hat_raw l) i k * entry (weights (Uh m)) j k)
           * entry (h_prev ?e) i j * dsigmoid (entry (r_t ?e) i j))"
    unfolding drr dot_h multiply_loops_tabulate
    by (rule tabulate_cong) (simp add: map_matrix_def E)
  have sh_drr: "shaped 1 hs (gru_dr_raw l)" by (simp add: drr')
  have dzr': "gru_dz_raw l = tabulate 1 hs (\<lambda>i j.
           entry (gru_dh l) i j * (entry (h_hat_t ?e) i j - entry (h_prev ?e) i j)
           * dsigmoid (entry (z_t ?e) i j))"
    unfolding dzr multiply_loops_shaped [OF sh_dh] multiply_loops_tabulate
    by (rule tabulate_cong) (simp add: map_matrix_def subtract_loops_def E)
  have sh_dzr: "shaped 1 hs (gru_dz_raw l)" by (simp add: dzr')
  have dot_z: "dot_loops (gru_dz_raw l) (transpose (weights (Uz m)))
      = tabulate 1 hs (\<lambda>i j. \<Sum>k<hs. entry (gru_dz_raw l) i k * entry (weights (Uz m)) j k)"
    using sh_dzr by (simp add: dot_loops_transpose W shaped_def)
  have dot_r: "dot_loops (gru_dr_raw l) (transpose (weights (Ur m)))
      = tabulate 1 hs (\<lambda>i j. \<Sum>k<hs. entry (gru_dr_raw l) i k * entry (weights (Ur m)) j k)"
    using sh_drr by (simp add: dot_loops_transpose W shaped_def)
  have direct: "multiply_loops (gru_dh l) (subtract_loops (ones 1 hs) (z_t ?e))
      = tabulate 1 hs (\<lambda>i j. entry (gru_dh l) i j * (1 - entry (z_t ?e) i j))"
    unfolding multiply_loops_shaped [OF sh_dh]
    by (rule tabulate_cong) (simp add: subtract_loops_def ones_def)
  have nx': "dh_next_grad g' = tabulate 1 hs (\<lambda>i j.
           entry (gru_dh l) i j * (1 - entry (z_t ?e) i j)
           + (\<Sum>k<hs. entry (gru_dh_hat_raw l) i k * entry (weights (Uh m)) j k) * entry (r_t ?e) i j
           + (\<Sum>k<hs. entry (gru_dz_raw l) i k * entry (weights (Uz m)) j k)
           + (\<Sum>k<hs. entry (gru_dr_raw l) i k * entry (weights (Ur m)) j k))"
    unfolding nx direct dot_h dot_z dot_r multiply_loops_tabulate add_tabulate ..
  from it dh' dhr' drr' dzr' nx' show ?thesis by blast
qed


lemma backward_order: "t < n \<Longrightarrow> rev [0..<n] = rev [Suc t..<n] @ t # rev [0..<t]"
proof -
  assume t: "t < n"
  have "[0..<t + (n - t)] = [0..<t] @ [t..<t + (n - t)]"
    by (rule upt_add_eq_append) simp
  with t have "[0..<n] = [0..<t] @ [t..<n]" by simp
  with t have "[0..<n] = [0..<t] @ t # [Suc t..<n]" by (simp add: upt_conv_Cons)
  then show ?thesis by simp
qed

text \<open>
  C2.  \<open>fw\<close> is the forward pass of a training step on a well-formed model and \<open>t\<close> a
  position of its window.  The backward loop runs from the last position down; \<open>g\<close> is its
  state when it reaches \<open>t\<close>, \<open>l\<close> are the locals of the iteration at \<open>t\<close>, and \<open>g'\<close> is the
  state the loop goes on with for the earlier positions.  The iteration does not throw, and
  the gradient it passes on is, entry by entry, the sum of four terms: \<open>dh\<close> times
  \<open>1 - z_t\<close>; the product of \<open>dh_hat_raw\<close> with the transposed \<open>Uh\<close>, times \<open>r_t\<close>; the
  product of \<open>dz_raw\<close> with the transposed \<open>Uz\<close>; and the product of \<open>dr_raw\<close> with the
  transposed \<open>Ur\<close>.  The four locals are what the source computes them to be: \<open>dh\<close> is the
  gradient from the output layer plus the one passed from the later step, under the dropout
  mask, and the three raw gradients are taken through the derivative of their gate.
\<close>

theorem gru_dh_next_four_contributions:
  assumes wf: "wf_GRU hs m"
    and fw: "gru_forward m enc step (min (step + k) (int (length enc) - 1)) dr rnd pos = Inr fw"
    and t: "t < length (cache fw)"
  shows "\<exists>g l g'.
       forEach (gru_backward_step m enc step (hiddenStates fw) (cache fw))
         (rev [Suc t..<length (cache fw)])
         \<lparr>dh_next_grad = createMatrix 1 hs 0,
          gWhy = createMatrix hs (length (vocab m)) 0, gby = createMatrix 1 (length (vocab m)) 0,
          gWz = createMatrix (length (vocab m)) hs 0, gUz = createMatrix hs hs 0,
          gbz = createMatrix 1 hs 0,
          gWr = createMatrix (length (vocab m)) hs 0, gUr = createMatrix hs hs 0,
          gbr = createMatrix 1 hs 0,
          gWh = createMatrix (length (vocab m)) hs 0, gUh = createMatrix hs hs 0,
          gbh = createMatrix 1 hs 0\<rparr> = Inr g
     \<and> gru_backward_iteration m enc step (hiddenStates fw) (cache fw) t g = Inr (l, g')
     \<and> gru_backward m enc step (hiddenStates fw) (cache fw)
         = forEach (gru_backward_step m enc step (hiddenStates fw) (cache fw)) (rev [0..<t]) g'
     \<and> gru_dh l = tabulate 1 hs (\<lambda>i j.
           ((\<Sum>k<length (vocab m).
               entry (updateRow0 (prob (cache fw ! t)) (nth_opt enc (Some (step + int t + 1)))
                        (\<lambda>v. v - 1)) i k
               * entry (weights (Why m)) j k)
            + entry (dh_next_grad g) i j)
           * (case mask (cache fw ! t) of None \<Rightarrow> 1 | Some mk \<Rightarrow> entry mk i j))
     \<and> gru_dh_hat_raw l = tabulate 1 hs (\<lambda>i j.
           entry (gru_dh l) i j * entry (z_t (cache fw ! t)) i j
           * dtanh (entry (h_hat_t (cache fw ! t)) i j))
     \<and> gru_dr_raw l = tabulate 1 hs (\<lambda>i j.
           (\<Sum>k<hs. entry (gru_dh_hat_raw l) i k * entry (weights (Uh m)) j k)
           * entry (h_prev (cache fw ! t)) i j * dsigmoid (entry (r_t (cache fw ! t)) i j))
     \<and> gru_dz_raw l = tabulate 1 hs (\<lambda>i j.
           entry (gru_dh l) i j
           * (entry (h_hat_t (cache fw ! t)) i j - entry (h_prev (cache fw ! t)) i j)
           * dsigmoid (entry (z_t (cache fw ! t)) i j))
     \<and> dh_next_grad g' = tabulate 1 hs (\<lambda>i j.
           entry (gru_dh l) i j * (1 - entry (z_t (cache fw ! t)) i j)
           + (\<Sum>k<hs. entry (gru_dh_hat_raw l) i k * entry (weights (Uh m)) j k)
             * entry (r_t (cache fw ! t)) i j
           + (\<Sum>k<hs. entry (gru_dz_raw l) i k * entry (weights (Uz m)) j k)
           + (\<Sum>k<hs. entry (gru_dr_raw l) i k * entry (weights (Ur m)) j k))"
proof -
  let ?v = "length (vocab m)"
  let ?body = "gru_backward_step m enc step (hiddenStates fw) (cache fw)"
  let ?g0 = "\<lparr>dh_next_grad = createMatrix 1 hs 0,
            gWhy = createMatrix hs ?v 0, gby = createMatrix 1 ?v 0,
            gWz = createMatrix ?v hs 0, gUz = createMatrix hs hs 0, gbz = createMatrix 1 hs 0,
            gWr = createMatrix ?v hs 0, gUr = createMatrix hs hs 0, gbr = createMatrix 1 hs 0,
            gWh = createMatrix ?v hs 0, gUh = createMatrix hs hs 0, gbh = createMatrix 1 hs 0\<rparr>"
  from gru_forward_ok [OF wf, of enc step "min (step + k) (int (length enc) - 1)" dr rnd pos] fw
  have inv: "forward_inv (gru_cache_ok ?v hs) h_t_dropped hs (vocab m) enc
               [step..min (step + k) (int (length enc) - 1) - 1] fw"
    by simp
  then have es: "list_all (gru_cache_ok ?v hs) (cache fw)"
    and ss: "list_all (shaped 1 hs) (hiddenStates fw)"
    and len: "length (hiddenStates fw) = Suc (length (cache fw))"
    by (simp_all add: forward_inv_def forward_shape_inv_def)
  have hs: "rows (weights (Why m)) = hs" using wf by (simp add: wf_GRU_def wf_layer_def shaped_def)
  have step_ok: "\<exists>st'. ?body i st = Inr st' \<and> gru_grads_ok ?v hs st'"
    if "gru_grads_ok ?v hs st" and "i < length (cache fw)" for i and st :: GRUGrads
  proof -
    from that es have e: "gru_cache_ok ?v hs (cache fw ! i)" by (simp add: list_all_length)
    from that ss len have s: "shaped 1 hs (hiddenStates fw ! (i + 1))" by (simp add: list_all_length)
    from gru_backward_iteration_ok [OF wf e s that(1), of enc step]
    show ?thesis by (auto simp: gru_backward_step_def)
  qed
  have "\<exists>g. forEach ?body (rev [Suc t..<length (cache fw)]) ?g0 = Inr g
        \<and> (\<lambda>pre. gru_grads_ok ?v hs) (rev [Suc t..<length (cache fw)]) g"
  proof (rule forEach_rule)
    show "gru_grads_ok ?v hs ?g0" by (simp add: gru_grads_ok_def)
  next
    fix pre :: "nat list" and i and st :: GRUGrads
    assume "gru_grads_ok ?v hs st" and "i \<in> set (rev [Suc t..<length (cache fw)])"
    then show "\<exists>st'. ?body i st = Inr st' \<and> gru_grads_ok ?v hs st'"
      by (intro step_ok) simp_all
  qed
  then obtain g where before: "forEach ?body (rev [Suc t..<length (cache fw)]) ?g0 = Inr g"
    and g: "gru_grads_ok ?v hs g" by blast
  from t es have e: "gru_cache_ok ?v hs (cache fw ! t)" by (simp add: list_all_length)
  from t ss len have s: "shaped 1 hs (hiddenStates fw ! (t + 1))" by (simp add: list_all_length)
  from gru_backward_iteration_paths [OF wf e s g, of enc step] obtain l g'
    where it: "gru_backward_iteration m enc step (hiddenStates fw) (cache fw) t g = Inr (l, g')"
      and paths: "gru_dh l = tabulate 1 hs (\<lambda>i j.
           ((\<Sum>k<length (vocab m).
               entry (updateRow0 (prob (cache fw ! t)) (nth_opt enc (Some (step + int t + 1)))
                        (\<lambda>v. v - 1)) i k
               * entry (weights (Why m)) j k)
            + entry (dh_next_grad g) i j)
           * (case mask (cache fw ! t) of None \<Rightarrow> 1 | Some mk \<Rightarrow> entry mk i j))"
        "gru_dh_hat_raw l = tabulate 1 hs (\<lambda>i j.
           entry (gru_dh l) i j * entry (z_t (cache fw ! t)) i j
           * dtanh (entry (h_hat_t (cache fw ! t)) i j))"
        "gru_dr_raw l = tabulate 1 hs (\<lambda>i j.
           (\<Sum>k<hs. entry (gru_dh_hat_raw l) i k * entry (weights (Uh m)) j k)
           * entry (h_prev (cache fw ! t)) i j * dsigmoid (entry (r_t (cache fw ! t)) i j))"
        "gru_dz_raw l = tabulate 1 hs (\<lambda>i j.
           entry (gru_dh l) i j
           * (entry (h_hat_t (cache fw ! t)) i j - entry (h_prev (cache fw ! t)) i j)
           * dsigmoid (entry (z_t (cache fw ! t)) i j))"
        "dh_next_grad g' = tabulate 1 hs (\<lambda>i j.
           entry (gru_dh l) i j * (1 - entry (z_t (cache fw ! t)) i j)
           + (\<Sum>k<hs. entry (gru_dh_hat_raw l) i k * entry (weights (Uh m)) j k)
             * entry (r_t (cache fw ! t)) i j
           + (\<Sum>k<hs. entry (gru_dz_raw l) i k * entry (weights (Uz m)) j k)
           + (\<Sum>k<hs. entry (gru_dr_raw l) i k * entry (weights (Ur m)) j k))"
    by blast
  have "gru_backward m enc step (hiddenStates fw) (cache fw)
      = forEach ?body (rev [0..<length (cache fw)]) ?g0"
    by (simp add: gru_backward_def Let_def hs)
  also have "\<dots> = andThen (forEach ?body (rev [Suc t..<length (cache fw)]) ?g0)
                      (forEach ?body (t # rev [0..<t]))"
    by (simp only: backward_order [OF t] forEach_append)
  also have "\<dots> = forEach ?body (t # rev [0..<t]) g"
    by (simp only: before andThen_Inr)
  also have "\<dots> = forEach ?body (rev [0..<t]) g'"
    by (simp add: gru_backward_step_def it)
  finally have rest: "gru_backward m enc step (hiddenStates fw) (cache fw)
      = forEach ?body (rev [0..<t]) g'" .
  from before it rest paths show ?thesis by blast
qed


theorem gru_dh_next_four_contributions_witness:
  "\<exists>fw g l g'.
      gru_forward (fst (initializeGRUModel [''a'', ''b'', ''c''] 2 (\<lambda>n. 1 / (real n + 2)) 0)) [0, 1, 2, 0] 0 (min (0 + 3) (int (length [0, 1, 2, 0 :: int]) - 1)) (1 / 4)
        (\<lambda>n. 1 / (real n + 2)) 0 = Inr fw
    \<and> length (cache fw) = 3
    \<and> gru_backward_iteration (fst (initializeGRUModel [''a'', ''b'', ''c''] 2 (\<lambda>n. 1 / (real n + 2)) 0)) [0, 1, 2, 0] 0 (hiddenStates fw) (cache fw) 1 g = Inr (l, g')
    \<and> gru_backward (fst (initializeGRUModel [''a'', ''b'', ''c''] 2 (\<lambda>n. 1 / (real n + 2)) 0)) [0, 1, 2, 0] 0 (hiddenStates fw) (cache fw)
        = forEach (gru_backward_step (fst (initializeGRUModel [''a'', ''b'', ''c''] 2 (\<lambda>n. 1 / (real n + 2)) 0)) [0, 1, 2, 0] 0 (hiddenStates fw) (cache fw)) (rev [0..<1]) g'
    \<and> dh_next_grad g' = tabulate 1 2 (\<lambda>i j.
          entry (gru_dh l) i j * (1 - entry (z_t (cache fw ! 1)) i j)
          + (\<Sum>k<2. entry (gru_dh_hat_raw l) i k * entry (weights (Uh (fst (initializeGRUModel [''a'', ''b'', ''c''] 2 (\<lambda>n. 1 / (real n + 2)) 0)))) j k)
            * entry (r_t (cache fw ! 1)) i j
          + (\<Sum>k<2. entry (gru_dz_raw l) i k * entry (weights (Uz (fst (initializeGRUModel [''a'', ''b'', ''c''] 2 (\<lambda>n. 1 / (real n + 2)) 0)))) j k)
          + (\<Sum>k<2. entry (gru_dr_raw l) i k * entry (weights (Ur (fst (initializeGRUModel [''a'', ''b'', ''c''] 2 (\<lambda>n. 1 / (real n + 2)) 0)))) j k))"
proof -
  let ?m = "(fst (initializeGRUModel [''a'', ''b'', ''c''] 2 (\<lambda>n. 1 / (real n + 2)) 0))"
  let ?enc = "[0, 1, 2, 0] :: int list"
  let ?rnd = "\<lambda>n. 1 / (real n + 2)"
  have wf: "wf_GRU 2 ?m" by (rule initializeGRUModel_wf)
  from gru_forward_ok [OF wf, of ?enc 0 "min (0 + 3) (int (length ?enc) - 1)" "1 / 4" ?rnd 0]
  obtain fw where fw: "gru_forward ?m ?enc 0 (min (0 + 3) (int (length ?enc) - 1)) (1 / 4) ?rnd 0 = Inr fw"
    and inv: "forward_inv (gru_cache_ok (length (vocab ?m)) 2) h_t_dropped 2 (vocab ?m) ?enc
               [0..min (0 + 3) (int (length ?enc) - 1) - 1] fw"
    by blast
  from inv have len: "length (cache fw) = 3"
    by (simp add: forward_inv_def forward_shape_inv_def)
  then have t: "1 < length (cache fw)" by simp
  from gru_dh_next_four_contributions [OF wf fw t] obtain g l g'
    where it: "gru_backward_iteration ?m ?enc 0 (hiddenStates fw) (cache fw) 1 g = Inr (l, g')"
      and rest: "gru_backward ?m ?enc 0 (hiddenStates fw) (cache fw)
        = forEach (gru_backward_step ?m ?enc 0 (hiddenStates fw) (cache fw)) (rev [0..<1]) g'"
      and nx: "dh_next_grad g' = tabulate 1 2 (\<lambda>i j.
          entry (gru_dh l) i j * (1 - entry (z_t (cache fw ! 1)) i j)
          + (\<Sum>k<2. entry (gru_dh_hat_raw l) i k * entry (weights (Uh ?m)) j k)
            * entry (r_t (cache fw ! 1)) i j
          + (\<Sum>k<2. entry (gru_dz_raw l) i k * entry (weights (Uz ?m)) j k)
          + (\<Sum>k<2. entry (gru_dr_raw l) i k * entry (weights (Ur ?m)) j k))"
    by blast
  show ?thesis
    by (intro exI conjI) (rule fw len it rest nx)+
qed

section \<open>LSTM: the gradients passed to the earlier step\<close>

lemma lstm_backward_iteration_unfold:
  assumes wf: "wf_LSTM hs m"
    and e: "lstm_cache_ok (length (vocab m)) hs (cached ! t)"
    and s: "shaped 1 hs (states ! (t + 1))"
    and g: "lstm_grads_ok (length (vocab m)) hs g"
  shows "\<exists>l g'. lstm_backward_iteration m enc step states cached t g = Inr (l, g')
     \<and> lstm_dh l = applyMask
          (add (dot_loops (updateRow0 (prob (cached ! t)) (nth_opt enc (Some (step + int t + 1)))
                             (\<lambda>v. v - 1))
                  (transpose (weights (Why m))))
               (dh_next_grad g))
          (mask (cached ! t))
     \<and> lstm_do_raw l = multiply_loops (lstm_dh l) (map_matrix (c_t (cached ! t)) tanh)
     \<and> lstm_do_t l = multiply_loops (lstm_do_raw l) (map_matrix (o_t (cached ! t)) dsigmoid)
     \<and> lstm_dc_t l
         = add (dc_next_grad g)
             (multiply_loops (lstm_dh l)
                (multiply_loops (o_t (cached ! t))
                   (map_matrix (map_matrix (c_t (cached ! t)) tanh) dtanh)))
     \<and> lstm_dc_hat_raw l
         = multiply_loops (multiply_loops (lstm_dc_t l) (i_t (cached ! t)))
             (map_matrix (c_hat_t (cached ! t)) dtanh)
     \<and> lstm_di_raw l
         = multiply_loops (multiply_loops (lstm_dc_t l) (c_hat_t (cached ! t)))
             (map_matrix (i_t (cached ! t)) dsigmoid)
     \<and> lstm_df_raw l
         = multiply_loops (multiply_loops (lstm_dc_t l) (c_prev (cached ! t)))
             (map_matrix (f_t (cached ! t)) dsigmoid)
     \<and> gWo g' = add (gWo g) (dot_loops (transpose (inputVector (cached ! t))) (lstm_do_t l))
     \<and> gUo g' = add (gUo g) (dot_loops (transpose (h_prev (cached ! t))) (lstm_do_t l))
     \<and> gbo g' = add (gbo g) (lstm_do_t l)
     \<and> dc_next_grad g' = multiply_loops (lstm_dc_t l) (f_t (cached ! t))
     \<and> dh_next_grad g'
         = add (add (add (dot_loops (lstm_df_raw l) (transpose (weights (Uf m))))
                         (dot_loops (lstm_di_raw l) (transpose (weights (Ui m)))))
                    (dot_loops (lstm_do_raw l) (transpose (weights (Uo m)))))
               (dot_loops (lstm_dc_hat_raw l) (transpose (weights (Uc m))))"
proof (cases "mask (cached ! t)")
  case None
  then show ?thesis
    using wf e g s
    by (simp add: lstm_backward_iteration_def Let_def wf_LSTM_def wf_layer_def lstm_cache_ok_def
        lstm_grads_ok_def shaped_def applyMask_def)
next
  case (Some mk)
  then show ?thesis
    using wf e g s
    by (simp add: lstm_backward_iteration_def Let_def wf_LSTM_def wf_layer_def lstm_cache_ok_def
        lstm_grads_ok_def shaped_def mask_ok_def applyMask_def)
qed


lemma lstm_backward_iteration_paths:
  assumes wf: "wf_LSTM hs m"
    and e: "lstm_cache_ok (length (vocab m)) hs (cached ! t)"
    and s: "shaped 1 hs (states ! (t + 1))"
    and g: "lstm_grads_ok (length (vocab m)) hs g"
  shows "\<exists>l g'. lstm_backward_iteration m enc step states cached t g = Inr (l, g')
     \<and> lstm_dh l = tabulate 1 hs (\<lambda>i j.
           ((\<Sum>k<length (vocab m).
               entry (updateRow0 (prob (cached ! t)) (nth_opt enc (Some (step + int t + 1)))
                        (\<lambda>v. v - 1)) i k
               * entry (weights (Why m)) j k)
            + entry (dh_next_grad g) i j)
           * (case mask (cached ! t) of None \<Rightarrow> 1 | Some mk \<Rightarrow> entry mk i j))
     \<and> lstm_do_raw l = tabulate 1 hs (\<lambda>i j.
           entry (lstm_dh l) i j * tanh (entry (c_t (cached ! t)) i j))
     \<and> lstm_do_t l = tabulate 1 hs (\<lambda>i j.
           entry (lstm_do_raw l) i j * dsigmoid (entry (o_t (cached ! t)) i j))
     \<and> lstm_dc_t l = tabulate 1 hs (\<lambda>i j.
           entry (dc_next_grad g) i j
           + entry (lstm_dh l) i j
             * (entry (o_t (cached ! t)) i j * dtanh (tanh (entry (c_t (cached ! t)) i j))))
     \<and> lstm_dc_hat_raw l = tabulate 1 hs (\<lambda>i j.
           entry (lstm_dc_t l) i j * entry (i_t (cached ! t)) i j
           * dtanh (entry (c_hat_t (cached ! t)) i j))
     \<and> lstm_di_raw l = tabulate 1 hs (\<lambda>i j.
           entry (lstm_dc_t l) i j * entry (c_hat_t (cached ! t)) i j
           * dsigmoid (entry (i_t (cached ! t)) i j))
     \<and> lstm_df_raw l = tabulate 1 hs (\<lambda>i j.
           entry (lstm_dc_t l) i j * entry (c_prev (cached ! t)) i j
           * dsigmoid (entry (f_t (cached ! t)) i j))
     \<and> gWo g' = add (gWo g) (dot_loops (transpose (inputVector (cached ! t))) (lstm_do_t l))
     \<and> gUo g' = add (gUo g) (dot_loops (transpose (h_prev (cached ! t))) (lstm_do_t l))
     \<and> gbo g' = add (gbo g) (lstm_do_t l)
     \<and> dc_next_grad g' = tabulate 1 hs (\<lambda>i j.
           entry (lstm_dc_t l) i j * entry (f_t (cached ! t)) i j)
     \<and> dh_next_grad g' = tabulate 1 hs (\<lambda>i j.
           (\<Sum>k<hs. entry (lstm_df_raw l) i k * entry (weights (Uf m)) j k)
           + (\<Sum>k<hs. entry (lstm_di_raw l) i k * entry (weights (Ui m)) j k)
           + (\<Sum>k<hs. entry (lstm_do_raw l) i k * entry (weights (Uo m)) j k)
           + (\<Sum>k<hs. entry (lstm_dc_hat_raw l) i k * entry (weights (Uc m)) j k))"
proof -
  let ?e = "cached ! t"
  let ?dy = "updateRow0 (prob ?e) (nth_opt enc (Some (step + int t + 1))) (\<lambda>v. v - 1)"
  from lstm_backward_iteration_unfold [OF wf e s g, of enc step] obtain l g'
    where it: "lstm_backward_iteration m enc step states cached t g = Inr (l, g')"
      and dh: "lstm_dh l = applyMask (add (dot_loops ?dy (transpose (weights (Why m)))) (dh_next_grad g))
                 (mask ?e)"
      and dor: "lstm_do_raw l = multiply_loops (lstm_dh l) (map_matrix (c_t ?e) tanh)"
      and dot': "lstm_do_t l = multiply_loops (lstm_do_raw l) (map_matrix (o_t ?e) dsigmoid)"
      and dc: "lstm_dc_t l
         = add (dc_next_grad g)
             (multiply_loops (lstm_dh l)
                (multiply_loops (o_t ?e) (map_matrix (map_matrix (c_t ?e) tanh) dtanh)))"
      and dch: "lstm_dc_hat_raw l
         = multiply_loops (multiply_loops (lstm_dc_t l) (i_t ?e)) (map_matrix (c_hat_t ?e) dtanh)"
      and di: "lstm_di_raw l
         = multiply_loops (multiply_loops (lstm_dc_t l) (c_hat_t ?e)) (map_matrix (i_t ?e) dsigmoid)"
      and df: "lstm_df_raw l
         = multiply_loops (multiply_loops (lstm_dc_t l) (c_prev ?e)) (map_matrix (f_t ?e) dsigmoid)"
      and sib: "gWo g' = add (gWo g) (dot_loops (transpose (inputVector ?e)) (lstm_do_t l))"
        "gUo g' = add (gUo g) (dot_loops (transpose (h_prev ?e)) (lstm_do_t l))"
        "gbo g' = add (gbo g) (lstm_do_t l)"
      and cx: "dc_next_grad g' = multiply_loops (lstm_dc_t l) (f_t ?e)"
      and nx: "dh_next_grad g'
         = add (add (add (dot_loops (lstm_df_raw l) (transpose (weights (Uf m))))
                         (dot_loops (lstm_di_raw l) (transpose (weights (Ui m)))))
                    (dot_loops (lstm_do_raw l) (transpose (weights (Uo m)))))
               (dot_loops (lstm_dc_hat_raw l) (transpose (weights (Uc m))))"
    by blast
  have W: "rows (weights (Why m)) = hs" "cols (weights (Why m)) = length (vocab m)"
    "rows (weights (Uf m)) = hs" "cols (weights (Uf m)) = hs"
    "rows (weights (Ui m)) = hs" "cols (weights (Ui m)) = hs"
    "rows (weights (Uo m)) = hs" "cols (weights (Uo m)) = hs"
    "rows (weights (Uc m)) = hs" "cols (weights (Uc m)) = hs"
    using wf by (simp_all add: wf_LSTM_def wf_layer_def shaped_def)
  have E: "rows (prob ?e) = 1" "cols (prob ?e) = length (vocab m)"
    "rows (f_t ?e) = 1" "cols (f_t ?e) = hs" "rows (i_t ?e) = 1" "cols (i_t ?e) = hs"
    "rows (o_t ?e) = 1" "cols (o_t ?e) = hs" "rows (c_hat_t ?e) = 1" "cols (c_hat_t ?e) = hs"
    "rows (c_t ?e) = 1" "cols (c_t ?e) = hs" "rows (c_prev ?e) = 1" "cols (c_prev ?e) = hs"
    using e by (simp_all add: lstm_cache_ok_def shaped_def)
  have G: "rows (dh_next_grad g) = 1" "cols (dh_next_grad g) = hs"
    "shaped 1 hs (dc_next_grad g)"
    using g by (simp_all add: lstm_grads_ok_def shaped_def)
  have dot_dy: "dot_loops ?dy (transpose (weights (Why m)))
      = tabulate 1 hs (\<lambda>i j. \<Sum>k<length (vocab m). entry ?dy i k * entry (weights (Why m)) j k)"
    by (simp add: dot_loops_transpose W E)
  have pre: "add (dot_loops ?dy (transpose (weights (Why m)))) (dh_next_grad g)
      = tabulate 1 hs (\<lambda>i j. (\<Sum>k<length (vocab m). entry ?dy i k * entry (weights (Why m)) j k)
            + entry (dh_next_grad g) i j)"
    unfolding dot_dy
    by (simp add: add_same_shape G) (rule tabulate_cong, simp)
  have dh': "lstm_dh l = tabulate 1 hs (\<lambda>i j.
           ((\<Sum>k<length (vocab m). entry ?dy i k * entry (weights (Why m)) j k)
            + entry (dh_next_grad g) i j)
           * (case mask ?e of None \<Rightarrow> 1 | Some mk \<Rightarrow> entry mk i j))"
  proof (cases "mask ?e")
    case None
    then show ?thesis by (simp add: dh applyMask_def pre)
  next
    case (Some mk)
    then show ?thesis by (simp add: dh applyMask_def pre multiply_loops_tabulate)
  qed
  have sh_dh: "shaped 1 hs (lstm_dh l)" by (simp add: dh')
  have dor': "lstm_do_raw l = tabulate 1 hs (\<lambda>i j.
           entry (lstm_dh l) i j * tanh (entry (c_t ?e) i j))"
    unfolding dor multiply_loops_shaped [OF sh_dh]
    by (rule tabulate_cong) (simp add: map_matrix_def E)
  have sh_dor: "shaped 1 hs (lstm_do_raw l)" by (simp add: dor')
  have dot'': "lstm_do_t l = tabulate 1 hs (\<lambda>i j.
           entry (lstm_do_raw l) i j * dsigmoid (entry (o_t ?e) i j))"
    unfolding dot' multiply_loops_shaped [OF sh_dor]
    by (rule tabulate_cong) (simp add: map_matrix_def E)
  have dc': "lstm_dc_t l = tabulate 1 hs (\<lambda>i j.
           entry (dc_next_grad g) i j
           + entry (lstm_dh l) i j * (entry (o_t ?e) i j * dtanh (tanh (entry (c_t ?e) i j))))"
    unfolding dc multiply_loops_shaped [OF sh_dh]
    unfolding add_shaped [OF G(3) shaped_tabulate]
    by (rule tabulate_cong) (simp add: map_matrix_def multiply_loops_def E)
  have sh_dc: "shaped 1 hs (lstm_dc_t l)" by (simp add: dc')
  have dch': "lstm_dc_hat_raw l = tabulate 1 hs (\<lambda>i j.
           entry (lstm_dc_t l) i j * entry (i_t ?e) i j * dtanh (entry (c_hat_t ?e) i j))"
    unfolding dch multiply_loops_shaped [OF sh_dc] multiply_loops_tabulate
    by (rule tabulate_cong) (simp add: map_matrix_def E)
  have di': "lstm_di_raw l = tabulate 1 hs (\<lambda>i j.
           entry (lstm_dc_t l) i j * entry (c_hat_t ?e) i j * dsigmoid (entry (i_t ?e) i j))"
    unfolding di multiply_loops_shaped [OF sh_dc] multiply_loops_tabulate
    by (rule tabulate_cong) (simp add: map_matrix_def E)
  have df': "lstm_df_raw l = tabulate 1 hs (\<lambda>i j.
           entry (lstm_dc_t l) i j * entry (c_prev ?e) i j * dsigmoid (entry (f_t ?e) i j))"
    unfolding df multiply_loops_shaped [OF sh_dc] multiply_loops_tabulate
    by (rule tabulate_cong) (simp add: map_matrix_def E)
  have cx': "dc_next_grad g' = tabulate 1 hs (\<lambda>i j. entry (lstm_dc_t l) i j * entry (f_t ?e) i j)"
    unfolding cx by (rule multiply_loops_shaped [OF sh_dc])
  have sh: "shaped 1 hs (lstm_df_raw l)" "shaped 1 hs (lstm_di_raw l)"
    "shaped 1 hs (lstm_dc_hat_raw l)"
    by (simp_all add: df' di' dch')
  have dots:
    "dot_loops (lstm_df_raw l) (transpose (weights (Uf m)))
      = tabulate 1 hs (\<lambda>i j. \<Sum>k<hs. entry (lstm_df_raw l) i k * entry (weights (Uf m)) j k)"
    "dot_loops (lstm_di_raw l) (transpose (weights (Ui m)))
      = tabulate 1 hs (\<lambda>i j. \<Sum>k<hs. entry (lstm_di_raw l) i k * entry (weights (Ui m)) j k)"
    "dot_loops (lstm_do_raw l) (transpose (weights (Uo m)))
      = tabulate 1 hs (\<lambda>i j. \<Sum>k<hs. entry (lstm_do_raw l) i k * entry (weights (Uo m)) j k)"
    "dot_loops (lstm_dc_hat_raw l) (transpose (weights (Uc m)))
      = tabulate 1 hs (\<lambda>i j. \<Sum>k<hs. entry (lstm_dc_hat_raw l) i k * entry (weights (Uc m)) j k)"
    using sh sh_dor by (simp_all add: dot_loops_transpose W shaped_def)
  have nx': "dh_next_grad g' = tabulate 1 hs (\<lambda>i j.
           (\<Sum>k<hs. entry (lstm_df_raw l) i k * entry (weights (Uf m)) j k)
           + (\<Sum>k<hs. entry (lstm_di_raw l) i k * entry (weights (Ui m)) j k)
           + (\<Sum>k<hs. entry (lstm_do_raw l) i k * entry (weights (Uo m)) j k)
           + (\<Sum>k<hs. entry (lstm_dc_hat_raw l) i k * entry (weights (Uc m)) j k))"
    unfolding nx dots add_tabulate ..
  from it dh' dor' dot'' dc' dch' di' df' sib cx' nx' show ?thesis by blast
qed


text \<open>
  C1, as the code has it.  \<open>fw\<close> is the forward pass of a training step on a well-formed
  model and \<open>t\<close> a position of its window; \<open>g\<close> is the state of the backward loop when it
  reaches \<open>t\<close>, \<open>l\<close> are the locals of the iteration at \<open>t\<close>, and \<open>g'\<close> is the state the loop
  goes on with for the earlier positions.  The cell gradient passed on is \<open>dc_t\<close> times
  \<open>f_t\<close>, as claimed.  The hidden gradient passed on is a sum of four products with the
  transposed recurrent weights, but the factors are not all of one kind: \<open>df_raw\<close>,
  \<open>di_raw\<close> and \<open>dc_hat_raw\<close> are gradients after the multiplication by the derivative of
  their gate, while the factor for the output gate is \<open>do_raw\<close>, which is \<open>dh\<close> times
  \<open>tanh c_t\<close> only.  The output gate's gradient after its derivative is \<open>do_t\<close>, the value
  that the same iteration adds to the gradients of \<open>Wo\<close>, \<open>Uo\<close> and the bias of \<open>Wo\<close>.
\<close>

theorem lstm_gradients_passed_back:
  assumes wf: "wf_LSTM hs m"
    and fw: "lstm_forward m enc step (min (step + k) (int (length enc) - 1)) dr rnd pos = Inr fw"
    and t: "t < length (cache fw)"
  shows "\<exists>g l g'.
       forEach (lstm_backward_step m enc step (hiddenStates fw) (cache fw))
         (rev [Suc t..<length (cache fw)])
         \<lparr>dh_next_grad = createMatrix 1 hs 0,
          gWhy = createMatrix hs (length (vocab m)) 0, gby = createMatrix 1 (length (vocab m)) 0,
          dc_next_grad = createMatrix 1 hs 0,
          gWf = createMatrix (length (vocab m)) hs 0, gUf = createMatrix hs hs 0,
          gbf = createMatrix 1 hs 0,
          gWi = createMatrix (length (vocab m)) hs 0, gUi = createMatrix hs hs 0,
          gbi = createMatrix 1 hs 0,
          gWo = createMatrix (length (vocab m)) hs 0, gUo = createMatrix hs hs 0,
          gbo = createMatrix 1 hs 0,
          gWc = createMatrix (length (vocab m)) hs 0, gUc = createMatrix hs hs 0,
          gbc = createMatrix 1 hs 0\<rparr> = Inr g
     \<and> lstm_backward_iteration m enc step (hiddenStates fw) (cache fw) t g = Inr (l, g')
     \<and> lstm_backward m enc step (hiddenStates fw) (cache fw)
         = forEach (lstm_backward_step m enc step (hiddenStates fw) (cache fw)) (rev [0..<t]) g'
     \<and> lstm_dh l = tabulate 1 hs (\<lambda>i j.
           ((\<Sum>k<length (vocab m).
               entry (updateRow0 (prob (cache fw ! t)) (nth_opt enc (Some (step + int t + 1)))
                        (\<lambda>v. v - 1)) i k
               * entry (weights (Why m)) j k)
            + entry (dh_next_grad g) i j)
           * (case mask (cache fw ! t) of None \<Rightarrow> 1 | Some mk \<Rightarrow> entry mk i j))
     \<and> lstm_do_raw l = tabulate 1 hs (\<lambda>i j.
           entry (lstm_dh l) i j * tanh (entry (c_t (cache fw ! t)) i j))
     \<and> lstm_do_t l = tabulate 1 hs (\<lambda>i j.
           entry (lstm_do_raw l) i j * dsigmoid (entry (o_t (cache fw ! t)) i j))
     \<and> lstm_dc_t l = tabulate 1 hs (\<lambda>i j.
           entry (dc_next_grad g) i j
           + entry (lstm_dh l) i j
             * (entry (o_t (cache fw ! t)) i j * dtanh (tanh (entry (c_t (cache fw ! t)) i j))))
     \<and> lstm_dc_hat_raw l = tabulate 1 hs (\<lambda>i j.
           entry (lstm_dc_t l) i j * entry (i_t (cache fw ! t)) i j
           * dtanh (entry (c_hat_t (cache fw ! t)) i j))
     \<and> lstm_di_raw l = tabulate 1 hs (\<lambda>i j.
           entry (lstm_dc_t l) i j * entry (c_hat_t (cache fw ! t)) i j
           * dsigmoid (entry (i_t (cache fw ! t)) i j))
     \<and> lstm_df_raw l = tabulate 1 hs (\<lambda>i j.
           entry (lstm_dc_t l) i j * entry (c_prev (cache fw ! t)) i j
           * dsigmoid (entry (f_t (cache fw ! t)) i j))
     \<and> gWo g' = add (gWo g) (dot_loops (transpose (inputVector (cache fw ! t))) (lstm_do_t l))
     \<and> gUo g' = add (gUo g) (dot_loops (transpose (h_prev (cache fw ! t))) (lstm_do_t l))
     \<and> gbo g' = add (gbo g) (lstm_do_t l)
     \<and> dc_next_grad g' = tabulate 1 hs (\<lambda>i j.
           entry (lstm_dc_t l) i j * entry (f_t (cache fw ! t)) i j)
     \<and> dh_next_grad g' = tabulate 1 hs (\<lambda>i j.
           (\<Sum>k<hs. entry (lstm_df_raw l) i k * entry (weights (Uf m)) j k)
           + (\<Sum>k<hs. entry (lstm_di_raw l) i k * entry (weights (Ui m)) j k)
           + (\<Sum>k<hs. entry (lstm_do_raw l) i k * entry (weights (Uo m)) j k)
           + (\<Sum>k<hs. entry (lstm_dc_hat_raw l) i k * entry (weights (Uc m)) j k))"
proof -
  let ?v = "length (vocab m)"
  let ?body = "lstm_backward_step m enc step (hiddenStates fw) (cache fw)"
  let ?g0 = "\<lparr>dh_next_grad = createMatrix 1 hs 0,
          gWhy = createMatrix hs (length (vocab m)) 0, gby = createMatrix 1 (length (vocab m)) 0,
          dc_next_grad = createMatrix 1 hs 0,
          gWf = createMatrix (length (vocab m)) hs 0, gUf = createMatrix hs hs 0,
          gbf = createMatrix 1 hs 0,
          gWi = createMatrix (length (vocab m)) hs 0, gUi = createMatrix hs hs 0,
          gbi = createMatrix 1 hs 0,
          gWo = createMatrix (length (vocab m)) hs 0, gUo = createMatrix hs hs 0,
          gbo = createMatrix 1 hs 0,
          gWc = createMatrix (length (vocab m)) hs 0, gUc = createMatrix hs hs 0,
          gbc = createMatrix 1 hs 0\<rparr>"
  from lstm_forward_ok [OF wf, of enc step "min (step + k) (int (length enc) - 1)" dr rnd pos] fw
  have inv: "lstm_forward_inv hs (vocab m) enc [step..min (step + k) (int (length enc) - 1) - 1] fw"
    by simp
  then have es: "list_all (lstm_cache_ok ?v hs) (cache fw)"
    and ss: "list_all (shaped 1 hs) (hiddenStates fw)"
    and len: "length (hiddenStates fw) = Suc (length (cache fw))"
    by (simp_all add: lstm_forward_inv_def forward_shape_inv_def)
  have hs: "rows (weights (Why m)) = hs" using wf by (simp add: wf_LSTM_def wf_layer_def shaped_def)
  have step_ok: "\<exists>st'. ?body i st = Inr st' \<and> lstm_grads_ok ?v hs st'"
    if "lstm_grads_ok ?v hs st" and "i < length (cache fw)" for i and st :: LSTMGrads
  proof -
    from that es have e: "lstm_cache_ok ?v hs (cache fw ! i)" by (simp add: list_all_length)
    from that ss len have s: "shaped 1 hs (hiddenStates fw ! (i + 1))" by (simp add: list_all_length)
    from lstm_backward_iteration_ok [OF wf e s that(1), of enc step]
    show ?thesis by (auto simp: lstm_backward_step_def)
  qed
  have "\<exists>g. forEach ?body (rev [Suc t..<length (cache fw)]) ?g0 = Inr g
        \<and> (\<lambda>pre. lstm_grads_ok ?v hs) (rev [Suc t..<length (cache fw)]) g"
  proof (rule forEach_rule)
    show "lstm_grads_ok ?v hs ?g0" by (simp add: lstm_grads_ok_def)
  next
    fix pre :: "nat list" and i and st :: LSTMGrads
    assume "lstm_grads_ok ?v hs st" and "i \<in> set (rev [Suc t..<length (cache fw)])"
    then show "\<exists>st'. ?body i st = Inr st' \<and> lstm_grads_ok ?v hs st'"
      by (intro step_ok) simp_all
  qed
  then obtain g where before: "forEach ?body (rev [Suc t..<length (cache fw)]) ?g0 = Inr g"
    and g: "lstm_grads_ok ?v hs g" by blast
  from t es have e: "lstm_cache_ok ?v hs (cache fw ! t)" by (simp add: list_all_length)
  from t ss len have s: "shaped 1 hs (hiddenStates fw ! (t + 1))" by (simp add: list_all_length)
  from lstm_backward_iteration_paths [OF wf e s g, of enc step] obtain l g'
    where it: "lstm_backward_iteration m enc step (hiddenStates fw) (cache fw) t g = Inr (l, g')"
      and paths:
        "lstm_dh l = tabulate 1 hs (\<lambda>i j.
           ((\<Sum>k<length (vocab m).
               entry (updateRow0 (prob (cache fw ! t)) (nth_opt enc (Some (step + int t + 1)))
                        (\<lambda>v. v - 1)) i k
               * entry (weights (Why m)) j k)
            + entry (dh_next_grad g) i j)
           * (case mask (cache fw ! t) of None \<Rightarrow> 1 | Some mk \<Rightarrow> entry mk i j))"
        "lstm_do_raw l = tabulate 1 hs (\<lambda>i j.
           entry (lstm_dh l) i j * tanh (entry (c_t (cache fw ! t)) i j))"
        "lstm_do_t l = tabulate 1 hs (\<lambda>i j.
           entry (lstm_do_raw l) i j * dsigmoid (entry (o_t (cache fw ! t)) i j))"
        "lstm_dc_t l = tabulate 1 hs (\<lambda>i j.
           entry (dc_next_grad g) i j
           + entry (lstm_dh l) i j
             * (entry (o_t (cache fw ! t)) i j * dtanh (tanh (entry (c_t (cache fw ! t)) i j))))"
        "lstm_dc_hat_raw l = tabulate 1 hs (\<lambda>i j.
           entry (lstm_dc_t l) i j * entry (i_t (cache fw ! t)) i j
           * dtanh (entry (c_hat_t (cache fw ! t)) i j))"
        "lstm_di_raw l = tabulate 1 hs (\<lambda>i j.
           entry (lstm_dc_t l) i j * entry (c_hat_t (cache fw ! t)) i j
           * dsigmoid (entry (i_t (cache fw ! t)) i j))"
        "lstm_df_raw l = tabulate 1 hs (\<lambda>i j.
           entry (lstm_dc_t l) i j * entry (c_prev (cache fw ! t)) i j
           * dsigmoid (entry (f_t (cache fw ! t)) i j))"
        "gWo g' = add (gWo g) (dot_loops (transpose (inputVector (cache fw ! t))) (lstm_do_t l))"
        "gUo g' = add (gUo g) (dot_loops (transpose (h_prev (cache fw ! t))) (lstm_do_t l))"
        "gbo g' = add (gbo g) (lstm_do_t l)"
        "dc_next_grad g' = tabulate 1 hs (\<lambda>i j.
           entry (lstm_dc_t l) i j * entry (f_t (cache fw ! t)) i j)"
        "dh_next_grad g' = tabulate 1 hs (\<lambda>i j.
           (\<Sum>k<hs. entry (lstm_df_raw l) i k * entry (weights (Uf m)) j k)
           + (\<Sum>k<hs. entry (lstm_di_raw l) i k * entry (weights (Ui m)) j k)
           + (\<Sum>k<hs. entry (lstm_do_raw l) i k * entry (weights (Uo m)) j k)
           + (\<Sum>k<hs. entry (lstm_dc_hat_raw l) i k * entry (weights (Uc m)) j k))"
    by blast
  have "lstm_backward m enc step (hiddenStates fw) (cache fw)
      = forEach ?body (rev [0..<length (cache fw)]) ?g0"
    by (simp add: lstm_backward_def Let_def hs)
  also have "\<dots> = andThen (forEach ?body (rev [Suc t..<length (cache fw)]) ?g0)
                      (forEach ?body (t # rev [0..<t]))"
    by (simp only: backward_order [OF t] forEach_append)
  also have "\<dots> = forEach ?body (t # rev [0..<t]) g"
    by (simp only: before andThen_Inr)
  also have "\<dots> = forEach ?body (rev [0..<t]) g'"
    by (simp add: lstm_backward_step_def it)
  finally have rest: "lstm_backward m enc step (hiddenStates fw) (cache fw)
      = forEach ?body (rev [0..<t]) g'" .
  from before it rest paths show ?thesis by blast
qed


section \<open>LSTM: the output gate's term on a concrete window\<close>

lemma sigmoid_zero: "sigmoid 0 = 1 / 2"
  by (simp add: sigmoid_def)

lemma dsigmoid_neq_one: "dsigmoid y \<noteq> 1"
proof -
  have "0 \<le> (y - 1 / 2)\<^sup>2" by simp
  then have "y * (1 - y) \<le> 1 / 4" by (simp add: power2_eq_square algebra_simps)
  then show ?thesis by (simp add: dsigmoid_def)
qed

lemma softmax_pair_first_lt_one:
  "entry (softmax \<lparr>rows = 1, cols = 2, data = [[a, b]]\<rparr>) 0 0 < 1"
proof -
  let ?M = "max a b"
  have pos: "0 < exp (a - ?M) + exp (b - ?M)" by (simp add: add_pos_pos)
  then have nz: "exp (a - ?M) + exp (b - ?M) \<noteq> 0" by simp
  have "entry (softmax \<lparr>rows = 1, cols = 2, data = [[a, b]]\<rparr>) 0 0
      = exp (a - ?M) / (exp (a - ?M) + exp (b - ?M))"
    using nz by (simp add: softmax_def softmax_exps_def softmax_sumExps_def Let_def entry_def)
  also have "\<dots> < 1" using pos by simp
  finally show ?thesis .
qed

lemma outputGateLSTM_wf: "wf_LSTM 1 outputGateLSTM"
  by (simp add: outputGateLSTM_def wf_LSTM_def wf_layer_def shaped_def wf_matrix_def)

lemma outputGateLSTM_forward:
  "\<exists>fw. lstm_forward outputGateLSTM [0, 1, 0] 0 (min (0 + 2) (int (length [0, 1, 0 :: int]) - 1)) 0
          (\<lambda>n. 0) 0 = Inr fw
     \<and> length (cache fw) = 2
     \<and> mask (cache fw ! 1) = None
     \<and> c_t (cache fw ! 1) = \<lparr>rows = 1, cols = 1, data = [[1 / 4]]\<rparr>
     \<and> prob (cache fw ! 1)
         = softmax \<lparr>rows = 1, cols = 2, data = [[sigmoid (tanh (1 / 2) / 2) * tanh (1 / 4), 0]]\<rparr>"
  by (simp add: lstm_forward_def upto.simps lstm_forward_step_def outputGateLSTM_def Let_def
      gatePre_def dot_def dot_loops_def add_def multiply_def multiply_loops_def map_matrix_def
      tabulate_def entry_def oneHot_def updateRow0_def updateAt_def createMatrix_def nth_opt_def
      dropout_def sigmoid_zero upt_rec)


theorem lstm_gradients_passed_back_witness:
  "\<exists>fw g l g'.
      lstm_forward outputGateLSTM [0, 1, 0] 0 (min (0 + 2) (int (length [0, 1, 0 :: int]) - 1)) 0
        (\<lambda>n. 0) 0 = Inr fw
    \<and> length (cache fw) = 2
    \<and> lstm_backward_iteration outputGateLSTM [0, 1, 0] 0 (hiddenStates fw) (cache fw) 1 g = Inr (l, g')
    \<and> lstm_backward outputGateLSTM [0, 1, 0] 0 (hiddenStates fw) (cache fw)
        = forEach (lstm_backward_step outputGateLSTM [0, 1, 0] 0 (hiddenStates fw) (cache fw))
            (rev [0..<1]) g'
    \<and> entry (dc_next_grad g') 0 0 = entry (lstm_dc_t l) 0 0 * entry (f_t (cache fw ! 1)) 0 0
    \<and> entry (lstm_do_t l) 0 0
        = entry (lstm_do_raw l) 0 0 * dsigmoid (entry (o_t (cache fw ! 1)) 0 0)
    \<and> gbo g' = add (gbo g) (lstm_do_t l)
    \<and> entry (lstm_do_raw l) 0 0 \<noteq> 0
    \<and> entry (dh_next_grad g') 0 0 = entry (lstm_do_raw l) 0 0
    \<and> entry (dh_next_grad g') 0 0
        \<noteq> (\<Sum>k<1. entry (lstm_df_raw l) 0 k * entry (weights (Uf outputGateLSTM)) 0 k)
          + (\<Sum>k<1. entry (lstm_di_raw l) 0 k * entry (weights (Ui outputGateLSTM)) 0 k)
          + (\<Sum>k<1. entry (lstm_do_t l) 0 k * entry (weights (Uo outputGateLSTM)) 0 k)
          + (\<Sum>k<1. entry (lstm_dc_hat_raw l) 0 k * entry (weights (Uc outputGateLSTM)) 0 k)"
proof -
  let ?enc = "[0, 1, 0] :: int list"
  let ?x = "sigmoid (tanh (1 / 2) / 2) * tanh (1 / 4)"
  from outputGateLSTM_forward obtain fw
    where fw: "lstm_forward outputGateLSTM ?enc 0 (min (0 + 2) (int (length ?enc) - 1)) 0 (\<lambda>n. 0) 0
                 = Inr fw"
      and len: "length (cache fw) = 2"
      and mk: "mask (cache fw ! 1) = None"
      and ct: "c_t (cache fw ! 1) = \<lparr>rows = 1, cols = 1, data = [[1 / 4]]\<rparr>"
      and pr: "prob (cache fw ! 1) = softmax \<lparr>rows = 1, cols = 2, data = [[?x, 0]]\<rparr>"
    by blast
  from len have t: "1 < length (cache fw)" by simp
  from lstm_gradients_passed_back [OF outputGateLSTM_wf fw t] obtain g l g'
    where before: "forEach (lstm_backward_step outputGateLSTM ?enc 0 (hiddenStates fw) (cache fw))
         (rev [Suc 1..<length (cache fw)])
         \<lparr>dh_next_grad = createMatrix 1 1 0,
          gWhy = createMatrix 1 (length (vocab outputGateLSTM)) 0,
          gby = createMatrix 1 (length (vocab outputGateLSTM)) 0,
          dc_next_grad = createMatrix 1 1 0,
          gWf = createMatrix (length (vocab outputGateLSTM)) 1 0, gUf = createMatrix 1 1 0,
          gbf = createMatrix 1 1 0,
          gWi = createMatrix (length (vocab outputGateLSTM)) 1 0, gUi = createMatrix 1 1 0,
          gbi = createMatrix 1 1 0,
          gWo = createMatrix (length (vocab outputGateLSTM)) 1 0, gUo = createMatrix 1 1 0,
          gbo = createMatrix 1 1 0,
          gWc = createMatrix (length (vocab outputGateLSTM)) 1 0, gUc = createMatrix 1 1 0,
          gbc = createMatrix 1 1 0\<rparr> = Inr g"
      and it: "lstm_backward_iteration outputGateLSTM ?enc 0 (hiddenStates fw) (cache fw) 1 g
                 = Inr (l, g')"
      and rest: "lstm_backward outputGateLSTM ?enc 0 (hiddenStates fw) (cache fw)
        = forEach (lstm_backward_step outputGateLSTM ?enc 0 (hiddenStates fw) (cache fw))
            (rev [0..<1]) g'"
      and dh: "lstm_dh l = tabulate 1 1 (\<lambda>i j.
           ((\<Sum>k<length (vocab outputGateLSTM).
               entry (updateRow0 (prob (cache fw ! 1)) (nth_opt ?enc (Some (0 + int 1 + 1)))
                        (\<lambda>v. v - 1)) i k
               * entry (weights (Why outputGateLSTM)) j k)
            + entry (dh_next_grad g) i j)
           * (case mask (cache fw ! 1) of None \<Rightarrow> 1 | Some mk \<Rightarrow> entry mk i j))"
      and dor: "lstm_do_raw l = tabulate 1 1 (\<lambda>i j.
           entry (lstm_dh l) i j * tanh (entry (c_t (cache fw ! 1)) i j))"
      and dot: "lstm_do_t l = tabulate 1 1 (\<lambda>i j.
           entry (lstm_do_raw l) i j * dsigmoid (entry (o_t (cache fw ! 1)) i j))"
      and dc: "lstm_dc_t l = tabulate 1 1 (\<lambda>i j.
           entry (dc_next_grad g) i j
           + entry (lstm_dh l) i j
             * (entry (o_t (cache fw ! 1)) i j * dtanh (tanh (entry (c_t (cache fw ! 1)) i j))))"
      and dch: "lstm_dc_hat_raw l = tabulate 1 1 (\<lambda>i j.
           entry (lstm_dc_t l) i j * entry (i_t (cache fw ! 1)) i j
           * dtanh (entry (c_hat_t (cache fw ! 1)) i j))"
      and di: "lstm_di_raw l = tabulate 1 1 (\<lambda>i j.
           entry (lstm_dc_t l) i j * entry (c_hat_t (cache fw ! 1)) i j
           * dsigmoid (entry (i_t (cache fw ! 1)) i j))"
      and df: "lstm_df_raw l = tabulate 1 1 (\<lambda>i j.
           entry (lstm_dc_t l) i j * entry (c_prev (cache fw ! 1)) i j
           * dsigmoid (entry (f_t (cache fw ! 1)) i j))"
      and sWo: "gWo g' = add (gWo g) (dot_loops (transpose (inputVector (cache fw ! 1))) (lstm_do_t l))"
      and sUo: "gUo g' = add (gUo g) (dot_loops (transpose (h_prev (cache fw ! 1))) (lstm_do_t l))"
      and sbo: "gbo g' = add (gbo g) (lstm_do_t l)"
      and cx: "dc_next_grad g' = tabulate 1 1 (\<lambda>i j.
           entry (lstm_dc_t l) i j * entry (f_t (cache fw ! 1)) i j)"
      and nx: "dh_next_grad g' = tabulate 1 1 (\<lambda>i j.
           (\<Sum>k<1. entry (lstm_df_raw l) i k * entry (weights (Uf outputGateLSTM)) j k)
           + (\<Sum>k<1. entry (lstm_di_raw l) i k * entry (weights (Ui outputGateLSTM)) j k)
           + (\<Sum>k<1. entry (lstm_do_raw l) i k * entry (weights (Uo outputGateLSTM)) j k)
           + (\<Sum>k<1. entry (lstm_dc_hat_raw l) i k * entry (weights (Uc outputGateLSTM)) j k))"
    by blast
  let ?X = "\<lparr>rows = 1, cols = 2, data = [[?x, 0]]\<rparr>"
  let ?DY = "updateRow0 (prob (cache fw ! 1)) (nth_opt ?enc (Some (0 + int 1 + 1))) (\<lambda>v. v - 1)"
  let ?dy = "updateRow0 (softmax ?X) (nth_opt ?enc (Some (0 + int 1 + 1))) (\<lambda>v. v - 1)"
  have g0: "entry (dh_next_grad g) 0 0 = 0"
    using before by (auto simp: len)
  have p: "entry (softmax ?X) 0 0 < 1"
    by (rule softmax_pair_first_lt_one)
  have dh0: "entry (lstm_dh l) 0 0 = entry (softmax ?X) 0 0 - 1"
  proof -
    have "entry (lstm_dh l) 0 0
        = ((\<Sum>k<length (vocab outputGateLSTM). entry ?DY 0 k * entry (weights (Why outputGateLSTM)) 0 k)
           + entry (dh_next_grad g) 0 0)
          * (case mask (cache fw ! 1) of None \<Rightarrow> 1 | Some mk \<Rightarrow> entry mk 0 0)"
      unfolding dh by (rule tabulate_entry) simp_all
    also have "\<dots> = (\<Sum>k<length (vocab outputGateLSTM).
                         entry ?DY 0 k * entry (weights (Why outputGateLSTM)) 0 k)"
      unfolding mk g0 by simp
    also have "\<dots> = (\<Sum>k<length (vocab outputGateLSTM).
                         entry ?dy 0 k * entry (weights (Why outputGateLSTM)) 0 k)"
      unfolding pr ..
    also have "\<dots> = entry ?dy 0 0"
      by (simp add: outputGateLSTM_def entry_def lessThan_Suc eval_nat_numeral)
    also have "\<dots> = entry (softmax ?X) 0 0 - 1"
    proof -
      have "softmax ?X = \<lparr>rows = 1, cols = cols ?X,
              data = [map (\<lambda>e. e / softmax_sumExps [?x, 0]) (softmax_exps [?x, 0])]\<rparr>"
        by (rule softmax_row) simp_all
      then show ?thesis
        unfolding entry_def updateRow0_def
        by (simp add: nth_opt_def updateAt_def softmax_exps_def Let_def)
    qed
    finally show ?thesis .
  qed
  have dor0: "entry (lstm_do_raw l) 0 0 = entry (lstm_dh l) 0 0 * tanh (1 / 4)"
  proof -
    have "entry (lstm_do_raw l) 0 0
        = entry (lstm_dh l) 0 0 * tanh (entry (c_t (cache fw ! 1)) 0 0)"
      unfolding dor by (rule tabulate_entry) simp_all
    also have "\<dots> = entry (lstm_dh l) 0 0 * tanh (1 / 4)"
      unfolding ct by (simp add: entry_def)
    finally show ?thesis .
  qed
  have nz: "entry (lstm_do_raw l) 0 0 \<noteq> 0"
    using p by (simp add: dor0 dh0)
  have dot0: "entry (lstm_do_t l) 0 0
      = entry (lstm_do_raw l) 0 0 * dsigmoid (entry (o_t (cache fw ! 1)) 0 0)"
    unfolding dot by (rule tabulate_entry) simp_all
  have cx0: "entry (dc_next_grad g') 0 0 = entry (lstm_dc_t l) 0 0 * entry (f_t (cache fw ! 1)) 0 0"
    unfolding cx by (rule tabulate_entry) simp_all
  have U: "entry (weights (Uf outputGateLSTM)) 0 0 = 0" "entry (weights (Ui outputGateLSTM)) 0 0 = 0"
    "entry (weights (Uo outputGateLSTM)) 0 0 = 1" "entry (weights (Uc outputGateLSTM)) 0 0 = 0"
    by (simp_all add: outputGateLSTM_def entry_def)
  have nx0: "entry (dh_next_grad g') 0 0 = entry (lstm_do_raw l) 0 0"
  proof -
    have "entry (dh_next_grad g') 0 0
        = (\<Sum>k<1. entry (lstm_df_raw l) 0 k * entry (weights (Uf outputGateLSTM)) 0 k)
          + (\<Sum>k<1. entry (lstm_di_raw l) 0 k * entry (weights (Ui outputGateLSTM)) 0 k)
          + (\<Sum>k<1. entry (lstm_do_raw l) 0 k * entry (weights (Uo outputGateLSTM)) 0 k)
          + (\<Sum>k<1. entry (lstm_dc_hat_raw l) 0 k * entry (weights (Uc outputGateLSTM)) 0 k)"
      unfolding nx by (rule tabulate_entry) simp_all
    also have "\<dots> = entry (lstm_do_raw l) 0 0"
      by (simp add: U)
    finally show ?thesis .
  qed
  have claimed: "(\<Sum>k<1. entry (lstm_df_raw l) 0 k * entry (weights (Uf outputGateLSTM)) 0 k)
          + (\<Sum>k<1. entry (lstm_di_raw l) 0 k * entry (weights (Ui outputGateLSTM)) 0 k)
          + (\<Sum>k<1. entry (lstm_do_t l) 0 k * entry (weights (Uo outputGateLSTM)) 0 k)
          + (\<Sum>k<1. entry (lstm_dc_hat_raw l) 0 k * entry (weights (Uc outputGateLSTM)) 0 k)
      = entry (lstm_do_raw l) 0 0 * dsigmoid (entry (o_t (cache fw ! 1)) 0 0)"
    by (simp add: U dot0)
  have ne: "entry (dh_next_grad g') 0 0
        \<noteq> (\<Sum>k<1. entry (lstm_df_raw l) 0 k * entry (weights (Uf outputGateLSTM)) 0 k)
          + (\<Sum>k<1. entry (lstm_di_raw l) 0 k * entry (weights (Ui outputGateLSTM)) 0 k)
          + (\<Sum>k<1. entry (lstm_do_t l) 0 k * entry (weights (Uo outputGateLSTM)) 0 k)
          + (\<Sum>k<1. entry (lstm_dc_hat_raw l) 0 k * entry (weights (Uc outputGateLSTM)) 0 k)"
    unfolding claimed nx0 using nz dsigmoid_neq_one [of "entry (o_t (cache fw ! 1)) 0 0"] by simp
  show ?thesis
    by (intro exI conjI) (rule fw len it rest cx0 dot0 sbo nz nx0 ne)+
qed

end
